theory Spec2Isabelle
  imports Complex_Main "HOL-Library.Monad_Syntax"
begin

section \<open>JavaScript values\<close>

text \<open>
  The importer works on whatever \<^verbatim>\<open>JSON.parse\<close> returns, cast to the declared
  interfaces without any run-time check, so the model works on untyped values too.
  A number is \<open>NaN\<close> or a finite value; the rounding of doubles is not modelled.
  An object is the list of its own properties in enumeration order. A string is the
  list of its code units.
\<close>

datatype number = NaN | Fin rat

datatype jsval =
    Undefined
  | Null
  | Bool bool
  | Num number
  | Str string
  | Arr "jsval list"
  | Obj "(string \<times> jsval) list"

text \<open>
  A thrown exception is the result \<open>None\<close>. Every \<^verbatim>\<open>catch\<close> of the importer
  catches everything, so the class of the exception never decides control flow.
\<close>

type_synonym 'a throws = "'a option"

definition throw :: "'a throws" where
  "throw = None"

declare throw_def [simp]

text \<open>
  What the host provides: the JSON codec, the identifier generator, the clock, the
  date and number conversions and the text of a caught exception. Identifiers and clock
  readings are indexed by the place of the call (unit, call site, loop index).
\<close>

record runtime =
  JSON_parse :: "string \<Rightarrow> jsval throws"
  JSON_stringify :: "jsval \<Rightarrow> string"
  uuidv4 :: "nat list \<Rightarrow> string"
  Date_now :: "nat list \<Rightarrow> string"
  Date_getTime :: "jsval \<Rightarrow> number"
  Date_toISOString :: "number \<Rightarrow> string throws"
  number_toString :: "number \<Rightarrow> string"
  string_toNumber :: "string \<Rightarrow> number"
  string_toBigInt :: "string \<Rightarrow> int throws"
  Error_message :: string

subsection \<open>Decimal numerals\<close>

definition digit_char :: "nat \<Rightarrow> char" where
  "digit_char d =
     (if d = 0 then CHR ''0'' else if d = 1 then CHR ''1'' else if d = 2 then CHR ''2''
      else if d = 3 then CHR ''3'' else if d = 4 then CHR ''4'' else if d = 5 then CHR ''5''
      else if d = 6 then CHR ''6'' else if d = 7 then CHR ''7'' else if d = 8 then CHR ''8''
      else CHR ''9'')"

fun decimal :: "nat \<Rightarrow> string" where
  "decimal n = (if n < 10 then [digit_char n] else decimal (n div 10) @ [digit_char (n mod 10)])"

declare decimal.simps [simp del]

definition is_digit :: "char \<Rightarrow> bool" where
  "is_digit c = (48 \<le> (of_char c :: nat) \<and> (of_char c :: nat) \<le> 57)"

text \<open>An array index written as a property name: a canonical decimal numeral.\<close>

definition index_of_key :: "string \<Rightarrow> nat option" where
  "index_of_key k =
     (if k \<noteq> [] \<and> list_all is_digit k \<and> (k = ''0'' \<or> hd k \<noteq> CHR ''0'')
      then Some (foldl (\<lambda>n c. 10 * n + ((of_char c :: nat) - 48)) 0 k)
      else None)"

subsection \<open>Operators\<close>

fun typeof :: "jsval \<Rightarrow> string" where
  "typeof Undefined = ''undefined''"
| "typeof Null = ''object''"
| "typeof (Bool b) = ''boolean''"
| "typeof (Num n) = ''number''"
| "typeof (Str s) = ''string''"
| "typeof (Arr xs) = ''object''"
| "typeof (Obj kvs) = ''object''"

fun isArray :: "jsval \<Rightarrow> bool" where
  "isArray (Arr xs) = True"
| "isArray v = False"

fun truthy :: "jsval \<Rightarrow> bool" where
  "truthy Undefined = False"
| "truthy Null = False"
| "truthy (Bool b) = b"
| "truthy (Num n) = (n \<noteq> NaN \<and> n \<noteq> Fin 0)"
| "truthy (Str s) = (s \<noteq> [])"
| "truthy (Arr xs) = True"
| "truthy (Obj kvs) = True"

text \<open>\<^verbatim>\<open>a || b\<close>\<close>

definition or_else :: "jsval \<Rightarrow> jsval \<Rightarrow> jsval" where
  "or_else a b = (if truthy a then a else b)"

definition nullish :: "jsval \<Rightarrow> bool" where
  "nullish v = (v = Undefined \<or> v = Null)"

text \<open>
  A property read on a value that is neither \<^verbatim>\<open>null\<close> nor \<^verbatim>\<open>undefined\<close>.
  Inherited members are left out: the importer reads no property name that a prototype
  of a parsed value defines, \<^verbatim>\<open>length\<close> apart.
\<close>

fun read_prop :: "jsval \<Rightarrow> string \<Rightarrow> jsval" where
  "read_prop (Obj kvs) k = (case map_of kvs k of None \<Rightarrow> Undefined | Some v \<Rightarrow> v)"
| "read_prop (Arr xs) k =
     (if k = ''length'' then Num (Fin (of_nat (length xs)))
      else case index_of_key k of
             Some i \<Rightarrow> if i < length xs then xs ! i else Undefined
           | None \<Rightarrow> Undefined)"
| "read_prop (Str s) k =
     (if k = ''length'' then Num (Fin (of_nat (length s)))
      else case index_of_key k of
             Some i \<Rightarrow> if i < length s then Str [s ! i] else Undefined
           | None \<Rightarrow> Undefined)"
| "read_prop v k = Undefined"

text \<open>\<^verbatim>\<open>v.k\<close>: a \<^verbatim>\<open>TypeError\<close> on \<^verbatim>\<open>null\<close> and \<^verbatim>\<open>undefined\<close>.\<close>

definition get :: "jsval \<Rightarrow> string \<Rightarrow> jsval throws" where
  "get v k = (if nullish v then throw else Some (read_prop v k))"

text \<open>\<^verbatim>\<open>v?.k\<close>\<close>

definition opt_get :: "jsval \<Rightarrow> string \<Rightarrow> jsval" where
  "opt_get v k = (if nullish v then Undefined else read_prop v k)"

text \<open>\<^verbatim>\<open>k in v\<close>: a \<^verbatim>\<open>TypeError\<close> unless \<open>v\<close> is an object or an array.\<close>

fun has_key :: "string \<Rightarrow> jsval \<Rightarrow> bool throws" where
  "has_key k (Obj kvs) = Some (k \<in> set (map fst kvs))"
| "has_key k (Arr xs) =
     Some (k = ''length'' \<or> (case index_of_key k of Some i \<Rightarrow> i < length xs | None \<Rightarrow> False))"
| "has_key k v = throw"

text \<open>\<^verbatim>\<open>xs[i]\<close> with a number \<open>i\<close>, on a value that is not nullish, and \<^verbatim>\<open>xs?.[i]\<close>.\<close>

fun read_index :: "jsval \<Rightarrow> nat \<Rightarrow> jsval" where
  "read_index (Arr xs) i = (if i < length xs then xs ! i else Undefined)"
| "read_index (Str s) i = (if i < length s then Str [s ! i] else Undefined)"
| "read_index (Obj kvs) i = read_prop (Obj kvs) (decimal i)"
| "read_index v i = Undefined"

definition opt_index :: "jsval \<Rightarrow> nat \<Rightarrow> jsval" where
  "opt_index v i = (if nullish v then Undefined else read_index v i)"

text \<open>
  The receiver of an array method (\<^verbatim>\<open>find\<close>, \<^verbatim>\<open>map\<close>, \<^verbatim>\<open>filter\<close>,
  \<^verbatim>\<open>flatMap\<close>, \<^verbatim>\<open>forEach\<close>): anything but an array has no such method, and
  calling it throws.
\<close>

fun array_receiver :: "jsval \<Rightarrow> jsval list throws" where
  "array_receiver (Arr xs) = Some xs"
| "array_receiver v = throw"

text \<open>\<^verbatim>\<open>for (const x of v)\<close>: arrays and strings are iterable.\<close>

fun iterate :: "jsval \<Rightarrow> jsval list throws" where
  "iterate (Arr xs) = Some xs"
| "iterate (Str s) = Some (map (\<lambda>c. Str [c]) s)"
| "iterate v = throw"

text \<open>The own enumerable properties, as the object spread and \<^verbatim>\<open>Object.entries\<close> see them.\<close>

fun own_entries :: "jsval \<Rightarrow> (string \<times> jsval) list" where
  "own_entries (Obj kvs) = kvs"
| "own_entries (Arr xs) = zip (map decimal [0..<length xs]) xs"
| "own_entries (Str s) = zip (map decimal [0..<length s]) (map (\<lambda>c. Str [c]) s)"
| "own_entries v = []"

text \<open>An assignment to a property: a key already present keeps its place.\<close>

fun set_prop :: "string \<Rightarrow> jsval \<Rightarrow> (string \<times> jsval) list \<Rightarrow> (string \<times> jsval) list" where
  "set_prop k v [] = [(k, v)]"
| "set_prop k v ((k', v') # kvs) =
     (if k' = k then (k, v) # kvs else (k', v') # set_prop k v kvs)"

text \<open>The object literal \<^verbatim>\<open>{ ...base, k1: v1, k2: v2 }\<close>.\<close>

definition set_props ::
  "(string \<times> jsval) list \<Rightarrow> (string \<times> jsval) list \<Rightarrow> (string \<times> jsval) list" where
  "set_props base kvs = foldl (\<lambda>acc kv. set_prop (fst kv) (snd kv) acc) base kvs"

subsection \<open>Conversions\<close>

definition join :: "string \<Rightarrow> string list \<Rightarrow> string" where
  "join sep xs = (case xs of [] \<Rightarrow> [] | y # ys \<Rightarrow> foldl (\<lambda>acc z. acc @ sep @ z) y ys)"

text \<open>\<^verbatim>\<open>String(v)\<close>\<close>

fun to_String :: "runtime \<Rightarrow> jsval \<Rightarrow> string" where
  "to_String rt Undefined = ''undefined''"
| "to_String rt Null = ''null''"
| "to_String rt (Bool b) = (if b then ''true'' else ''false'')"
| "to_String rt (Num n) = number_toString rt n"
| "to_String rt (Str s) = s"
| "to_String rt (Arr xs) =
     join '','' (map (\<lambda>x. if x = Undefined \<or> x = Null then [] else to_String rt x) xs)"
| "to_String rt (Obj kvs) = ''[object Object]''"

text \<open>\<^verbatim>\<open>Number(v)\<close>\<close>

fun to_Number :: "runtime \<Rightarrow> jsval \<Rightarrow> number" where
  "to_Number rt Undefined = NaN"
| "to_Number rt Null = Fin 0"
| "to_Number rt (Bool b) = (if b then Fin 1 else Fin 0)"
| "to_Number rt (Num n) = n"
| "to_Number rt (Str s) = string_toNumber rt s"
| "to_Number rt v = string_toNumber rt (to_String rt v)"

fun num_add :: "number \<Rightarrow> number \<Rightarrow> number" where
  "num_add (Fin a) (Fin b) = Fin (a + b)"
| "num_add a b = NaN"

fun num_sub :: "number \<Rightarrow> number \<Rightarrow> number" where
  "num_sub (Fin a) (Fin b) = Fin (a - b)"
| "num_sub a b = NaN"

fun to_primitive :: "runtime \<Rightarrow> jsval \<Rightarrow> jsval" where
  "to_primitive rt (Arr xs) = Str (to_String rt (Arr xs))"
| "to_primitive rt (Obj kvs) = Str (to_String rt (Obj kvs))"
| "to_primitive rt v = v"

fun is_Str :: "jsval \<Rightarrow> bool" where
  "is_Str (Str s) = True"
| "is_Str v = False"

text \<open>\<^verbatim>\<open>a + b\<close>: concatenation as soon as one side is a string.\<close>

definition plus_js :: "runtime \<Rightarrow> jsval \<Rightarrow> jsval \<Rightarrow> jsval" where
  "plus_js rt a b =
     (let pa = to_primitive rt a; pb = to_primitive rt b
      in if is_Str pa \<or> is_Str pb then Str (to_String rt pa @ to_String rt pb)
         else Num (num_add (to_Number rt pa) (to_Number rt pb)))"

subsection \<open>Strings\<close>

text \<open>
  The model's strings hold 8-bit characters; \<^verbatim>\<open>toLowerCase\<close> is modelled on the letters
  \<open>A\<close> to \<open>Z\<close>.
\<close>

definition toLowerCase_char :: "char \<Rightarrow> char" where
  "toLowerCase_char c =
     (case map_of (zip ''ABCDEFGHIJKLMNOPQRSTUVWXYZ'' ''abcdefghijklmnopqrstuvwxyz'') c of
        Some l \<Rightarrow> l
      | None \<Rightarrow> c)"

definition toLowerCase :: "string \<Rightarrow> string" where
  "toLowerCase s = map toLowerCase_char s"

definition startsWith :: "string \<Rightarrow> string \<Rightarrow> bool" where
  "startsWith s t = (take (length t) s = t)"

primrec includes_str :: "string \<Rightarrow> string \<Rightarrow> bool" where
  "includes_str [] t = (t = [])"
| "includes_str (c # s) t = (startsWith (c # s) t \<or> includes_str s t)"

definition is_space :: "char \<Rightarrow> bool" where
  "is_space c = ((of_char c :: nat) \<in> {9, 10, 11, 12, 13, 32, 160})"

definition trim :: "string \<Rightarrow> string" where
  "trim s = rev (dropWhile is_space (rev (dropWhile is_space s)))"

text \<open>\<^verbatim>\<open>text.split('\\n')\<close>\<close>

primrec split_lines :: "string \<Rightarrow> string list" where
  "split_lines [] = [[]]"
| "split_lines (c # s) =
     (if c = CHR 0x0A then [] # split_lines s
      else (case split_lines s of [] \<Rightarrow> [[c]] | l # ls \<Rightarrow> (c # l) # ls))"

subsection \<open>Array methods whose callback may throw\<close>

text \<open>\<^verbatim>\<open>xs.find(f)\<close>: stops at the first match; \<open>Undefined\<close> when there is none.\<close>

primrec find_js :: "(jsval \<Rightarrow> bool throws) \<Rightarrow> jsval list \<Rightarrow> jsval throws" where
  "find_js f [] = Some Undefined"
| "find_js f (x # xs) = do { b \<leftarrow> f x; if b then Some x else find_js f xs }"

primrec filter_js :: "('a \<Rightarrow> bool throws) \<Rightarrow> 'a list \<Rightarrow> 'a list throws" where
  "filter_js f [] = Some []"
| "filter_js f (x # xs) = do { b \<leftarrow> f x; ys \<leftarrow> filter_js f xs; Some (if b then x # ys else ys) }"

primrec map_js :: "('a \<Rightarrow> 'b throws) \<Rightarrow> 'a list \<Rightarrow> 'b list throws" where
  "map_js f [] = Some []"
| "map_js f (x # xs) = do { y \<leftarrow> f x; ys \<leftarrow> map_js f xs; Some (y # ys) }"

text \<open>\<^verbatim>\<open>xs.every(f)\<close> and \<^verbatim>\<open>xs.some(f)\<close> stop at the first element that decides.\<close>

primrec every_js :: "('a \<Rightarrow> bool throws) \<Rightarrow> 'a list \<Rightarrow> bool throws" where
  "every_js f [] = Some True"
| "every_js f (x # xs) = do { b \<leftarrow> f x; if b then every_js f xs else Some False }"

primrec some_js :: "('a \<Rightarrow> bool throws) \<Rightarrow> 'a list \<Rightarrow> bool throws" where
  "some_js f [] = Some False"
| "some_js f (x # xs) = do { b \<leftarrow> f x; if b then Some True else some_js f xs }"

text \<open>\<^verbatim>\<open>xs.flatMap(f)\<close>\<close>

definition flatMap_js :: "('a \<Rightarrow> 'b list throws) \<Rightarrow> 'a list \<Rightarrow> 'b list throws" where
  "flatMap_js f xs = do { ys \<leftarrow> map_js f xs; Some (concat ys) }"

text \<open>\<^verbatim>\<open>a && b\<close> and \<^verbatim>\<open>a || b\<close> on conditions that may throw.\<close>

definition and_then :: "bool throws \<Rightarrow> bool throws \<Rightarrow> bool throws" where
  "and_then a b = do { x \<leftarrow> a; if x then b else Some False }"

definition or_then :: "bool throws \<Rightarrow> bool throws \<Rightarrow> bool throws" where
  "or_then a b = do { x \<leftarrow> a; if x then Some True else b }"

text \<open>An element paired with its index, as the callbacks of \<^verbatim>\<open>map\<close> and \<^verbatim>\<open>forEach\<close> get it.\<close>

definition indexed :: "'a list \<Rightarrow> ('a \<times> nat) list" where
  "indexed xs = zip xs [0..<length xs]"

section \<open>The generic normalization chain\<close>

definition SCHEMA_VERSION :: jsval where
  "SCHEMA_VERSION = Num (Fin 1)"

definition isReviewItemFormat :: "jsval \<Rightarrow> bool throws" where
  "isReviewItemFormat data = do {
     input \<leftarrow> get data ''input'';
     if typeof input = ''object'' \<and> input \<noteq> Null then
       and_then (has_key ''prompt'' input)
         (do { outputs \<leftarrow> get data ''outputs''; Some (isArray outputs) })
     else Some False
   }"

definition isOpenAIFormat :: "jsval \<Rightarrow> bool throws" where
  "isOpenAIFormat data =
     and_then (has_key ''model'' data)
       (and_then (has_key ''choices'' data)
          (do { choices \<leftarrow> get data ''choices''; Some (isArray choices) }))"

definition isOpenAIFineTuneFormat :: "jsval \<Rightarrow> bool throws" where
  "isOpenAIFineTuneFormat data =
     and_then (has_key ''messages'' data)
       (do { messages \<leftarrow> get data ''messages''; Some (isArray messages) })"

definition isGenericFormat :: "jsval \<Rightarrow> bool throws" where
  "isGenericFormat data =
     and_then
       (or_then (has_key ''prompt'' data)
          (or_then (has_key ''question'' data) (has_key ''input'' data)))
       (or_then (has_key ''response'' data)
          (or_then (has_key ''answer'' data)
             (or_then (has_key ''output'' data) (has_key ''completion'' data))))"

definition convertOpenAIFormat :: "runtime \<Rightarrow> nat list \<Rightarrow> jsval \<Rightarrow> string \<Rightarrow> jsval throws" where
  "convertOpenAIFormat rt p data now = do {
     choices \<leftarrow> get data ''choices'';
     prompt \<leftarrow> get data ''prompt'';
     model \<leftarrow> get data ''model'';
     usage \<leftarrow> get data ''usage'';
     cs \<leftarrow> array_receiver choices;
     outputs \<leftarrow> map_js (\<lambda>(choice, index). do {
         message \<leftarrow> get choice ''message'';
         text \<leftarrow> get choice ''text'';
         Some (Obj [
           (''model_id'', Str (to_String rt (or_else model (Str (''model_'' @ decimal index))))),
           (''text'', or_else (or_else (opt_get message ''content'') text) (Str [])),
           (''token_usage'',
              Num (to_Number rt (or_else (opt_get usage ''total_tokens'') (Num (Fin 0))))),
           (''latency_ms'', Num (Fin 0))])
       }) (indexed cs);
     Some (Obj [
       (''id'', Str (uuidv4 rt (p @ [0]))),
       (''version'', SCHEMA_VERSION),
       (''created_at'', Str now),
       (''updated_at'', Str now),
       (''status'', Str ''pending''),
       (''input'', Obj [
          (''prompt'', Str (to_String rt (or_else prompt (Str [])))),
          (''context_chunks'', Arr [])]),
       (''outputs'', Arr outputs),
       (''human_feedback'', Obj [])])
   }"

text \<open>\<^verbatim>\<open>messages.find((m) => m.role === r)\<close>\<close>

definition find_role :: "string \<Rightarrow> jsval list \<Rightarrow> jsval throws" where
  "find_role r ms = find_js (\<lambda>m. do { role \<leftarrow> get m ''role''; Some (role = Str r) }) ms"

definition convertOpenAIFineTuneFormat ::
  "runtime \<Rightarrow> nat list \<Rightarrow> jsval \<Rightarrow> string \<Rightarrow> jsval throws" where
  "convertOpenAIFineTuneFormat rt p data now = do {
     messages \<leftarrow> get data ''messages'';
     ms \<leftarrow> array_receiver messages;
     systemMessage \<leftarrow> find_role ''system'' ms;
     userMessage \<leftarrow> find_role ''user'' ms;
     assistantMessage \<leftarrow> find_role ''assistant'' ms;
     context \<leftarrow> get data ''context'';
     contextChunks \<leftarrow>
       (if truthy context \<and> isArray context then do {
          cs \<leftarrow> iterate context;
          map_js (\<lambda>(chunk, i). do {
              metadata \<leftarrow> get chunk ''metadata'';
              Some (Obj [
                (''id'', Str (to_String rt
                   (or_else (read_prop chunk ''id'') (Str (uuidv4 rt (p @ [1, i])))))),
                (''text'', Str (to_String rt
                   (or_else (or_else (read_prop chunk ''text'') (read_prop chunk ''content''))
                      (Str [])))),
                (''source'', Str (to_String rt
                   (or_else (or_else (read_prop chunk ''source'') (opt_get metadata ''source''))
                      (Str ''unknown'')))),
                (''score'', Num (to_Number rt
                   (or_else (or_else (read_prop chunk ''score'') (read_prop chunk ''similarity''))
                      (Num (Fin 0))))),
                (''metadata'', metadata)])
            }) (indexed cs)
        } else Some []);
     model \<leftarrow> get data ''model'';
     outputs \<leftarrow>
       (if truthy assistantMessage then do {
          content \<leftarrow> get assistantMessage ''content'';
          Some [Obj [
            (''model_id'', Str (to_String rt (or_else model (Str ''assistant'')))),
            (''text'', content),
            (''token_usage'', Num (Fin 0)),
            (''latency_ms'', Num (Fin 0))]]
        } else Some []);
     Some (Obj [
       (''id'', Str (uuidv4 rt (p @ [0]))),
       (''version'', SCHEMA_VERSION),
       (''created_at'', Str now),
       (''updated_at'', Str now),
       (''status'', Str ''pending''),
       (''input'', Obj [
          (''prompt'', or_else (opt_get userMessage ''content'') (Str [])),
          (''system_prompt'', opt_get systemMessage ''content''),
          (''context_chunks'', Arr contextChunks)]),
       (''outputs'', Arr outputs),
       (''human_feedback'', Obj [])])
   }"

text \<open>
  The chunk built from an object entry of a context list; \<open>keys\<close> are the text fields
  tried in order and \<open>scores\<close> the score fields.
\<close>

definition firstTruthy :: "jsval \<Rightarrow> string list \<Rightarrow> jsval \<Rightarrow> jsval" where
  "firstTruthy v keys dflt = foldr (\<lambda>k rest. or_else (read_prop v k) rest) keys dflt"

definition convertGenericFormat :: "runtime \<Rightarrow> nat list \<Rightarrow> jsval \<Rightarrow> string \<Rightarrow> jsval throws" where
  "convertGenericFormat rt p data now = do {
     input \<leftarrow> get data ''input'';
     nested \<leftarrow>
       (if typeof input = ''object'' \<and> input \<noteq> Null then has_key ''prompt'' input
        else Some False);
     inputContextChunks \<leftarrow>
       (if nested \<and> truthy (read_prop input ''context_chunks'')
           \<and> isArray (read_prop input ''context_chunks'') then do {
          cs \<leftarrow> iterate (read_prop input ''context_chunks'');
          map_js (\<lambda>(chunk, i). do {
              metadata \<leftarrow> get chunk ''metadata'';
              Some (Obj [
                (''id'', Str (to_String rt
                   (or_else (read_prop chunk ''id'') (Str (uuidv4 rt (p @ [1, i])))))),
                (''text'', Str (to_String rt (firstTruthy chunk [''text'', ''content''] (Str [])))),
                (''source'', Str (to_String rt
                   (or_else (or_else (read_prop chunk ''source'') (opt_get metadata ''source''))
                      (Str ''unknown'')))),
                (''score'', Num (to_Number rt
                   (firstTruthy chunk [''score'', ''similarity'', ''relevance_score''] (Num (Fin 0))))),
                (''metadata'', metadata)])
            }) (indexed cs)
        } else Some []);
     let prompt =
       (if nested then to_String rt (or_else (read_prop input ''prompt'') (Str []))
        else to_String rt (firstTruthy data [''prompt'', ''question'', ''input''] (Str [])));
     let systemPrompt =
       (if nested then read_prop input ''system_prompt'' else read_prop data ''system_prompt'');
     let response =
       to_String rt (firstTruthy data [''response'', ''answer'', ''output'', ''completion''] (Str []));
     let contextField =
       or_else (read_prop data ''context'')
         (or_else (read_prop data ''contexts'')
            (or_else (read_prop data ''documents'') (read_prop data ''chunks'')));
     moreChunks \<leftarrow>
       (if isArray contextField then do {
          cs \<leftarrow> iterate contextField;
          map_js (\<lambda>(chunk, i).
              if typeof chunk = ''string'' then
                Some (Obj [
                  (''id'', Str (uuidv4 rt (p @ [2, i]))),
                  (''text'', chunk),
                  (''source'', Str ''document''),
                  (''score'', Num (Fin 0))])
              else do {
                metadata \<leftarrow> get chunk ''metadata'';
                Some (Obj [
                  (''id'', Str (to_String rt
                     (or_else (read_prop chunk ''id'') (Str (uuidv4 rt (p @ [2, i])))))),
                  (''text'', Str (to_String rt
                     (firstTruthy chunk [''text'', ''content'', ''page_content''] (Str [])))),
                  (''source'', Str (to_String rt
                     (or_else (or_else (read_prop chunk ''source'') (opt_get metadata ''source''))
                        (Str ''unknown'')))),
                  (''score'', Num (to_Number rt
                     (firstTruthy chunk [''score'', ''similarity'', ''relevance_score'']
                        (Num (Fin 0))))),
                  (''metadata'', metadata)])
              }) (indexed cs)
        } else Some []);
     Some (Obj [
       (''id'', Str (to_String rt (or_else (read_prop data ''id'') (Str (uuidv4 rt (p @ [0])))))),
       (''version'', SCHEMA_VERSION),
       (''created_at'', Str (to_String rt (or_else (read_prop data ''created_at'') (Str now)))),
       (''updated_at'', Str now),
       (''status'', Str ''pending''),
       (''tags'', if isArray (read_prop data ''tags'') then read_prop data ''tags'' else Undefined),
       (''input'', Obj [
          (''prompt'', Str prompt),
          (''system_prompt'', systemPrompt),
          (''context_chunks'', Arr (inputContextChunks @ moreChunks))]),
       (''outputs'', Arr [Obj [
          (''model_id'', Str (to_String rt (firstTruthy data [''model'', ''model_id''] (Str ''default'')))),
          (''text'', Str response),
          (''token_usage'', Num (to_Number rt (firstTruthy data [''tokens'', ''token_usage''] (Num (Fin 0))))),
          (''latency_ms'', Num (to_Number rt (firstTruthy data [''latency'', ''latency_ms''] (Num (Fin 0)))))]]),
       (''human_feedback'', Obj [])])
   }"

text \<open>\<^verbatim>\<open>xs[i]?.value\<close> on a list the code has just built.\<close>

definition nth_value :: "jsval list \<Rightarrow> nat \<Rightarrow> jsval" where
  "nth_value xs i = (if i < length xs then opt_get (xs ! i) ''value'' else Undefined)"

fun long_string :: "string \<times> jsval \<Rightarrow> bool" where
  "long_string (k, Str s) = (10 < length s)"
| "long_string (k, v) = False"

definition convertBestEffort :: "runtime \<Rightarrow> nat list \<Rightarrow> jsval \<Rightarrow> string \<Rightarrow> jsval throws" where
  "convertBestEffort rt p data now =
     (if nullish data then throw
      else
        let textFields =
              map (\<lambda>(key, val). Obj [(''key'', Str key), (''value'', val)])
                (filter long_string (own_entries data));
            prompt = or_else (nth_value textFields 0) (Str (JSON_stringify rt data));
            response = or_else (nth_value textFields 1) (Str [])
        in Some (Obj [
             (''id'', Str (uuidv4 rt (p @ [0]))),
             (''version'', SCHEMA_VERSION),
             (''created_at'', Str now),
             (''updated_at'', Str now),
             (''status'', Str ''pending''),
             (''input'', Obj [
                (''prompt'', prompt),
                (''context_chunks'', Arr [])]),
             (''outputs'',
                if truthy response then
                  Arr [Obj [
                    (''model_id'', Str ''unknown''),
                    (''text'', response),
                    (''token_usage'', Num (Fin 0)),
                    (''latency_ms'', Num (Fin 0))]]
                else Arr []),
             (''human_feedback'', Obj [])]))"

text \<open>The record the already-canonical branch builds: the spread of \<open>data\<close> with five fields set.\<close>

definition passthrough :: "runtime \<Rightarrow> nat list \<Rightarrow> jsval \<Rightarrow> string \<Rightarrow> jsval" where
  "passthrough rt p data now =
     Obj (set_props (own_entries data) [
       (''id'', or_else (read_prop data ''id'') (Str (uuidv4 rt (p @ [0])))),
       (''version'', SCHEMA_VERSION),
       (''created_at'', or_else (read_prop data ''created_at'') (Str now)),
       (''updated_at'', Str now),
       (''status'', or_else (read_prop data ''status'') (Str ''pending''))])"

text \<open>
  \<^verbatim>\<open>normalizeToReviewItem(data, lineNumber)\<close>; \<open>p\<close> is the place of the call, which
  indexes the clock reading and the identifiers it draws.
\<close>

definition normalizeToReviewItem :: "runtime \<Rightarrow> nat list \<Rightarrow> jsval \<Rightarrow> nat \<Rightarrow> jsval throws" where
  "normalizeToReviewItem rt p data lineNumber = do {
     let now = Date_now rt p;
     canonical \<leftarrow> isReviewItemFormat data;
     if canonical then Some (passthrough rt p data now)
     else do {
       openai \<leftarrow> isOpenAIFormat data;
       if openai then convertOpenAIFormat rt p data now
       else do {
         finetune \<leftarrow> isOpenAIFineTuneFormat data;
         if finetune then convertOpenAIFineTuneFormat rt p data now
         else do {
           generic \<leftarrow> isGenericFormat data;
           if generic then convertGenericFormat rt p data now
           else convertBestEffort rt p data now
         }
       }
     }
   }"

section \<open>The LangSmith adapter\<close>

text \<open>
  Once a read of a value has succeeded the value is neither \<^verbatim>\<open>null\<close> nor
  \<^verbatim>\<open>undefined\<close>; the later reads of the same value are written with \<open>read_prop\<close>.
\<close>

definition isLangSmithRun :: "jsval \<Rightarrow> bool throws" where
  "isLangSmithRun data =
     (if typeof data \<noteq> ''object'' \<or> data = Null then Some False
      else do {
        ownFormat \<leftarrow> and_then (has_key ''outputs'' data) (Some (isArray (read_prop data ''outputs'')));
        if ownFormat then Some False
        else do {
          hasInput \<leftarrow> and_then (has_key ''input'' data)
            (Some (typeof (read_prop data ''input'') = ''object'' \<and> read_prop data ''input'' \<noteq> Null));
          ownInput \<leftarrow>
            (if hasInput then
               and_then (has_key ''prompt'' (read_prop data ''input''))
                 (has_key ''context_chunks'' (read_prop data ''input''))
             else Some False);
          if ownInput then Some False
          else do {
            hasId \<leftarrow> or_then (has_key ''run_id'' data) (has_key ''id'' data);
            hasIO \<leftarrow> or_then (has_key ''inputs'' data) (has_key ''outputs'' data);
            hasRunType \<leftarrow> or_then (has_key ''run_type'' data) (has_key ''name'' data);
            Some (hasId \<and> (hasIO \<or> hasRunType))
          }
        }
      })"

definition isLangSmithExport :: "jsval \<Rightarrow> bool throws" where
  "isLangSmithExport data =
     (if typeof data \<noteq> ''object'' \<or> data = Null then Some False
      else case data of
        Arr xs \<Rightarrow> and_then (Some (0 < length xs)) (every_js isLangSmithRun xs)
      | _ \<Rightarrow> do {
          hasRuns \<leftarrow> and_then (has_key ''runs'' data) (Some (isArray (read_prop data ''runs'')));
          if hasRuns then do {
            runs \<leftarrow> array_receiver (read_prop data ''runs'');
            and_then (Some (0 < length runs)) (every_js isLangSmithRun runs)
          }
          else do {
            single \<leftarrow> and_then (has_key ''run'' data) (isLangSmithRun (read_prop data ''run''));
            if single then Some True else isLangSmithRun data
          }
        })"

text \<open>\<^verbatim>\<open>getSpanType(runType)\<close>: \<^verbatim>\<open>toLowerCase\<close> exists on strings only.\<close>

definition getSpanType :: "jsval \<Rightarrow> string throws" where
  "getSpanType runType =
     (if \<not> truthy runType then Some ''unknown''
      else case runType of
        Str s \<Rightarrow>
          (let type = toLowerCase s
           in Some (if type = ''llm'' \<or> type = ''chat_model'' then ''llm''
                    else if type = ''retriever'' then ''retriever''
                    else if type = ''chain'' then ''chain''
                    else if type = ''tool'' then ''tool''
                    else if type = ''embedding'' then ''embedding''
                    else ''unknown''))
      | _ \<Rightarrow> throw)"

text \<open>\<^verbatim>\<open>extractPrompt(inputs)\<close> returns the prompt and the system prompt.\<close>

definition extractPrompt :: "runtime \<Rightarrow> jsval \<Rightarrow> (jsval \<times> jsval) throws" where
  "extractPrompt rt inputs = do {
     chat \<leftarrow> and_then (has_key ''messages'' inputs) (Some (isArray (read_prop inputs ''messages'')));
     if chat then do {
       messages \<leftarrow> array_receiver (read_prop inputs ''messages'');
       systemMsg \<leftarrow> find_role ''system'' messages;
       userMsg \<leftarrow> find_role ''user'' messages;
       lastUserMsg \<leftarrow> find_role ''user'' (rev messages);
       Some (or_else (or_else (opt_get lastUserMsg ''content'') (opt_get userMsg ''content'')) (Str []),
             opt_get systemMsg ''content'')
     }
     else do {
       hasPrompt \<leftarrow> has_key ''prompt'' inputs;
       if hasPrompt \<and> typeof (read_prop inputs ''prompt'') = ''string'' then
         Some (read_prop inputs ''prompt'', Undefined)
       else if hasPrompt \<and> typeof (read_prop inputs ''prompt'') = ''object''
                \<and> read_prop inputs ''prompt'' \<noteq> Null then
         (let promptObj = read_prop inputs ''prompt''
          in Some (Str (to_String rt
                     (or_else (or_else (read_prop promptObj ''template'') (read_prop promptObj ''text''))
                        (Str (JSON_stringify rt promptObj)))),
                   Undefined))
       else do {
         hasInput \<leftarrow> has_key ''input'' inputs;
         if hasInput then Some (Str (to_String rt (read_prop inputs ''input'')), Undefined)
         else do {
           hasQuestion \<leftarrow> has_key ''question'' inputs;
           if hasQuestion then Some (Str (to_String rt (read_prop inputs ''question'')), Undefined)
           else do {
             hasQuery \<leftarrow> has_key ''query'' inputs;
             if hasQuery then Some (Str (to_String rt (read_prop inputs ''query'')), Undefined)
             else Some (Str (JSON_stringify rt inputs), Undefined)
           }
         }
       }
     }
   }"

definition extractResponse :: "runtime \<Rightarrow> jsval \<Rightarrow> jsval throws" where
  "extractResponse rt outputs = do {
     hasGens \<leftarrow> and_then (has_key ''generations'' outputs)
       (Some (isArray (read_prop outputs ''generations'')));
     let gen = (if hasGens then opt_index (read_index (read_prop outputs ''generations'') 0) 0
                else Undefined);
     if hasGens \<and> truthy gen then
       Some (or_else (or_else (read_prop gen ''text'') (opt_get (read_prop gen ''message'') ''content''))
               (Str []))
     else do {
       hasMessage \<leftarrow> has_key ''message'' outputs;
       if hasMessage \<and> typeof (read_prop outputs ''message'') = ''object''
            \<and> read_prop outputs ''message'' \<noteq> Null then
         Some (Str (to_String rt (or_else (read_prop (read_prop outputs ''message'') ''content'') (Str []))))
       else do {
         hasOutput \<leftarrow> has_key ''output'' outputs;
         if hasOutput then Some (Str (to_String rt (read_prop outputs ''output'')))
         else do {
           hasText \<leftarrow> has_key ''text'' outputs;
           if hasText then Some (Str (to_String rt (read_prop outputs ''text'')))
           else do {
             hasAnswer \<leftarrow> has_key ''answer'' outputs;
             if hasAnswer then Some (Str (to_String rt (read_prop outputs ''answer'')))
             else do {
               hasResponse \<leftarrow> has_key ''response'' outputs;
               if hasResponse then Some (Str (to_String rt (read_prop outputs ''response'')))
               else Some (Str (JSON_stringify rt outputs))
             }
           }
         }
       }
     }
   }"

definition extractContextFromRetriever :: "runtime \<Rightarrow> nat list \<Rightarrow> jsval \<Rightarrow> jsval list throws" where
  "extractContextFromRetriever rt p run = do {
     outputs \<leftarrow> get run ''outputs'';
     if \<not> truthy outputs then Some []
     else
       let docs = firstTruthy outputs [''documents'', ''docs''] (read_prop outputs ''results'')
       in if isArray docs then do {
            ds \<leftarrow> array_receiver docs;
            map_js (\<lambda>(doc, index). do {
                metadata \<leftarrow> get doc ''metadata'';
                Some (Obj [
                  (''id'', Str (to_String rt
                     (or_else (read_prop doc ''id'') (Str (uuidv4 rt (p @ [index])))))),
                  (''text'', Str (to_String rt
                     (firstTruthy doc [''page_content'', ''content'', ''text''] (Str [])))),
                  (''source'', Str (to_String rt
                     (or_else (or_else (opt_get metadata ''source'') (read_prop doc ''source''))
                        (Str (''retrieved_'' @ decimal index))))),
                  (''score'', Num (to_Number rt
                     (or_else (or_else (or_else (read_prop doc ''score'') (read_prop doc ''similarity''))
                        (opt_get metadata ''score'')) (Num (Fin 0))))),
                  (''metadata'', metadata)])
              }) (indexed ds)
          }
          else Some []
   }"

text \<open>\<^verbatim>\<open>v > 0\<close> and \<^verbatim>\<open>v === 0\<close> for a length read off an untyped value.\<close>

definition gt_zero :: "runtime \<Rightarrow> jsval \<Rightarrow> bool" where
  "gt_zero rt v = (case to_Number rt v of Fin q \<Rightarrow> 0 < q | NaN \<Rightarrow> False)"

subsection \<open>The recursion descends into smaller values\<close>

lemma map_js_cong [fundef_cong]:
  "xs = ys \<Longrightarrow> (\<And>x. x \<in> set ys \<Longrightarrow> f x = g x) \<Longrightarrow> map_js f xs = map_js g ys"
  by (induction ys arbitrary: xs) auto

lemma flatMap_js_cong [fundef_cong]:
  "xs = ys \<Longrightarrow> (\<And>x. x \<in> set ys \<Longrightarrow> f x = g x) \<Longrightarrow> flatMap_js f xs = flatMap_js g ys"
  unfolding flatMap_js_def by (simp cong: map_js_cong)

lemma size_elem: "x \<in> set xs \<Longrightarrow> size x < size (Arr xs)"
  by (induction xs) auto

lemma size_map_of: "map_of kvs k = Some v \<Longrightarrow> size v < size (Obj kvs)"
  by (induction kvs) (auto split: if_splits)

lemma size_read_prop: "size (read_prop v k) \<le> size v"
proof (cases v)
  case (Arr xs)
  then show ?thesis
    using size_elem [of "xs ! i" xs for i]
    by (auto split: option.splits simp: less_imp_le)
next
  case (Obj kvs)
  then show ?thesis
    using size_map_of [of kvs k] by (auto split: option.splits simp: less_imp_le)
qed (auto split: option.splits)

lemma array_receiver_Some: "array_receiver v = Some xs \<longleftrightarrow> v = Arr xs"
  by (cases v) auto

lemma size_child:
  assumes "array_receiver (read_prop run k) = Some xs" and "x \<in> set xs"
  shows "size x < size run"
proof -
  from assms(1) have "read_prop run k = Arr xs" by (simp add: array_receiver_Some)
  with size_read_prop [of run k] size_elem [OF assms(2)] show ?thesis by simp
qed

subsection \<open>Walking the run tree\<close>

function findLLMLeafSpans :: "runtime \<Rightarrow> jsval \<Rightarrow> jsval list throws" where
  "findLLMLeafSpans rt run = do {
     run_type \<leftarrow> get run ''run_type'';
     spanType \<leftarrow> getSpanType run_type;
     let child_runs = read_prop run ''child_runs'';
     if spanType = ''llm'' then
       if \<not> truthy child_runs \<or> read_prop child_runs ''length'' = Num (Fin 0) then Some [run]
       else do {
         children \<leftarrow> array_receiver child_runs;
         childLLMSpans \<leftarrow> flatMap_js (findLLMLeafSpans rt) children;
         if length childLLMSpans = 0 then Some [run] else Some childLLMSpans
       }
     else if truthy child_runs \<and> gt_zero rt (read_prop child_runs ''length'') then do {
       children \<leftarrow> array_receiver child_runs;
       flatMap_js (findLLMLeafSpans rt) children
     }
     else Some []
   }"
  by pat_completeness auto
termination
  by (relation "measure (\<lambda>(rt, run). size run)") (auto simp: size_child)

declare findLLMLeafSpans.simps [simp del]

function findRelatedRetrieverSpans :: "jsval \<Rightarrow> jsval list throws" where
  "findRelatedRetrieverSpans run = do {
     run_type \<leftarrow> get run ''run_type'';
     spanType \<leftarrow> getSpanType run_type;
     let child_runs = read_prop run ''child_runs'';
     below \<leftarrow>
       (if truthy child_runs then do {
          children \<leftarrow> array_receiver child_runs;
          flatMap_js findRelatedRetrieverSpans children
        } else Some []);
     Some ((if spanType = ''retriever'' then [run] else []) @ below)
   }"
  by pat_completeness auto
termination
  by (relation "measure size") (auto simp: size_child)

declare findRelatedRetrieverSpans.simps [simp del]

subsection \<open>Converting one run\<close>

text \<open>\<^verbatim>\<open>run.feedback.filter((f) => f.k)\<close>\<close>

definition filter_truthy :: "string \<Rightarrow> jsval list \<Rightarrow> jsval list throws" where
  "filter_truthy k fs = filter_js (\<lambda>f. do { v \<leftarrow> get f k; Some (truthy v) }) fs"

definition humanFeedback_of :: "runtime \<Rightarrow> jsval \<Rightarrow> jsval throws" where
  "humanFeedback_of rt run =
     (let feedback = read_prop run ''feedback''
      in if truthy feedback \<and> gt_zero rt (read_prop feedback ''length'') then do {
           fs \<leftarrow> array_receiver feedback;
           corrections \<leftarrow> filter_truthy ''correction'' fs;
           let fb1 = (if 0 < length corrections
                      then [(''corrected_text'', read_prop (hd corrections) ''correction'')] else []);
           commented \<leftarrow> filter_truthy ''comment'' fs;
           let comments = join [CHR 0x0A]
             (map (\<lambda>f. ''['' @ to_String rt (or_else (read_prop f ''key'') (Str ''feedback'')) @ ''] ''
                        @ to_String rt (read_prop f ''comment'')) commented);
           Some (Obj (if comments \<noteq> [] then set_prop ''comments'' (Str comments) fb1 else fb1))
         }
         else Some (Obj []))"

definition convertRunToReviewItem ::
  "runtime \<Rightarrow> nat list \<Rightarrow> jsval \<Rightarrow> string \<Rightarrow> jsval list \<Rightarrow> jsval throws" where
  "convertRunToReviewItem rt p run now contextChunks = do {
     run_id \<leftarrow> get run ''run_id'';
     let runId = or_else (or_else run_id (read_prop run ''id'')) (Str (uuidv4 rt (p @ [0])));
     let inputs = or_else (read_prop run ''inputs'') (Obj []);
     let outputs = or_else (read_prop run ''outputs'') (Obj []);
     (prompt, systemPrompt) \<leftarrow> extractPrompt rt inputs;
     response \<leftarrow> extractResponse rt outputs;
     let latency0 = or_else (read_prop run ''latency'') (Num (Fin 0));
     let latencyMs =
       (if \<not> truthy latency0 \<and> truthy (read_prop run ''start_time'') \<and> truthy (read_prop run ''end_time'')
        then Num (num_sub (Date_getTime rt (read_prop run ''end_time''))
                          (Date_getTime rt (read_prop run ''start_time'')))
        else latency0);
     let modelId =
       or_else (or_else (or_else (read_prop run ''model'') (read_prop run ''model_name''))
                  (opt_get (opt_get (read_prop run ''extra'') ''metadata'') ''model''))
         (Str ''langsmith'');
     humanFeedback \<leftarrow> humanFeedback_of rt run;
     span_type \<leftarrow> getSpanType (read_prop run ''run_type'');
     Some (Obj [
       (''id'', runId),
       (''version'', SCHEMA_VERSION),
       (''created_at'', or_else (read_prop run ''start_time'') (Str now)),
       (''updated_at'', Str now),
       (''status'', Str ''pending''),
       (''tags'', if truthy (read_prop run ''session_name'')
                  then Arr [read_prop run ''session_name''] else Undefined),
       (''trace_metadata'', Obj [
          (''trace_id'', runId),
          (''span_id'', runId),
          (''parent_id'', read_prop run ''parent_run_id''),
          (''span_type'', Str span_type),
          (''source'', Str ''langsmith''),
          (''session_id'', read_prop run ''session_id''),
          (''error'', read_prop run ''error''),
          (''latency_ms'', latencyMs),
          (''original_data'', Obj [
             (''run_type'', read_prop run ''run_type''),
             (''name'', read_prop run ''name''),
             (''extra'', read_prop run ''extra'')])]),
       (''input'', Obj [
          (''prompt'', prompt),
          (''system_prompt'', systemPrompt),
          (''context_chunks'', Arr contextChunks)]),
       (''outputs'',
          if truthy response then
            Arr [Obj [
              (''model_id'', modelId),
              (''text'', response),
              (''token_usage'',
                 or_else (read_prop run ''total_tokens'')
                   (plus_js rt (or_else (read_prop run ''prompt_tokens'') (Num (Fin 0)))
                               (or_else (read_prop run ''completion_tokens'') (Num (Fin 0))))),
              (''latency_ms'', latencyMs)]]
          else Arr []),
       (''human_feedback'', humanFeedback)])
   }"

subsection \<open>The adapter's \<^verbatim>\<open>normalize\<close>\<close>

text \<open>
  The records of one root run: one per leaf LLM run, or the root itself when the tree
  has none. \<open>p\<close> is the place of the root in the import.
\<close>

definition normalize_root :: "runtime \<Rightarrow> nat list \<Rightarrow> string \<Rightarrow> jsval \<Rightarrow> jsval list throws" where
  "normalize_root rt p now run = do {
     retrieverSpans \<leftarrow> findRelatedRetrieverSpans run;
     contextChunks \<leftarrow> flatMap_js (\<lambda>(r, j). extractContextFromRetriever rt (p @ [0, j]) r)
                        (indexed retrieverSpans);
     llmSpans \<leftarrow> findLLMLeafSpans rt run;
     if 0 < length llmSpans then
       map_js (\<lambda>(llmSpan, j). convertRunToReviewItem rt (p @ [1, j]) llmSpan now contextChunks)
         (indexed llmSpans)
     else do {
       item \<leftarrow> convertRunToReviewItem rt (p @ [1, 0]) run now contextChunks;
       Some [item]
     }
   }"

text \<open>\<^verbatim>\<open>items.length === 1 ? items[0] : items\<close>\<close>

definition one_or_many :: "jsval list \<Rightarrow> jsval" where
  "one_or_many items = (if length items = 1 then hd items else Arr items)"

text \<open>
  The array of root runs \<^verbatim>\<open>normalize\<close> works on; \<open>None\<close> when the input has none of the
  four shapes and \<^verbatim>\<open>normalize\<close> returns the empty list.
\<close>

definition export_runs :: "jsval \<Rightarrow> jsval list option throws" where
  "export_runs data =
     (case data of
        Arr xs \<Rightarrow> Some (Some xs)
      | _ \<Rightarrow> do {
          hasRuns \<leftarrow> and_then (has_key ''runs'' data) (Some (isArray (read_prop data ''runs'')));
          if hasRuns then do { rs \<leftarrow> array_receiver (read_prop data ''runs''); Some (Some rs) }
          else do {
            hasRun \<leftarrow> and_then (has_key ''run'' data) (Some (truthy (read_prop data ''run'')));
            if hasRun then Some (Some [read_prop data ''run''])
            else do {
              isRun \<leftarrow> isLangSmithRun data;
              Some (if isRun then Some [data] else None)
            }
          }
        })"

definition langsmith_normalize :: "runtime \<Rightarrow> nat list \<Rightarrow> jsval \<Rightarrow> jsval throws" where
  "langsmith_normalize rt p data = do {
     let now = Date_now rt p;
     runs \<leftarrow> export_runs data;
     case runs of
       None \<Rightarrow> Some (Arr [])
     | Some rs \<Rightarrow> do {
         items \<leftarrow> flatMap_js (\<lambda>(run, i). normalize_root rt (p @ [i]) now run) (indexed rs);
         Some (one_or_many items)
       }
   }"

section \<open>The adapter registry and the OTel attribute-mapping table\<close>

text \<open>
  \<^verbatim>\<open>TraceSource\<close> names an adapter; the registry keeps its adapters in a
  \<^verbatim>\<open>Map\<close> keyed by that name (insertion order is the detection order) together
  with the current OTel mapping table.
\<close>

datatype TraceSource = langsmith | otel | langfuse | manual

text \<open>The two adapter objects the repository defines.\<close>

datatype adapter = langSmithAdapter | otelAdapter

fun adapter_name :: "adapter \<Rightarrow> TraceSource" where
  "adapter_name langSmithAdapter = langsmith"
| "adapter_name otelAdapter = otel"

fun TraceSource_text :: "TraceSource \<Rightarrow> string" where
  "TraceSource_text langsmith = ''langsmith''"
| "TraceSource_text otel = ''otel''"
| "TraceSource_text langfuse = ''langfuse''"
| "TraceSource_text manual = ''manual''"

record tokenAttributes_t =
  tk_input :: "string list"
  tk_output :: "string list"
  tk_total :: "string list"

record OTelMappingConfig =
  promptAttributes :: "string list"
  responseAttributes :: "string list"
  modelAttributes :: "string list"
  tokenAttributes :: tokenAttributes_t
  llmSpanNames :: "string list"
  retrieverSpanNames :: "string list"

text \<open>
  \<^verbatim>\<open>Partial<OTelMappingConfig>\<close>: every top-level key is optional (\<open>None\<close> is a key
  the caller did not supply). \<^verbatim>\<open>Partial\<close> is shallow, so a supplied
  \<^verbatim>\<open>tokenAttributes\<close> carries all three of its lists.
\<close>

record PartialOTelMappingConfig =
  p_promptAttributes :: "string list option"
  p_responseAttributes :: "string list option"
  p_modelAttributes :: "string list option"
  p_tokenAttributes :: "tokenAttributes_t option"
  p_llmSpanNames :: "string list option"
  p_retrieverSpanNames :: "string list option"

definition DEFAULT_OTEL_MAPPINGS :: OTelMappingConfig where
  "DEFAULT_OTEL_MAPPINGS = \<lparr>
     promptAttributes =
       [''gen_ai.prompt'', ''gen_ai.prompt.0.content'', ''llm.prompts'', ''llm.prompts.0'',
        ''ai.prompt.text'', ''openai.prompt'', ''anthropic.prompt''],
     responseAttributes =
       [''gen_ai.completion'', ''gen_ai.completion.0.content'', ''llm.responses'',
        ''llm.responses.0'', ''ai.response.text'', ''openai.completion'',
        ''anthropic.completion''],
     modelAttributes =
       [''gen_ai.request.model'', ''gen_ai.response.model'', ''llm.model'', ''llm.model_name'',
        ''ai.model.id'', ''openai.model'', ''anthropic.model''],
     tokenAttributes = \<lparr>
       tk_input = [''gen_ai.usage.input_tokens'', ''gen_ai.usage.prompt_tokens'',
                   ''llm.token_count.prompt'', ''ai.usage.input_tokens''],
       tk_output = [''gen_ai.usage.output_tokens'', ''gen_ai.usage.completion_tokens'',
                    ''llm.token_count.completion'', ''ai.usage.output_tokens''],
       tk_total = [''gen_ai.usage.total_tokens'', ''llm.token_count.total'',
                   ''ai.usage.total_tokens'']\<rparr>,
     llmSpanNames =
       [''llm.chat'', ''llm.completion'', ''llm'', ''ChatOpenAI'', ''ChatAnthropic'', ''OpenAI'',
        ''Anthropic''],
     retrieverSpanNames = [''retriever'', ''vectorstore'', ''Retriever'', ''VectorStoreRetriever'']
   \<rparr>"

record AdapterRegistry =
  adapters :: "(TraceSource \<times> adapter) list"
  otelMappings :: OTelMappingConfig

text \<open>\<^verbatim>\<open>new AdapterRegistry()\<close>: no adapters, the default table.\<close>

definition new_AdapterRegistry :: AdapterRegistry where
  "new_AdapterRegistry = \<lparr>adapters = [], otelMappings = DEFAULT_OTEL_MAPPINGS\<rparr>"

text \<open>\<^verbatim>\<open>Map.set\<close>: a key already present keeps its position.\<close>

primrec adapters_set ::
  "TraceSource \<Rightarrow> adapter \<Rightarrow> (TraceSource \<times> adapter) list \<Rightarrow> (TraceSource \<times> adapter) list" where
  "adapters_set n a [] = [(n, a)]"
| "adapters_set n a (e # es) = (if fst e = n then (n, a) # es else e # adapters_set n a es)"

definition register :: "adapter \<Rightarrow> AdapterRegistry \<Rightarrow> AdapterRegistry" where
  "register a r = r\<lparr>adapters := adapters_set (adapter_name a) a (adapters r)\<rparr>"

definition get_adapter :: "AdapterRegistry \<Rightarrow> TraceSource \<Rightarrow> adapter option" where
  "get_adapter r n = map_of (adapters r) n"

definition getAll :: "AdapterRegistry \<Rightarrow> adapter list" where
  "getAll r = map snd (adapters r)"

text \<open>The object spread \<^verbatim>\<open>{ ...this.otelMappings, ...mappings }\<close>, key by key.\<close>

definition spread_mappings ::
  "OTelMappingConfig \<Rightarrow> PartialOTelMappingConfig \<Rightarrow> OTelMappingConfig" where
  "spread_mappings cur m = \<lparr>
     promptAttributes =
       (case p_promptAttributes m of None \<Rightarrow> promptAttributes cur | Some v \<Rightarrow> v),
     responseAttributes =
       (case p_responseAttributes m of None \<Rightarrow> responseAttributes cur | Some v \<Rightarrow> v),
     modelAttributes =
       (case p_modelAttributes m of None \<Rightarrow> modelAttributes cur | Some v \<Rightarrow> v),
     tokenAttributes =
       (case p_tokenAttributes m of None \<Rightarrow> tokenAttributes cur | Some v \<Rightarrow> v),
     llmSpanNames =
       (case p_llmSpanNames m of None \<Rightarrow> llmSpanNames cur | Some v \<Rightarrow> v),
     retrieverSpanNames =
       (case p_retrieverSpanNames m of None \<Rightarrow> retrieverSpanNames cur | Some v \<Rightarrow> v)
   \<rparr>"

definition setOTelMappings :: "PartialOTelMappingConfig \<Rightarrow> AdapterRegistry \<Rightarrow> AdapterRegistry" where
  "setOTelMappings m r = r\<lparr>otelMappings := spread_mappings (otelMappings r) m\<rparr>"

definition getOTelMappings :: "AdapterRegistry \<Rightarrow> OTelMappingConfig" where
  "getOTelMappings r = otelMappings r"

text \<open>The module-level registry after the importer has registered both trace adapters.\<close>

definition adapterRegistry :: AdapterRegistry where
  "adapterRegistry = register otelAdapter (register langSmithAdapter new_AdapterRegistry)"

section \<open>The OpenTelemetry adapter\<close>

subsection \<open>Attributes\<close>

text \<open>
  An object filled by assignments \<^verbatim>\<open>obj[key] = v\<close>: integer-like keys enumerate first, in
  ascending order, the others in the order of their first assignment. Every canonical
  numeral counts as an integer-like key here, also from 4294967295 on, where the engine
  orders the key as a string, and the key \<^verbatim>\<open>__proto__\<close> is kept as an own property, where
  the engine sends it to the prototype setter. Both reach \<^verbatim>\<open>original_data\<close> only.
\<close>

definition enumeration_order :: "(string \<times> jsval) list \<Rightarrow> (string \<times> jsval) list" where
  "enumeration_order kvs =
     sort_key (\<lambda>kv. case index_of_key (fst kv) of Some i \<Rightarrow> i | None \<Rightarrow> 0)
       (filter (\<lambda>kv. index_of_key (fst kv) \<noteq> None) kvs)
     @ filter (\<lambda>kv. index_of_key (fst kv) = None) kvs"

definition assign_all :: "(string \<times> jsval) list \<Rightarrow> jsval" where
  "assign_all kvs = Obj (enumeration_order (set_props [] kvs))"

lemma defined_prop_size:
  assumes "read_prop v k \<noteq> Undefined" and "k \<noteq> ''length''" and "index_of_key k = None"
  shows "0 < size v"
  using assms by (cases v) auto

lemma size_iterate:
  assumes "iterate w = Some xs" and "x \<in> set xs" and "size w \<le> n" and "0 < n"
  shows "size (read_prop x k) < n"
proof (cases w)
  case (Arr ys)
  with assms have "x \<in> set ys" by simp
  from size_elem [OF this] size_read_prop [of x k] Arr assms(3) show ?thesis by simp
next
  case (Str t)
  with assms obtain c where "x = Str [c]" by auto
  then have "size (read_prop x k) = 0" by (auto split: option.splits)
  with assms(4) show ?thesis by simp
qed (use assms in auto)

function getAttributeValue :: "runtime \<Rightarrow> jsval \<Rightarrow> jsval throws" where
  "getAttributeValue rt val = do {
     stringValue \<leftarrow> get val ''stringValue'';
     if stringValue \<noteq> Undefined then Some stringValue
     else if read_prop val ''intValue'' \<noteq> Undefined then
       Some (Num (to_Number rt (read_prop val ''intValue'')))
     else if read_prop val ''doubleValue'' \<noteq> Undefined then Some (read_prop val ''doubleValue'')
     else if read_prop val ''boolValue'' \<noteq> Undefined then Some (read_prop val ''boolValue'')
     else if truthy (read_prop val ''arrayValue'') then do {
       vs \<leftarrow> array_receiver (read_prop (read_prop val ''arrayValue'') ''values'');
       ys \<leftarrow> map_js (getAttributeValue rt) vs;
       Some (Arr ys)
     }
     else if truthy (read_prop val ''kvlistValue'') then do {
       attrs \<leftarrow> iterate (read_prop (read_prop val ''kvlistValue'') ''values'');
       kvs \<leftarrow> map_js (\<lambda>attr. do {
           key \<leftarrow> get attr ''key'';
           v \<leftarrow> getAttributeValue rt (read_prop attr ''value'');
           Some (to_String rt key, v)
         }) attrs;
       Some (assign_all kvs)
     }
     else Some Undefined
   }"
  by pat_completeness auto
termination
proof (relation "measure (\<lambda>(rt, v). size v)", goal_cases)
  case 1
  show ?case by simp
next
  case (2 rt val stringValue vs x)
  from \<open>array_receiver (read_prop (read_prop val ''arrayValue'') ''values'') = Some vs\<close>
  have "read_prop (read_prop val ''arrayValue'') ''values'' = Arr vs"
    by (simp add: array_receiver_Some)
  with size_read_prop [of "read_prop val ''arrayValue''" "''values''"]
    size_read_prop [of val "''arrayValue''"] size_elem [OF \<open>x \<in> set vs\<close>]
  show ?case by simp
next
  case (3 rt val stringValue attrs attr key)
  from \<open>truthy (read_prop val ''kvlistValue'')\<close>
  have "read_prop val ''kvlistValue'' \<noteq> Undefined" by auto
  then have pos: "0 < size val"
    by (rule defined_prop_size) (simp_all add: index_of_key_def is_digit_def)
  have "size (read_prop (read_prop val ''kvlistValue'') ''values'') \<le> size val"
    using size_read_prop [of "read_prop val ''kvlistValue''" "''values''"]
      size_read_prop [of val "''kvlistValue''"] by simp
  from size_iterate [OF \<open>iterate (read_prop (read_prop val ''kvlistValue'') ''values'') = Some attrs\<close>
      \<open>attr \<in> set attrs\<close> this pos]
  show ?case by simp
qed

declare getAttributeValue.simps [simp del]

text \<open>\<^verbatim>\<open>span.attributes.find(a => a.key === key)\<close>, key after key.\<close>

primrec first_attribute :: "runtime \<Rightarrow> jsval list \<Rightarrow> string list \<Rightarrow> jsval option throws" where
  "first_attribute rt as [] = Some None"
| "first_attribute rt as (key # keys) = do {
     attr \<leftarrow> find_js (\<lambda>a. do { k \<leftarrow> get a ''key''; Some (k = Str key) }) as;
     if truthy attr then do {
       v \<leftarrow> getAttributeValue rt (read_prop attr ''value'');
       Some (Some v)
     }
     else first_attribute rt as keys
   }"

primrec flat_attribute :: "jsval \<Rightarrow> jsval \<Rightarrow> string list \<Rightarrow> jsval throws" where
  "flat_attribute spn attributes [] = Some Undefined"
| "flat_attribute spn attributes (key # keys) = do {
     own \<leftarrow> has_key key spn;
     if own \<and> read_prop spn key \<noteq> Undefined then Some (read_prop spn key)
     else do {
       nested \<leftarrow>
         (if truthy attributes \<and> typeof attributes = ''object'' \<and> \<not> isArray attributes
          then has_key key attributes else Some False);
       if nested then Some (read_prop attributes key)
       else flat_attribute spn attributes keys
     }
   }"

definition getAttribute :: "runtime \<Rightarrow> jsval \<Rightarrow> string list \<Rightarrow> jsval throws" where
  "getAttribute rt spn keys = do {
     attributes \<leftarrow> get spn ''attributes'';
     fromArray \<leftarrow>
       (if truthy attributes \<and> isArray attributes then do {
          as \<leftarrow> array_receiver attributes;
          first_attribute rt as keys
        } else Some None);
     case fromArray of
       Some v \<Rightarrow> Some v
     | None \<Rightarrow> flat_attribute spn attributes keys
   }"

definition getAttributesObject :: "runtime \<Rightarrow> jsval \<Rightarrow> jsval throws" where
  "getAttributesObject rt spn = do {
     attributes \<leftarrow> get spn ''attributes'';
     if truthy attributes \<and> isArray attributes then do {
       as \<leftarrow> iterate attributes;
       kvs \<leftarrow> map_js (\<lambda>attr. do {
           key \<leftarrow> get attr ''key'';
           v \<leftarrow> getAttributeValue rt (read_prop attr ''value'');
           Some (to_String rt key, v)
         }) as;
       Some (assign_all kvs)
     }
     else if truthy attributes \<and> typeof attributes = ''object'' then
       Some (assign_all (own_entries attributes))
     else Some (Obj [])
   }"

subsection \<open>Detection and classification\<close>

definition isOTelExport :: "jsval \<Rightarrow> bool throws" where
  "isOTelExport data =
     (if typeof data \<noteq> ''object'' \<or> data = Null then Some False
      else do {
        otlp \<leftarrow> and_then (has_key ''resourceSpans'' data)
                  (Some (isArray (read_prop data ''resourceSpans'')));
        if otlp then Some True
        else do {
          flat \<leftarrow> and_then (has_key ''spans'' data) (Some (isArray (read_prop data ''spans'')));
          if flat then do {
            spans \<leftarrow> array_receiver (read_prop data ''spans'');
            and_then (Some (0 < length spans))
              (and_then (has_key ''traceId'' (read_index (Arr spans) 0))
                 (has_key ''spanId'' (read_index (Arr spans) 0)))
          }
          else
            and_then (has_key ''traceId'' data)
              (and_then (has_key ''spanId'' data) (has_key ''name'' data))
        }
      })"

text \<open>\<^verbatim>\<open>span.name.toLowerCase()\<close>: a \<^verbatim>\<open>TypeError\<close> unless the name is a string.\<close>

definition lower_name :: "jsval \<Rightarrow> string throws" where
  "lower_name spn = do {
     name \<leftarrow> get spn ''name'';
     case name of Str s \<Rightarrow> Some (toLowerCase s) | _ \<Rightarrow> throw
   }"

text \<open>\<^verbatim>\<open>keys.some(key => getAttribute(span, [key]) !== undefined)\<close>\<close>

definition has_any_attribute :: "runtime \<Rightarrow> jsval \<Rightarrow> string list \<Rightarrow> bool throws" where
  "has_any_attribute rt spn keys =
     some_js (\<lambda>key. do { v \<leftarrow> getAttribute rt spn [key]; Some (v \<noteq> Undefined) }) keys"

definition isLLMSpan :: "runtime \<Rightarrow> OTelMappingConfig \<Rightarrow> jsval \<Rightarrow> bool throws" where
  "isLLMSpan rt mappings spn = do {
     name \<leftarrow> lower_name spn;
     if list_ex (\<lambda>llmName. includes_str name (toLowerCase llmName)) (llmSpanNames mappings)
     then Some True
     else do {
       hasPrompt \<leftarrow> has_any_attribute rt spn (promptAttributes mappings);
       hasResponse \<leftarrow> has_any_attribute rt spn (responseAttributes mappings);
       Some (hasPrompt \<or> hasResponse)
     }
   }"

definition isRetrieverSpan :: "OTelMappingConfig \<Rightarrow> jsval \<Rightarrow> bool throws" where
  "isRetrieverSpan mappings spn = do {
     name \<leftarrow> lower_name spn;
     Some (list_ex (\<lambda>retrieverName. includes_str name (toLowerCase retrieverName))
             (retrieverSpanNames mappings))
   }"

definition otel_getSpanType :: "runtime \<Rightarrow> OTelMappingConfig \<Rightarrow> jsval \<Rightarrow> string throws" where
  "otel_getSpanType rt mappings spn = do {
     llm \<leftarrow> isLLMSpan rt mappings spn;
     if llm then Some ''llm''
     else do {
       retriever \<leftarrow> isRetrieverSpan mappings spn;
       if retriever then Some ''retriever''
       else do {
         name \<leftarrow> lower_name spn;
         Some (if includes_str name ''tool'' \<or> includes_str name ''function'' then ''tool''
               else if includes_str name ''chain'' then ''chain''
               else if includes_str name ''embed'' then ''embedding''
               else ''unknown'')
       }
     }
   }"

subsection \<open>Extraction\<close>

text \<open>The first configured key whose attribute is defined.\<close>

primrec first_defined :: "runtime \<Rightarrow> jsval \<Rightarrow> string list \<Rightarrow> jsval throws" where
  "first_defined rt spn [] = Some Undefined"
| "first_defined rt spn (key # keys) = do {
     v \<leftarrow> getAttribute rt spn [key];
     if v \<noteq> Undefined then Some v else first_defined rt spn keys
   }"

text \<open>\<^verbatim>\<open>messages.find(m => typeof m === 'object' && m.role === r)\<close>\<close>

definition find_object_role :: "string \<Rightarrow> jsval list \<Rightarrow> jsval throws" where
  "find_object_role r ms =
     find_js (\<lambda>m. if typeof m = ''object'' then do { role \<leftarrow> get m ''role''; Some (role = Str r) }
                   else Some False) ms"

text \<open>The value the prompt is read from: a configured attribute, else an input-like one.\<close>

definition prompt_attribute :: "runtime \<Rightarrow> OTelMappingConfig \<Rightarrow> jsval \<Rightarrow> jsval throws" where
  "prompt_attribute rt mappings spn = do {
     configured \<leftarrow> first_defined rt spn (promptAttributes mappings);
     if configured = Undefined
     then getAttribute rt spn [''input'', ''query'', ''question'', ''user_input'']
     else Some configured
   }"

definition otel_extractPrompt ::
  "runtime \<Rightarrow> OTelMappingConfig \<Rightarrow> jsval \<Rightarrow> (jsval \<times> jsval) throws" where
  "otel_extractPrompt rt mappings spn = do {
     prompt \<leftarrow> prompt_attribute rt mappings spn;
     case prompt of
       Arr messages \<Rightarrow> do {
         systemMsg \<leftarrow> find_object_role ''system'' messages;
         userMsg \<leftarrow> find_object_role ''user'' messages;
         Some (or_else (opt_get userMsg ''content'')
                 (if typeof (read_index prompt 0) = ''string'' then read_index prompt 0
                  else Str (JSON_stringify rt prompt)),
               opt_get systemMsg ''content'')
       }
     | _ \<Rightarrow> do {
         wrapped \<leftarrow>
           (if typeof prompt = ''object'' \<and> prompt \<noteq> Null then has_key ''messages'' prompt
            else Some False);
         if wrapped then do {
           messages \<leftarrow> array_receiver (read_prop prompt ''messages'');
           systemMsg \<leftarrow> find_role ''system'' messages;
           userMsg \<leftarrow> find_role ''user'' messages;
           Some (or_else (opt_get userMsg ''content'') (Str []), opt_get systemMsg ''content'')
         }
         else Some (Str (to_String rt (or_else prompt (Str []))), Undefined)
       }
   }"

text \<open>\<^verbatim>\<open>o.content || o.text || o.message?.content || JSON.stringify(o)\<close>\<close>

definition completion_text :: "runtime \<Rightarrow> jsval \<Rightarrow> jsval throws" where
  "completion_text rt ob = do {
     content \<leftarrow> get ob ''content'';
     Some (or_else (or_else (or_else content (read_prop ob ''text''))
                      (opt_get (read_prop ob ''message'') ''content''))
             (Str (JSON_stringify rt ob)))
   }"

definition otel_extractResponse :: "runtime \<Rightarrow> OTelMappingConfig \<Rightarrow> jsval \<Rightarrow> jsval throws" where
  "otel_extractResponse rt mappings spn = do {
     configured \<leftarrow> first_defined rt spn (responseAttributes mappings);
     response \<leftarrow>
       (if configured = Undefined
        then getAttribute rt spn [''output'', ''answer'', ''response'', ''completion'']
        else Some configured);
     case response of
       Arr (first # rest) \<Rightarrow>
         if typeof first = ''string'' then Some first else completion_text rt first
     | _ \<Rightarrow>
         if typeof response = ''object'' \<and> response \<noteq> Null then completion_text rt response
         else Some (Str (to_String rt (or_else response (Str []))))
   }"

primrec extractModel_keys :: "runtime \<Rightarrow> jsval \<Rightarrow> string list \<Rightarrow> string throws" where
  "extractModel_keys rt spn [] = Some ''unknown''"
| "extractModel_keys rt spn (key # keys) = do {
     model \<leftarrow> getAttribute rt spn [key];
     if model \<noteq> Undefined then Some (to_String rt model) else extractModel_keys rt spn keys
   }"

definition extractModel :: "runtime \<Rightarrow> OTelMappingConfig \<Rightarrow> jsval \<Rightarrow> string throws" where
  "extractModel rt mappings spn = extractModel_keys rt spn (modelAttributes mappings)"

definition extractTokenUsage :: "runtime \<Rightarrow> OTelMappingConfig \<Rightarrow> jsval \<Rightarrow> number throws" where
  "extractTokenUsage rt mappings spn = do {
     total \<leftarrow> first_defined rt spn (tk_total (tokenAttributes mappings));
     if total \<noteq> Undefined then Some (to_Number rt total)
     else do {
       input \<leftarrow> first_defined rt spn (tk_input (tokenAttributes mappings));
       output \<leftarrow> first_defined rt spn (tk_output (tokenAttributes mappings));
       Some (num_add (if input \<noteq> Undefined then to_Number rt input else Fin 0)
                     (if output \<noteq> Undefined then to_Number rt output else Fin 0))
     }
   }"

definition extractContextFromRetrievers ::
  "runtime \<Rightarrow> nat list \<Rightarrow> OTelMappingConfig \<Rightarrow> jsval list \<Rightarrow> jsval list throws" where
  "extractContextFromRetrievers rt p mappings spans =
     flatMap_js (\<lambda>(spn, j). do {
         retriever \<leftarrow> isRetrieverSpan mappings spn;
         if \<not> retriever then Some []
         else do {
           docs \<leftarrow> getAttribute rt spn [''documents'', ''retriever.documents'', ''docs'', ''results''];
           if isArray docs then do {
             ds \<leftarrow> array_receiver docs;
             map_js (\<lambda>(doc, index).
                 if typeof doc = ''string'' then
                   Some (Obj [
                     (''id'', Str (uuidv4 rt (p @ [j, index]))),
                     (''text'', doc),
                     (''source'', read_prop spn ''name''),
                     (''score'', Num (Fin 0))])
                 else do {
                   metadata \<leftarrow> get doc ''metadata'';
                   Some (Obj [
                     (''id'', Str (to_String rt
                        (or_else (read_prop doc ''id'') (Str (uuidv4 rt (p @ [j, index])))))),
                     (''text'', Str (to_String rt
                        (firstTruthy doc [''page_content'', ''content'', ''text''] (Str [])))),
                     (''source'', Str (to_String rt
                        (or_else (or_else (read_prop doc ''source'') (opt_get metadata ''source''))
                           (read_prop spn ''name'')))),
                     (''score'', Num (to_Number rt
                        (firstTruthy doc [''score'', ''similarity''] (Num (Fin 0))))),
                     (''metadata'', metadata)])
                 }) (indexed ds)
           }
           else Some []
         }
       }) (indexed spans)"

subsection \<open>Timestamps\<close>

text \<open>\<^verbatim>\<open>BigInt(v)\<close>: only integers convert.\<close>

fun to_BigInt :: "runtime \<Rightarrow> jsval \<Rightarrow> int throws" where
  "to_BigInt rt Undefined = throw"
| "to_BigInt rt Null = throw"
| "to_BigInt rt (Bool b) = Some (if b then 1 else 0)"
| "to_BigInt rt (Num NaN) = throw"
| "to_BigInt rt (Num (Fin q)) = (if of_int \<lfloor>q\<rfloor> = q then Some \<lfloor>q\<rfloor> else throw)"
| "to_BigInt rt (Str s) = string_toBigInt rt s"
| "to_BigInt rt v = string_toBigInt rt (to_String rt v)"

text \<open>The quotient of two \<^verbatim>\<open>BigInt\<close>s rounds towards zero.\<close>

definition bigint_div :: "int \<Rightarrow> int \<Rightarrow> int" where
  "bigint_div a b = sgn a * sgn b * (\<bar>a\<bar> div \<bar>b\<bar>)"

definition nanoToMs :: "runtime \<Rightarrow> jsval \<Rightarrow> number throws" where
  "nanoToMs rt nano = do { n \<leftarrow> to_BigInt rt nano; Some (Fin (of_int (bigint_div n 1000000))) }"

definition nanoToIso :: "runtime \<Rightarrow> jsval \<Rightarrow> string throws" where
  "nanoToIso rt nano = do { ms \<leftarrow> nanoToMs rt nano; Date_toISOString rt ms }"

text \<open>The \<^verbatim>\<open>try\<close> of \<^verbatim>\<open>calculateLatency\<close> answers \<open>0\<close> on any exception.\<close>

definition calculateLatency :: "runtime \<Rightarrow> jsval \<Rightarrow> number" where
  "calculateLatency rt spn =
     (case do {
             start \<leftarrow> get spn ''startTimeUnixNano'';
             startMs \<leftarrow> nanoToMs rt start;
             endMs \<leftarrow> nanoToMs rt (read_prop spn ''endTimeUnixNano'');
             Some (num_sub endMs startMs)
           } of
        Some latency \<Rightarrow> latency
      | None \<Rightarrow> Fin 0)"

subsection \<open>The span list and its leaves\<close>

text \<open>
  \<^verbatim>\<open>extractSpans\<close> collects the spans by appending lists. The limit of the engine on the
  number of arguments of \<^verbatim>\<open>spans.push(...data.spans)\<close>, which makes very long span lists
  raise, is not modelled.
\<close>

definition extractSpans :: "jsval \<Rightarrow> jsval list throws" where
  "extractSpans data = do {
     resourceSpans \<leftarrow> get data ''resourceSpans'';
     nested \<leftarrow>
       (if truthy resourceSpans then do {
          rss \<leftarrow> iterate resourceSpans;
          flatMap_js (\<lambda>resourceSpan. do {
              scopeSpans \<leftarrow> get resourceSpan ''scopeSpans'';
              if truthy scopeSpans then do {
                sss \<leftarrow> iterate scopeSpans;
                flatMap_js (\<lambda>scopeSpan. do {
                    spans \<leftarrow> get scopeSpan ''spans'';
                    if truthy spans then iterate spans else Some []
                  }) sss
              }
              else Some []
            }) rss
        } else Some []);
     flat \<leftarrow> (if truthy (read_prop data ''spans'') then iterate (read_prop data ''spans'') else Some []);
     single \<leftarrow> and_then (has_key ''spanId'' data)
                 (and_then (has_key ''traceId'' data) (has_key ''name'' data));
     Some (nested @ flat @ (if single then [data] else []))
   }"

text \<open>
  The keys of a \<^verbatim>\<open>Map\<close> and the members of a \<^verbatim>\<open>Set\<close> compare by value when they are
  primitive and by reference otherwise. Two property values read at different places of a
  parsed document are different references, so a key that is an object or an array equals
  no other; a span identifier is the same reference only as the identifier of the same
  span, which the index of the span in the list records.
\<close>

fun is_reference :: "jsval \<Rightarrow> bool" where
  "is_reference (Arr xs) = True"
| "is_reference (Obj kvs) = True"
| "is_reference v = False"

definition same_value_zero :: "jsval \<Rightarrow> jsval \<Rightarrow> bool" where
  "same_value_zero a b = (\<not> is_reference a \<and> a = b)"

definition same_member :: "jsval \<times> nat \<Rightarrow> jsval \<times> nat \<Rightarrow> bool" where
  "same_member a b = (if is_reference (fst a) then snd a = snd b else fst a = fst b)"

text \<open>\<^verbatim>\<open>children.add(id)\<close>\<close>

definition set_add :: "jsval \<times> nat \<Rightarrow> (jsval \<times> nat) list \<Rightarrow> (jsval \<times> nat) list" where
  "set_add a members = (if list_ex (same_member a) members then members else members @ [a])"

text \<open>\<^verbatim>\<open>childMap.get(key)\<close> and \<^verbatim>\<open>childMap.set(key, children)\<close>\<close>

primrec map_get :: "(jsval \<times> (jsval \<times> nat) list) list \<Rightarrow> jsval \<Rightarrow> (jsval \<times> nat) list option" where
  "map_get [] key = None"
| "map_get (entry # entries) key =
     (if same_value_zero (fst entry) key then Some (snd entry) else map_get entries key)"

primrec map_set ::
  "jsval \<Rightarrow> (jsval \<times> nat) list \<Rightarrow> (jsval \<times> (jsval \<times> nat) list) list
     \<Rightarrow> (jsval \<times> (jsval \<times> nat) list) list" where
  "map_set key children [] = [(key, children)]"
| "map_set key children (entry # entries) =
     (if same_value_zero (fst entry) key then (fst entry, children) # entries
      else entry # map_set key children entries)"

text \<open>The loop that builds the parent-to-children map.\<close>

primrec build_childMap ::
  "(jsval \<times> nat) list \<Rightarrow> (jsval \<times> (jsval \<times> nat) list) list
     \<Rightarrow> (jsval \<times> (jsval \<times> nat) list) list throws" where
  "build_childMap [] childMap = Some childMap"
| "build_childMap (s # rest) childMap = do {
     parentSpanId \<leftarrow> get (fst s) ''parentSpanId'';
     if truthy parentSpanId then
       (let children = (case map_get childMap parentSpanId of Some c \<Rightarrow> c | None \<Rightarrow> [])
        in build_childMap rest
             (map_set parentSpanId (set_add (read_prop (fst s) ''spanId'', snd s) children) childMap))
     else build_childMap rest childMap
   }"

definition findLeafLLMSpans :: "runtime \<Rightarrow> OTelMappingConfig \<Rightarrow> jsval list \<Rightarrow> jsval list throws" where
  "findLeafLLMSpans rt mappings spans = do {
     llmSpans \<leftarrow> filter_js (\<lambda>s. isLLMSpan rt mappings (fst s)) (indexed spans);
     childMap \<leftarrow> build_childMap (indexed spans) [];
     let llmSpanIds = map (\<lambda>s. (read_prop (fst s) ''spanId'', snd s)) llmSpans;
     Some (map fst
       (filter (\<lambda>s. case map_get childMap (read_prop (fst s) ''spanId'') of
                       None \<Rightarrow> True
                     | Some children \<Rightarrow>
                         \<not> list_ex (\<lambda>childId. list_ex (same_member childId) llmSpanIds) children)
          llmSpans))
   }"

subsection \<open>Converting one span\<close>

definition convertSpanToReviewItem ::
  "runtime \<Rightarrow> nat list \<Rightarrow> jsval \<Rightarrow> jsval list \<Rightarrow> OTelMappingConfig \<Rightarrow> string \<Rightarrow> jsval throws" where
  "convertSpanToReviewItem rt p spn contextChunks mappings now = do {
     (prompt, systemPrompt) \<leftarrow> otel_extractPrompt rt mappings spn;
     response \<leftarrow> otel_extractResponse rt mappings spn;
     model \<leftarrow> extractModel rt mappings spn;
     tokenUsage \<leftarrow> extractTokenUsage rt mappings spn;
     let latencyMs = calculateLatency rt spn;
     let createdAt = (case nanoToIso rt (read_prop spn ''startTimeUnixNano'') of
                        Some created \<Rightarrow> created | None \<Rightarrow> now);
     let status = read_prop spn ''status'';
     let error = (if opt_get status ''code'' = Num (Fin 2) then read_prop status ''message''
                  else Undefined);
     span_type \<leftarrow> otel_getSpanType rt mappings spn;
     original_data \<leftarrow> getAttributesObject rt spn;
     Some (Obj [
       (''id'', or_else (read_prop spn ''spanId'') (Str (uuidv4 rt (p @ [0])))),
       (''version'', SCHEMA_VERSION),
       (''created_at'', Str createdAt),
       (''updated_at'', Str now),
       (''status'', Str ''pending''),
       (''trace_metadata'', Obj [
          (''trace_id'', read_prop spn ''traceId''),
          (''span_id'', read_prop spn ''spanId''),
          (''parent_id'', read_prop spn ''parentSpanId''),
          (''span_type'', Str span_type),
          (''source'', Str ''otel''),
          (''error'', error),
          (''latency_ms'', Num latencyMs),
          (''original_data'', original_data)]),
       (''input'', Obj [
          (''prompt'', prompt),
          (''system_prompt'', systemPrompt),
          (''context_chunks'', Arr contextChunks)]),
       (''outputs'',
          if truthy response then
            Arr [Obj [
              (''model_id'', Str model),
              (''text'', response),
              (''token_usage'', Num tokenUsage),
              (''latency_ms'', Num latencyMs)]]
          else Arr []),
       (''human_feedback'', Obj [])])
   }"

subsection \<open>The adapter's \<^verbatim>\<open>normalize\<close>\<close>

definition convert_spans ::
  "runtime \<Rightarrow> nat list \<Rightarrow> jsval list \<Rightarrow> OTelMappingConfig \<Rightarrow> string \<Rightarrow> jsval list \<Rightarrow> jsval throws" where
  "convert_spans rt p contextChunks mappings now spans = do {
     items \<leftarrow> map_js (\<lambda>(spn, j). convertSpanToReviewItem rt (p @ [1, j]) spn contextChunks mappings now)
                (indexed spans);
     Some (one_or_many items)
   }"

text \<open>The part of \<^verbatim>\<open>normalize\<close> after the span list has been extracted.\<close>

definition normalize_spans ::
  "runtime \<Rightarrow> AdapterRegistry \<Rightarrow> nat list \<Rightarrow> jsval list \<Rightarrow> jsval throws" where
  "normalize_spans rt registry p spans =
     (let now = Date_now rt p; mappings = getOTelMappings registry
      in if length spans = 0 then Some (Arr [])
         else do {
           contextChunks \<leftarrow> extractContextFromRetrievers rt (p @ [0]) mappings spans;
           leafLLMSpans \<leftarrow> findLeafLLMSpans rt mappings spans;
           if 0 < length leafLLMSpans
           then convert_spans rt p contextChunks mappings now leafLLMSpans
           else do {
             llmLikeSpans \<leftarrow> filter_js (\<lambda>s. do {
                 hasPrompt \<leftarrow> has_any_attribute rt s (promptAttributes mappings);
                 hasResponse \<leftarrow> has_any_attribute rt s (responseAttributes mappings);
                 Some (hasPrompt \<or> hasResponse)
               }) spans;
             if 0 < length llmLikeSpans
             then convert_spans rt p contextChunks mappings now llmLikeSpans
             else do {
               rootSpans \<leftarrow> filter_js (\<lambda>s. do {
                   parentSpanId \<leftarrow> get s ''parentSpanId'';
                   Some (\<not> truthy parentSpanId)
                 }) spans;
               convert_spans rt p contextChunks mappings now rootSpans
             }
           }
         })"

definition otel_normalize :: "runtime \<Rightarrow> AdapterRegistry \<Rightarrow> nat list \<Rightarrow> jsval \<Rightarrow> jsval throws" where
  "otel_normalize rt registry p data = do {
     spans \<leftarrow> (case data of Arr xs \<Rightarrow> Some xs | _ \<Rightarrow> extractSpans data);
     normalize_spans rt registry p spans
   }"

section \<open>The import orchestrator\<close>

fun detect :: "adapter \<Rightarrow> jsval \<Rightarrow> bool throws" where
  "detect langSmithAdapter data = isLangSmithExport data"
| "detect otelAdapter data = isOTelExport data"

fun normalize :: "runtime \<Rightarrow> AdapterRegistry \<Rightarrow> nat list \<Rightarrow> adapter \<Rightarrow> jsval \<Rightarrow> jsval throws" where
  "normalize rt registry p langSmithAdapter data = langsmith_normalize rt p data"
| "normalize rt registry p otelAdapter data = otel_normalize rt registry p data"

text \<open>\<^verbatim>\<open>detectAdapter\<close>: the first registered adapter whose \<^verbatim>\<open>detect\<close> answers true.\<close>

primrec detect_first :: "adapter list \<Rightarrow> jsval \<Rightarrow> adapter option throws" where
  "detect_first [] data = Some None"
| "detect_first (a # as) data = do {
     hit \<leftarrow> detect a data;
     if hit then Some (Some a) else detect_first as data
   }"

definition detectAdapter :: "AdapterRegistry \<Rightarrow> jsval \<Rightarrow> adapter option throws" where
  "detectAdapter registry data = detect_first (getAll registry) data"

record error_entry =
  line :: nat
  message :: string

record ImportResult =
  success :: bool
  itemsImported :: nat
  items :: "jsval list"
  errors :: "error_entry list"

record File =
  file_size :: nat
  file_text :: string

definition MAX_FILE_SIZE :: nat where
  "MAX_FILE_SIZE = 50 * 1024 * 1024"

text \<open>\<^verbatim>\<open>Array.isArray(result) ? result : [result]\<close>\<close>

fun as_list :: "jsval \<Rightarrow> jsval list" where
  "as_list (Arr xs) = xs"
| "as_list v = [v]"

text \<open>The result an adapter's successful \<^verbatim>\<open>normalize\<close> returns from \<^verbatim>\<open>parseJsonData\<close>.\<close>

definition adapter_result :: "jsval \<Rightarrow> ImportResult" where
  "adapter_result result =
     \<lparr>success = True, itemsImported = length (as_list result), items = as_list result,
      errors = []\<rparr>"

text \<open>
  One pass of a loop whose body is a \<^verbatim>\<open>try\<close>: the outcomes of the units in order,
  \<open>Some\<close> the records a unit added and \<open>None\<close> an exception caught for it.
\<close>

definition collect_items :: "(jsval list throws) list \<Rightarrow> jsval list" where
  "collect_items outcomes = concat (map (\<lambda>r. case r of Some its \<Rightarrow> its | None \<Rightarrow> []) outcomes)"

definition collect_errors :: "runtime \<Rightarrow> (jsval list throws) list \<Rightarrow> error_entry list" where
  "collect_errors rt outcomes =
     concat (map (\<lambda>(r, i). case r of Some its \<Rightarrow> []
                             | None \<Rightarrow> [\<lparr>line = i + 1, message = Error_message rt\<rparr>])
               (indexed outcomes))"

definition finish :: "jsval list \<Rightarrow> error_entry list \<Rightarrow> ImportResult" where
  "finish its errs =
     \<lparr>success = (length errs = 0 \<or> 0 < length its), itemsImported = length its, items = its,
      errors = errs\<rparr>"

text \<open>\<^verbatim>\<open>const item = normalizeToReviewItem(x, n); if (item) items.push(item)\<close>\<close>

definition push_item :: "runtime \<Rightarrow> nat list \<Rightarrow> jsval \<Rightarrow> nat \<Rightarrow> jsval list throws" where
  "push_item rt p x n = do {
     item \<leftarrow> normalizeToReviewItem rt p x n;
     Some (if truthy item then [item] else [])
   }"

text \<open>
  The part of \<^verbatim>\<open>parseJsonData\<close> after the adapter attempt; \<open>errs\<close> holds the adapter's
  error when its \<^verbatim>\<open>normalize\<close> threw.
\<close>

definition parse_units ::
  "runtime \<Rightarrow> AdapterRegistry \<Rightarrow> jsval \<Rightarrow> error_entry list \<Rightarrow> ImportResult throws" where
  "parse_units rt registry data errs =
     (case data of
        Arr xs \<Rightarrow> do {
          isRuns \<leftarrow> (case get_adapter registry langsmith of
                       Some a \<Rightarrow> detect a data
                     | None \<Rightarrow> Some False);
          case (if isRuns then
                  (case get_adapter registry langsmith of
                     Some a \<Rightarrow> normalize rt registry [1] a data
                   | None \<Rightarrow> None)
                else None) of
            Some result \<Rightarrow> Some (adapter_result result)
          | None \<Rightarrow>
              (let outcomes = map (\<lambda>(x, i). push_item rt [2, i] x (i + 1)) (indexed xs)
               in Some (finish (collect_items outcomes) (errs @ collect_errors rt outcomes)))
        }
      | _ \<Rightarrow>
          if typeof data = ''object'' \<and> data \<noteq> Null then
            (let outcomes = [push_item rt [2, 0] data 1]
             in Some (finish (collect_items outcomes) (errs @ collect_errors rt outcomes)))
          else Some (finish [] errs))"

definition parseJsonData :: "runtime \<Rightarrow> AdapterRegistry \<Rightarrow> jsval \<Rightarrow> ImportResult throws" where
  "parseJsonData rt registry data = do {
     adapter \<leftarrow> detectAdapter registry data;
     case adapter of
       Some a \<Rightarrow>
         (case normalize rt registry [0] a data of
            Some result \<Rightarrow> Some (adapter_result result)
          | None \<Rightarrow>
              parse_units rt registry data
                [\<lparr>line = 0,
                  message = TraceSource_text (adapter_name a) @ '' adapter error: ''
                            @ Error_message rt\<rparr>])
     | None \<Rightarrow> parse_units rt registry data []
   }"

text \<open>The body of the \<^verbatim>\<open>try\<close> of \<^verbatim>\<open>parseJsonlLines\<close> for the line at index \<open>i\<close>.\<close>

definition parse_line :: "runtime \<Rightarrow> AdapterRegistry \<Rightarrow> string \<Rightarrow> nat \<Rightarrow> jsval list throws" where
  "parse_line rt registry lineText i = do {
     parsed \<leftarrow> JSON_parse rt lineText;
     adapter \<leftarrow> detectAdapter registry parsed;
     case adapter of
       Some a \<Rightarrow> do { result \<leftarrow> normalize rt registry [3, i] a parsed; Some (as_list result) }
     | None \<Rightarrow> push_item rt [3, i] parsed (i + 1)
   }"

definition nonblank_lines :: "string \<Rightarrow> string list" where
  "nonblank_lines txt = filter (\<lambda>lineText. trim lineText \<noteq> []) (split_lines txt)"

definition parseJsonlLines :: "runtime \<Rightarrow> AdapterRegistry \<Rightarrow> string \<Rightarrow> ImportResult" where
  "parseJsonlLines rt registry txt =
     (let outcomes = map (\<lambda>(lineText, i). parse_line rt registry lineText i) (indexed (nonblank_lines txt))
      in finish (collect_items outcomes) (collect_errors rt outcomes))"

definition too_large :: ImportResult where
  "too_large =
     \<lparr>success = False, itemsImported = 0, items = [],
      errors = [\<lparr>line = 0,
                 message = ''File size exceeds '' @ decimal (MAX_FILE_SIZE div 1024 div 1024)
                           @ ''MB limit''\<rparr>]\<rparr>"

text \<open>The part of \<^verbatim>\<open>parseJsonlFile\<close> after the size check.\<close>

definition parse_text :: "runtime \<Rightarrow> AdapterRegistry \<Rightarrow> string \<Rightarrow> ImportResult" where
  "parse_text rt registry txt =
     (let trimmed = trim txt
      in if startsWith trimmed ''{'' \<or> startsWith trimmed ''[''
         then (case do { parsed \<leftarrow> JSON_parse rt trimmed; parseJsonData rt registry parsed } of
                 Some result \<Rightarrow> result
               | None \<Rightarrow> parseJsonlLines rt registry txt)
         else parseJsonlLines rt registry txt)"

definition parseJsonlFile :: "runtime \<Rightarrow> AdapterRegistry \<Rightarrow> File \<Rightarrow> ImportResult" where
  "parseJsonlFile rt registry file =
     (if file_size file > MAX_FILE_SIZE then too_large
      else parse_text rt registry (file_text file))"

section \<open>A host for the examples\<close>

text \<open>
  The concrete examples below run on this host. Its \<^verbatim>\<open>JSON.parse\<close> knows the documents
  the examples use and rejects every other text; its \<^verbatim>\<open>JSON.stringify\<close> writes the
  compact form; it prints whole numbers only.
\<close>

definition sample_quote :: "string \<Rightarrow> string" where
  "sample_quote s =
     [CHR 0x22]
     @ concat (map (\<lambda>c. if c = CHR 0x22 \<or> c = CHR 0x5C then [CHR 0x5C, c] else [c]) s)
     @ [CHR 0x22]"

definition sample_number :: "number \<Rightarrow> string" where
  "sample_number n =
     (case n of
        NaN \<Rightarrow> ''NaN''
      | Fin q \<Rightarrow> (if 0 \<le> q then decimal (nat \<lfloor>q\<rfloor>) else CHR ''-'' # decimal (nat \<lfloor>- q\<rfloor>)))"

fun sample_stringify :: "jsval \<Rightarrow> string" where
  "sample_stringify Undefined = ''null''"
| "sample_stringify Null = ''null''"
| "sample_stringify (Bool b) = (if b then ''true'' else ''false'')"
| "sample_stringify (Num n) = (if n = NaN then ''null'' else sample_number n)"
| "sample_stringify (Str s) = sample_quote s"
| "sample_stringify (Arr xs) = ''['' @ join '','' (map sample_stringify xs) @ '']''"
| "sample_stringify (Obj kvs) =
     ''{'' @ join '',''
              (map (\<lambda>(k, v). sample_quote k @ '':'' @ sample_stringify v)
                 (filter (\<lambda>(k, v). v \<noteq> Undefined) kvs)) @ ''}''"

definition line_ab :: string where
  \<open>line_ab = ''{"prompt":"a","response":"b"}''\<close>

definition line_cd :: string where
  \<open>line_cd = ''{"prompt":"c","response":"d"}''\<close>

definition line_bad :: string where
  \<open>line_bad = ''{"prompt":''\<close>

definition sample_parse :: "string \<Rightarrow> jsval throws" where
  "sample_parse s =
     (if s = line_ab then Some (Obj [(''prompt'', Str ''a''), (''response'', Str ''b'')])
      else if s = line_cd then Some (Obj [(''prompt'', Str ''c''), (''response'', Str ''d'')])
      else if s = ''[]'' then Some (Arr [])
      else throw)"

text \<open>A record already in the canonical format, approved by a reviewer.\<close>

definition canonical_sample :: jsval where
  "canonical_sample =
     Obj [(''id'', Str ''item-1''),
          (''status'', Str ''approved''),
          (''input'', Obj [(''prompt'', Str ''What is RAG?''), (''context_chunks'', Arr [])]),
          (''outputs'', Arr [Obj [(''model_id'', Str ''m''), (''text'', Str ''Retrieval.''),
                                  (''token_usage'', Num (Fin 3)), (''latency_ms'', Num (Fin 0))]]),
          (''human_feedback'', Obj [])]"

definition sample_host :: runtime where
  "sample_host = \<lparr>
     JSON_parse = sample_parse,
     JSON_stringify = sample_stringify,
     uuidv4 = (\<lambda>p. ''00000000-0000-4000-8000-000000000000''),
     Date_now = (\<lambda>p. ''2026-01-01T00:00:00.000Z''),
     Date_getTime = (\<lambda>v. NaN),
     Date_toISOString = (\<lambda>n. Some ''1970-01-01T00:00:00.000Z''),
     number_toString = sample_number,
     string_toNumber = (\<lambda>s. if s = [] then Fin 0 else NaN),
     string_toBigInt = (\<lambda>s. throw),
     Error_message = ''Unexpected end of JSON input''\<rparr>"


text \<open>A generic prompt/response object with an empty response.\<close>

definition empty_response_sample :: jsval where
  "empty_response_sample = Obj [(''prompt'', Str ''hi''), (''response'', Str [])]"

text \<open>A LangSmith run that carries no \<^verbatim>\<open>outputs\<close>.\<close>

definition run_without_outputs :: jsval where
  "run_without_outputs =
     Obj [(''run_id'', Str ''r1''), (''run_type'', Str ''llm''),
          (''inputs'', Obj [(''prompt'', Str ''hi'')])]"

text \<open>Three spans of one trace: an LLM span, a chain step below it, an LLM span below that.\<close>

definition outer_span :: jsval where
  "outer_span =
     Obj [(''traceId'', Str ''t''), (''spanId'', Str ''outer''), (''name'', Str ''llm.chat'')]"

definition middle_span :: jsval where
  "middle_span =
     Obj [(''traceId'', Str ''t''), (''spanId'', Str ''mid''), (''parentSpanId'', Str ''outer''),
          (''name'', Str ''chain.step'')]"

definition inner_span :: jsval where
  "inner_span =
     Obj [(''traceId'', Str ''t''), (''spanId'', Str ''inner''), (''parentSpanId'', Str ''mid''),
          (''name'', Str ''llm.completion'')]"

text \<open>The same inner span as a direct child of the outer one.\<close>

definition child_span :: jsval where
  "child_span =
     Obj [(''traceId'', Str ''t''), (''spanId'', Str ''inner''), (''parentSpanId'', Str ''outer''),
          (''name'', Str ''llm.completion'')]"

text \<open>Payloads of lines: a valid one, an invalid one, a valid one, without and with a blank line.\<close>

definition three_line_text :: string where
  "three_line_text = line_ab @ [CHR 0x0A] @ line_bad @ [CHR 0x0A] @ line_cd"

definition blank_line_text :: string where
  "blank_line_text = line_ab @ [CHR 0x0A, CHR 0x0A] @ line_bad @ [CHR 0x0A] @ line_cd"

text \<open>The records the host's runs give.\<close>

definition approved_record :: jsval where
  "approved_record =
     Obj [(''id'', Str ''item-1''),
          (''status'', Str ''approved''),
          (''input'', Obj [(''prompt'', Str ''What is RAG?''), (''context_chunks'', Arr [])]),
          (''outputs'', Arr [Obj [(''model_id'', Str ''m''), (''text'', Str ''Retrieval.''),
                                  (''token_usage'', Num (Fin 3)), (''latency_ms'', Num (Fin 0))]]),
          (''human_feedback'', Obj []),
          (''version'', Num (Fin 1)),
          (''created_at'', Str ''2026-01-01T00:00:00.000Z''),
          (''updated_at'', Str ''2026-01-01T00:00:00.000Z'')]"


definition generic_record :: "string \<Rightarrow> string \<Rightarrow> jsval" where
  "generic_record prompt response =
     Obj [(''id'', Str ''00000000-0000-4000-8000-000000000000''),
          (''version'', Num (Fin 1)),
          (''created_at'', Str ''2026-01-01T00:00:00.000Z''),
          (''updated_at'', Str ''2026-01-01T00:00:00.000Z''),
          (''status'', Str ''pending''),
          (''tags'', Undefined),
          (''input'', Obj [(''prompt'', Str prompt), (''system_prompt'', Undefined),
                           (''context_chunks'', Arr [])]),
          (''outputs'', Arr [Obj [(''model_id'', Str ''default''), (''text'', Str response),
                                  (''token_usage'', Num (Fin 0)), (''latency_ms'', Num (Fin 0))]]),
          (''human_feedback'', Obj [])]"

definition langsmith_record :: jsval where
  "langsmith_record =
     Obj [(''id'', Str ''r1''),
          (''version'', Num (Fin 1)),
          (''created_at'', Str ''2026-01-01T00:00:00.000Z''),
          (''updated_at'', Str ''2026-01-01T00:00:00.000Z''),
          (''status'', Str ''pending''),
          (''tags'', Undefined),
          (''trace_metadata'',
             Obj [(''trace_id'', Str ''r1''), (''span_id'', Str ''r1''), (''parent_id'', Undefined),
                  (''span_type'', Str ''llm''), (''source'', Str ''langsmith''),
                  (''session_id'', Undefined), (''error'', Undefined),
                  (''latency_ms'', Num (Fin 0)),
                  (''original_data'',
                     Obj [(''run_type'', Str ''llm''), (''name'', Undefined),
                          (''extra'', Undefined)])]),
          (''input'', Obj [(''prompt'', Str ''hi''), (''system_prompt'', Undefined),
                           (''context_chunks'', Arr [])]),
          (''outputs'', Arr [Obj [(''model_id'', Str ''langsmith''), (''text'', Str ''{}''),
                                  (''token_usage'', Num (Fin 0)), (''latency_ms'', Num (Fin 0))]]),
          (''human_feedback'', Obj [])]"

definition span_record :: "string \<Rightarrow> jsval \<Rightarrow> jsval" where
  "span_record spanId parentId =
     Obj [(''id'', Str spanId),
          (''version'', Num (Fin 1)),
          (''created_at'', Str ''2026-01-01T00:00:00.000Z''),
          (''updated_at'', Str ''2026-01-01T00:00:00.000Z''),
          (''status'', Str ''pending''),
          (''trace_metadata'',
             Obj [(''trace_id'', Str ''t''), (''span_id'', Str spanId), (''parent_id'', parentId),
                  (''span_type'', Str ''llm''), (''source'', Str ''otel''), (''error'', Undefined),
                  (''latency_ms'', Num (Fin 0)), (''original_data'', Obj [])]),
          (''input'', Obj [(''prompt'', Str []), (''system_prompt'', Undefined),
                           (''context_chunks'', Arr [])]),
          (''outputs'', Arr []),
          (''human_feedback'', Obj [])]"

text \<open>A LangSmith run that is not an LLM call, and the record its conversion gives.\<close>

definition chain_run :: jsval where
  "chain_run =
     Obj [(''run_id'', Str ''r1''), (''run_type'', Str ''chain''),
          (''inputs'', Obj [(''prompt'', Str ''hi'')])]"

definition chain_record :: jsval where
  "chain_record =
     Obj [(''id'', Str ''r1''),
          (''version'', Num (Fin 1)),
          (''created_at'', Str ''2026-01-01T00:00:00.000Z''),
          (''updated_at'', Str ''2026-01-01T00:00:00.000Z''),
          (''status'', Str ''pending''),
          (''tags'', Undefined),
          (''trace_metadata'',
             Obj [(''trace_id'', Str ''r1''), (''span_id'', Str ''r1''), (''parent_id'', Undefined),
                  (''span_type'', Str ''chain''), (''source'', Str ''langsmith''),
                  (''session_id'', Undefined), (''error'', Undefined),
                  (''latency_ms'', Num (Fin 0)),
                  (''original_data'',
                     Obj [(''run_type'', Str ''chain''), (''name'', Undefined),
                          (''extra'', Undefined)])]),
          (''input'', Obj [(''prompt'', Str ''hi''), (''system_prompt'', Undefined),
                           (''context_chunks'', Arr [])]),
          (''outputs'', Arr [Obj [(''model_id'', Str ''langsmith''), (''text'', Str ''{}''),
                                  (''token_usage'', Num (Fin 0)), (''latency_ms'', Num (Fin 0))]]),
          (''human_feedback'', Obj [])]"




text \<open>
  A LangSmith run tree in which an LLM run wraps a chain step that wraps the LLM run
  \<open>run_without_outputs\<close>.
\<close>

definition middle_run :: jsval where
  "middle_run =
     Obj [(''run_id'', Str ''r2''), (''run_type'', Str ''chain''),
          (''child_runs'', Arr [run_without_outputs])]"

definition nested_run :: jsval where
  "nested_run =
     Obj [(''run_id'', Str ''r0''), (''run_type'', Str ''llm''),
          (''inputs'', Obj [(''prompt'', Str ''outer'')]),
          (''child_runs'', Arr [middle_run])]"

text \<open>A flat OTel export of the three spans.\<close>

definition three_span_export :: jsval where
  "three_span_export = Obj [(''spans'', Arr [outer_span, middle_span, inner_span])]"





text \<open>A root span that is no LLM call and whose \<^verbatim>\<open>input.messages\<close> is not an array.\<close>

definition raising_span :: jsval where
  "raising_span =
     Obj [(''traceId'', Str ''t''), (''spanId'', Str ''root''), (''name'', Str ''chain.step''),
          (''input'', Obj [(''messages'', Num (Fin 5))])]"

text \<open>Two overrides of the mapping table, each supplying one key.\<close>

definition first_override :: PartialOTelMappingConfig where
  "first_override = \<lparr>
     p_promptAttributes = Some [''my.prompt''],
     p_responseAttributes = None,
     p_modelAttributes = None,
     p_tokenAttributes = None,
     p_llmSpanNames = None,
     p_retrieverSpanNames = None\<rparr>"

definition second_override :: PartialOTelMappingConfig where
  "second_override = \<lparr>
     p_promptAttributes = None,
     p_responseAttributes = None,
     p_modelAttributes = None,
     p_tokenAttributes = None,
     p_llmSpanNames = Some [''my.llm''],
     p_retrieverSpanNames = None\<rparr>"

section \<open>The notions the properties are stated with\<close>

subsection \<open>Reading a record\<close>

definition status_of :: "jsval \<Rightarrow> jsval" where
  "status_of r = read_prop r ''status''"

definition prompt_of :: "jsval \<Rightarrow> jsval" where
  "prompt_of r = read_prop (read_prop r ''input'') ''prompt''"

definition outputs_of :: "jsval \<Rightarrow> jsval" where
  "outputs_of r = read_prop r ''outputs''"

definition is_Obj :: "jsval \<Rightarrow> bool" where
  "is_Obj v = (case v of Obj kvs \<Rightarrow> True | _ \<Rightarrow> False)"

text \<open>The elements of an array; no element for anything else.\<close>

fun elements :: "jsval \<Rightarrow> jsval list" where
  "elements (Arr xs) = xs"
| "elements v = []"

subsection \<open>The result of an import\<close>

text \<open>The relation every import result satisfies.\<close>

definition flag_agrees :: "ImportResult \<Rightarrow> bool" where
  "flag_agrees r =
     (success r = (errors r = [] \<or> items r \<noteq> []) \<and> itemsImported r = length (items r))"

subsection \<open>The units of a LangSmith run tree\<close>

text \<open>
  The units of a run tree in document order (a run, then the units of each child), the
  units below a run, the runs classified as LLM calls, and the leaf LLM runs as the
  specification defines them: an LLM run with no LLM run below it.
\<close>

lemma size_elements: "x \<in> set (elements (read_prop run k)) \<Longrightarrow> size x < size run"
proof (cases "read_prop run k")
  case (Arr xs)
  assume "x \<in> set (elements (read_prop run k))"
  with Arr size_read_prop [of run k] size_elem [of x xs] show ?thesis by simp
qed simp_all

function runs_of :: "jsval \<Rightarrow> jsval list" where
  "runs_of run = run # concat (map runs_of (elements (read_prop run ''child_runs'')))"
  by pat_completeness auto
termination
  by (relation "measure size") (auto simp: size_elements)

declare runs_of.simps [simp del]

definition below :: "jsval \<Rightarrow> jsval list" where
  "below run = concat (map runs_of (elements (read_prop run ''child_runs'')))"

definition llm_run :: "jsval \<Rightarrow> bool" where
  "llm_run run = (getSpanType (read_prop run ''run_type'') = Some ''llm'')"

definition leaf_llm :: "jsval \<Rightarrow> bool" where
  "leaf_llm run = (llm_run run \<and> \<not> list_ex llm_run (below run))"

subsection \<open>The spans of an OTel span list\<close>

text \<open>
  The identifiers the child map keeps under a key, and the leaf LLM spans as
  \<^verbatim>\<open>findLeafLLMSpans\<close> documents them (\<^emph>\<open>spans with no LLM children\<close>): an LLM span such
  that no span naming it as its parent carries the identifier of an LLM span.
\<close>

definition child_ids :: "(jsval \<times> (jsval \<times> nat) list) list \<Rightarrow> jsval \<Rightarrow> jsval list" where
  "child_ids childMap key = (case map_get childMap key of None \<Rightarrow> [] | Some c \<Rightarrow> map fst c)"

definition llm_span :: "runtime \<Rightarrow> OTelMappingConfig \<Rightarrow> jsval \<Rightarrow> bool" where
  "llm_span rt mappings s = (isLLMSpan rt mappings s = Some True)"

definition has_llm_child :: "runtime \<Rightarrow> OTelMappingConfig \<Rightarrow> jsval list \<Rightarrow> jsval \<Rightarrow> bool" where
  "has_llm_child rt mappings spans s =
     list_ex (\<lambda>c. truthy (read_prop c ''parentSpanId'')
                \<and> read_prop c ''parentSpanId'' = read_prop s ''spanId''
                \<and> list_ex (\<lambda>l. llm_span rt mappings l
                               \<and> read_prop l ''spanId'' = read_prop c ''spanId'') spans)
       spans"

definition leaf_llm_span :: "runtime \<Rightarrow> OTelMappingConfig \<Rightarrow> jsval list \<Rightarrow> jsval \<Rightarrow> bool" where
  "leaf_llm_span rt mappings spans s =
     (llm_span rt mappings s \<and> \<not> has_llm_child rt mappings spans s)"

section \<open>Properties\<close>

subsection \<open>The result of an import\<close>

lemma finish_flag:
  "success (finish its errs) = (errors (finish its errs) = [] \<or> items (finish its errs) \<noteq> [])
   \<and> itemsImported (finish its errs) = length (items (finish its errs))"
  by (simp add: finish_def)

lemma parse_units_flag:
  "parse_units rt registry data errs = Some r \<Longrightarrow> flag_agrees r"
  unfolding parse_units_def flag_agrees_def
  by (auto split: jsval.splits option.splits if_splits Option.bind_splits
      simp: finish_def adapter_result_def Let_def)

lemma parseJsonData_flag:
  "parseJsonData rt registry data = Some r \<Longrightarrow> flag_agrees r"
  unfolding parseJsonData_def
  by (auto split: option.splits Option.bind_splits dest: parse_units_flag
      simp: adapter_result_def flag_agrees_def)

lemma parseJsonlLines_flag: "flag_agrees (parseJsonlLines rt registry t)"
  by (simp add: parseJsonlLines_def flag_agrees_def finish_def Let_def)

lemma too_large_flag: "flag_agrees too_large"
  by (simp add: too_large_def flag_agrees_def)

lemma parse_text_flag: "flag_agrees (parse_text rt registry t)"
  unfolding parse_text_def Let_def
  by (auto split: option.splits Option.bind_splits
      intro: parseJsonData_flag parseJsonlLines_flag)

text \<open>
  C1, as the code has it. For every import, \<open>success\<close> is true exactly when the import
  recorded no error or produced at least one record, and \<open>itemsImported\<close> counts the
  records. So an import that produced a record always reports success, and one that
  produced none reports failure exactly when it recorded an error.
\<close>

theorem success_flag:
  "success (parseJsonlFile rt registry file) =
     (errors (parseJsonlFile rt registry file) = []
      \<or> items (parseJsonlFile rt registry file) \<noteq> [])
   \<and> itemsImported (parseJsonlFile rt registry file) =
       length (items (parseJsonlFile rt registry file))"
proof -
  have "flag_agrees (parseJsonlFile rt registry file)"
    by (simp add: parseJsonlFile_def too_large_flag parse_text_flag)
  then show ?thesis by (simp add: flag_agrees_def)
qed

lemma empty_import:
  "parseJsonlFile rt registry \<lparr>file_size = 0, file_text = []\<rparr> =
     \<lparr>success = True, itemsImported = 0, items = [], errors = []\<rparr>"
  by (simp add: parseJsonlFile_def parse_text_def MAX_FILE_SIZE_def trim_def startsWith_def
      parseJsonlLines_def nonblank_lines_def indexed_def finish_def collect_items_def
      collect_errors_def)

text \<open>
  C1 as stated fails: the import of an empty payload produces no record and reports
  success.
\<close>

theorem success_flag_counterexample:
  "\<not> (success (parseJsonlFile sample_host adapterRegistry \<lparr>file_size = 0, file_text = []\<rparr>)
        = (items (parseJsonlFile sample_host adapterRegistry \<lparr>file_size = 0, file_text = []\<rparr>)
             \<noteq> []))"
  by (simp add: empty_import)

theorem success_flag_witness:
  "success (parseJsonlFile sample_host adapterRegistry \<lparr>file_size = 0, file_text = []\<rparr>)
   \<and> itemsImported (parseJsonlFile sample_host adapterRegistry \<lparr>file_size = 0, file_text = []\<rparr>)
       = 0"
  using success_flag [of sample_host adapterRegistry "\<lparr>file_size = 0, file_text = []\<rparr>"]
  by (simp add: empty_import)

subsection \<open>The size ceiling\<close>

lemma decimal_50: "decimal 50 = ''50''"
  by (simp add: decimal.simps digit_char_def)

text \<open>
  C7. A file whose size exceeds the ceiling of 50 MiB is answered with no record, one
  error that names the 50 MB limit and \<open>success = False\<close>, whatever its text and
  whatever the host's parser would say of it; a file at or below the ceiling is answered
  with what the parsing of its text gives.
\<close>

theorem size_ceiling:
  "(MAX_FILE_SIZE < file_size file \<longrightarrow>
      parseJsonlFile rt registry file =
        \<lparr>success = False, itemsImported = 0, items = [],
         errors = [\<lparr>line = 0, message = ''File size exceeds 50MB limit''\<rparr>]\<rparr>)
   \<and> (file_size file \<le> MAX_FILE_SIZE \<longrightarrow>
        parseJsonlFile rt registry file = parse_text rt registry (file_text file))
   \<and> MAX_FILE_SIZE = 50 * 1024 * 1024"
  by (simp add: parseJsonlFile_def too_large_def MAX_FILE_SIZE_def decimal_50)

theorem size_ceiling_witness:
  "parseJsonlFile sample_host adapterRegistry \<lparr>file_size = 51 * 1024 * 1024, file_text = line_ab\<rparr> =
     \<lparr>success = False, itemsImported = 0, items = [],
      errors = [\<lparr>line = 0, message = ''File size exceeds 50MB limit''\<rparr>]\<rparr>
   \<and> parseJsonlFile sample_host adapterRegistry \<lparr>file_size = 50 * 1024 * 1024, file_text = []\<rparr> =
       parse_text sample_host adapterRegistry []"
  using size_ceiling [of "\<lparr>file_size = 51 * 1024 * 1024, file_text = line_ab\<rparr>" sample_host
      adapterRegistry]
    size_ceiling [of "\<lparr>file_size = 50 * 1024 * 1024, file_text = []\<rparr>" sample_host adapterRegistry]
  by (simp add: MAX_FILE_SIZE_def)

subsection \<open>The pass-through stage\<close>

lemma map_of_set_prop:
  "map_of (set_prop k v kvs) k' = (if k' = k then Some v else map_of kvs k')"
  by (induction kvs) auto

lemma index_of_key_input [simp]: "index_of_key ''input'' = None"
  by (simp add: index_of_key_def is_digit_def)

lemma index_of_key_outputs [simp]: "index_of_key ''outputs'' = None"
  by (simp add: index_of_key_def is_digit_def)

lemma and_then_Some_True: "and_then a b = Some True \<longleftrightarrow> a = Some True \<and> b = Some True"
  by (auto simp: and_then_def split: Option.bind_splits if_splits)

lemma isReviewItemFormat_True:
  "isReviewItemFormat d = Some True \<longleftrightarrow>
     (\<exists>kvs. d = Obj kvs) \<and> typeof (read_prop d ''input'') = ''object''
     \<and> read_prop d ''input'' \<noteq> Null
     \<and> has_key ''prompt'' (read_prop d ''input'') = Some True
     \<and> isArray (read_prop d ''outputs'')"
  by (cases d)
    (auto simp: isReviewItemFormat_def get_def nullish_def and_then_Some_True
      split: Option.bind_splits if_splits)

lemma normalize_canonical:
  "isReviewItemFormat d = Some True \<Longrightarrow>
     normalizeToReviewItem rt p d n = Some (passthrough rt p d (Date_now rt p))"
  by (simp add: normalizeToReviewItem_def Let_def)

lemma read_passthrough:
  "read_prop (passthrough rt p (Obj kvs) now) k =
     (if k = ''status'' then or_else (read_prop (Obj kvs) ''status'') (Str ''pending'')
      else if k = ''updated_at'' then Str now
      else if k = ''created_at'' then or_else (read_prop (Obj kvs) ''created_at'') (Str now)
      else if k = ''version'' then SCHEMA_VERSION
      else if k = ''id'' then or_else (read_prop (Obj kvs) ''id'') (Str (uuidv4 rt (p @ [0])))
      else read_prop (Obj kvs) k)"
  by (simp add: passthrough_def set_props_def map_of_set_prop)

lemma passthrough_canonical:
  assumes "isReviewItemFormat d = Some True"
  shows "isReviewItemFormat (passthrough rt p d now) = Some True"
proof -
  from assms obtain kvs where d: "d = Obj kvs" by (auto simp: isReviewItemFormat_True)
  have "\<exists>kvs'. passthrough rt p d now = Obj kvs'" by (simp add: passthrough_def)
  with assms show ?thesis
    unfolding isReviewItemFormat_True [of "passthrough rt p d now"] d
    by (simp add: read_passthrough isReviewItemFormat_True)
qed

lemma truthy_or_else: "truthy b \<Longrightarrow> truthy (or_else a b)"
  by (simp add: or_else_def)

lemma or_else_truthy: "truthy a \<Longrightarrow> or_else a b = a"
  by (simp add: or_else_def)

text \<open>
  C10. A unit in the canonical format is passed through, the record it gives is again in
  the canonical format, and passing that record through a second time (at another place
  \<open>p'\<close>, so with another clock reading and other fresh identifiers) gives a record with
  the same \<open>input\<close>, \<open>outputs\<close> and \<open>trace_metadata\<close>. Every other field agrees as well,
  \<open>status\<close> included, except \<open>updated_at\<close>; \<open>id\<close> and \<open>created_at\<close> agree as soon as
  the host's identifiers and timestamps are not empty strings.
\<close>

theorem passthrough_idempotent:
  assumes "isReviewItemFormat d = Some True"
  shows "\<exists>r1 r2.
     normalizeToReviewItem rt p d n = Some r1 \<and>
     normalizeToReviewItem rt p' r1 n' = Some r2 \<and>
     read_prop r2 ''input'' = read_prop r1 ''input'' \<and>
     read_prop r2 ''outputs'' = read_prop r1 ''outputs'' \<and>
     read_prop r2 ''trace_metadata'' = read_prop r1 ''trace_metadata'' \<and>
     (\<forall>k. k \<noteq> ''updated_at'' \<and> k \<noteq> ''id'' \<and> k \<noteq> ''created_at'' \<longrightarrow>
        read_prop r2 k = read_prop r1 k) \<and>
     (uuidv4 rt (p @ [0]) \<noteq> [] \<longrightarrow> read_prop r2 ''id'' = read_prop r1 ''id'') \<and>
     (Date_now rt p \<noteq> [] \<longrightarrow> read_prop r2 ''created_at'' = read_prop r1 ''created_at'')"
proof -
  from assms obtain kvs where d: "d = Obj kvs" by (auto simp: isReviewItemFormat_True)
  let ?r1 = "passthrough rt p d (Date_now rt p)"
  let ?r2 = "passthrough rt p' ?r1 (Date_now rt p')"
  have c1: "isReviewItemFormat ?r1 = Some True" by (rule passthrough_canonical [OF assms])
  obtain kvs1 where r1: "?r1 = Obj kvs1" by (auto simp: passthrough_def)
  have n1: "normalizeToReviewItem rt p d n = Some ?r1" by (rule normalize_canonical [OF assms])
  have n2: "normalizeToReviewItem rt p' ?r1 n' = Some ?r2" by (rule normalize_canonical [OF c1])
  have rd: "read_prop ?r2 k =
     (if k = ''status'' then or_else (read_prop ?r1 ''status'') (Str ''pending'')
      else if k = ''updated_at'' then Str (Date_now rt p')
      else if k = ''created_at'' then or_else (read_prop ?r1 ''created_at'') (Str (Date_now rt p'))
      else if k = ''version'' then SCHEMA_VERSION
      else if k = ''id'' then or_else (read_prop ?r1 ''id'') (Str (uuidv4 rt (p' @ [0])))
      else read_prop ?r1 k)" for k
    unfolding r1 by (rule read_passthrough)
  have st: "truthy (read_prop ?r1 ''status'')"
    unfolding d by (simp add: read_passthrough truthy_or_else del: read_prop.simps)
  have ver: "read_prop ?r1 ''version'' = SCHEMA_VERSION"
    unfolding d by (simp add: read_passthrough del: read_prop.simps)
  have idt: "truthy (read_prop ?r1 ''id'')" if "uuidv4 rt (p @ [0]) \<noteq> []"
    unfolding d using that by (simp add: read_passthrough truthy_or_else del: read_prop.simps)
  have cat: "truthy (read_prop ?r1 ''created_at'')" if "Date_now rt p \<noteq> []"
    unfolding d using that by (simp add: read_passthrough truthy_or_else del: read_prop.simps)
  show ?thesis
    apply (rule exI [of _ ?r1], rule exI [of _ ?r2])
    using n1 n2 st ver idt cat
    by (simp add: rd or_else_truthy)
qed

theorem passthrough_idempotent_witness:
  "isReviewItemFormat canonical_sample = Some True \<and>
   (\<exists>r1 r2.
     normalizeToReviewItem sample_host [2, 0] canonical_sample 1 = Some r1 \<and>
     normalizeToReviewItem sample_host [2, 1] r1 2 = Some r2 \<and>
     read_prop r2 ''input'' = read_prop r1 ''input'' \<and>
     read_prop r2 ''outputs'' = read_prop r1 ''outputs'' \<and>
     read_prop r2 ''trace_metadata'' = read_prop r1 ''trace_metadata'')"
proof -
  have h: "isReviewItemFormat canonical_sample = Some True"
    by (simp add: canonical_sample_def isReviewItemFormat_True)
  from passthrough_idempotent [OF h, of sample_host "[2, 0]" 1 "[2, 1]" 2] h
  show ?thesis by blast
qed

subsection \<open>The mapping table\<close>

text \<open>
  C9, as the code has it. Applying a partial override to the mapping table changes only
  the keys the override supplies: a supplied key takes the supplied value, and every key
  the override leaves out, the three token-attribute lists included, keeps the value the
  table held before the update. That value is the built-in default on the module's
  registry \<open>adapterRegistry\<close> as it is constructed, and the value of an earlier override
  after one. The registered adapters are untouched.
\<close>

theorem setOTelMappings_frame:
  "adapters (setOTelMappings m r) = adapters r \<and>
   promptAttributes (getOTelMappings (setOTelMappings m r)) =
     (case p_promptAttributes m of None \<Rightarrow> promptAttributes (getOTelMappings r) | Some v \<Rightarrow> v) \<and>
   responseAttributes (getOTelMappings (setOTelMappings m r)) =
     (case p_responseAttributes m of None \<Rightarrow> responseAttributes (getOTelMappings r) | Some v \<Rightarrow> v) \<and>
   modelAttributes (getOTelMappings (setOTelMappings m r)) =
     (case p_modelAttributes m of None \<Rightarrow> modelAttributes (getOTelMappings r) | Some v \<Rightarrow> v) \<and>
   tk_input (tokenAttributes (getOTelMappings (setOTelMappings m r))) =
     (case p_tokenAttributes m of None \<Rightarrow> tk_input (tokenAttributes (getOTelMappings r))
      | Some v \<Rightarrow> tk_input v) \<and>
   tk_output (tokenAttributes (getOTelMappings (setOTelMappings m r))) =
     (case p_tokenAttributes m of None \<Rightarrow> tk_output (tokenAttributes (getOTelMappings r))
      | Some v \<Rightarrow> tk_output v) \<and>
   tk_total (tokenAttributes (getOTelMappings (setOTelMappings m r))) =
     (case p_tokenAttributes m of None \<Rightarrow> tk_total (tokenAttributes (getOTelMappings r))
      | Some v \<Rightarrow> tk_total v) \<and>
   llmSpanNames (getOTelMappings (setOTelMappings m r)) =
     (case p_llmSpanNames m of None \<Rightarrow> llmSpanNames (getOTelMappings r) | Some v \<Rightarrow> v) \<and>
   retrieverSpanNames (getOTelMappings (setOTelMappings m r)) =
     (case p_retrieverSpanNames m of None \<Rightarrow> retrieverSpanNames (getOTelMappings r)
      | Some v \<Rightarrow> v) \<and>
   getOTelMappings adapterRegistry = DEFAULT_OTEL_MAPPINGS"
  by (simp add: setOTelMappings_def getOTelMappings_def spread_mappings_def adapterRegistry_def
      register_def new_AdapterRegistry_def split: option.split)

text \<open>
  C9 as stated fails on the registry after an earlier override: the second override does
  not supply \<^verbatim>\<open>promptAttributes\<close>, and after it the key holds the value of the first
  override, not the built-in default.
\<close>

theorem setOTelMappings_frame_counterexample:
  "p_promptAttributes second_override = None
   \<and> promptAttributes
        (getOTelMappings (setOTelMappings second_override
           (setOTelMappings first_override adapterRegistry))) = [''my.prompt'']
   \<and> promptAttributes DEFAULT_OTEL_MAPPINGS \<noteq> [''my.prompt'']"
  by (simp add: setOTelMappings_def getOTelMappings_def spread_mappings_def first_override_def
      second_override_def DEFAULT_OTEL_MAPPINGS_def)

theorem setOTelMappings_frame_witness:
  "promptAttributes (getOTelMappings (setOTelMappings first_override adapterRegistry))
     = [''my.prompt'']
   \<and> responseAttributes (getOTelMappings (setOTelMappings first_override adapterRegistry))
       = responseAttributes DEFAULT_OTEL_MAPPINGS
   \<and> modelAttributes (getOTelMappings (setOTelMappings first_override adapterRegistry))
       = modelAttributes DEFAULT_OTEL_MAPPINGS
   \<and> tokenAttributes (getOTelMappings (setOTelMappings first_override adapterRegistry))
       = tokenAttributes DEFAULT_OTEL_MAPPINGS
   \<and> llmSpanNames (getOTelMappings (setOTelMappings first_override adapterRegistry))
       = llmSpanNames DEFAULT_OTEL_MAPPINGS
   \<and> retrieverSpanNames (getOTelMappings (setOTelMappings first_override adapterRegistry))
       = retrieverSpanNames DEFAULT_OTEL_MAPPINGS
   \<and> llmSpanNames
        (getOTelMappings (setOTelMappings second_override
           (setOTelMappings first_override adapterRegistry))) = [''my.llm'']
   \<and> promptAttributes
        (getOTelMappings (setOTelMappings second_override
           (setOTelMappings first_override adapterRegistry)))
       = promptAttributes (getOTelMappings (setOTelMappings first_override adapterRegistry))"
proof -
  have t: "tokenAttributes c = tokenAttributes c'"
    if "tk_input (tokenAttributes c) = tk_input (tokenAttributes c')"
      "tk_output (tokenAttributes c) = tk_output (tokenAttributes c')"
      "tk_total (tokenAttributes c) = tk_total (tokenAttributes c')" for c c'
    using that by (cases "tokenAttributes c"; cases "tokenAttributes c'") simp
  note one = setOTelMappings_frame [of first_override adapterRegistry]
  note two = setOTelMappings_frame
    [of second_override "setOTelMappings first_override adapterRegistry"]
  from one have d: "getOTelMappings adapterRegistry = DEFAULT_OTEL_MAPPINGS" by simp
  from one d have 1:
    "promptAttributes (getOTelMappings (setOTelMappings first_override adapterRegistry))
       = [''my.prompt'']"
    "responseAttributes (getOTelMappings (setOTelMappings first_override adapterRegistry))
       = responseAttributes DEFAULT_OTEL_MAPPINGS"
    "modelAttributes (getOTelMappings (setOTelMappings first_override adapterRegistry))
       = modelAttributes DEFAULT_OTEL_MAPPINGS"
    "llmSpanNames (getOTelMappings (setOTelMappings first_override adapterRegistry))
       = llmSpanNames DEFAULT_OTEL_MAPPINGS"
    "retrieverSpanNames (getOTelMappings (setOTelMappings first_override adapterRegistry))
       = retrieverSpanNames DEFAULT_OTEL_MAPPINGS"
    by (simp_all add: first_override_def)
  from one d have 2:
    "tokenAttributes (getOTelMappings (setOTelMappings first_override adapterRegistry))
       = tokenAttributes DEFAULT_OTEL_MAPPINGS"
    by (intro t) (simp_all add: first_override_def)
  from two have 3:
    "llmSpanNames
        (getOTelMappings (setOTelMappings second_override
           (setOTelMappings first_override adapterRegistry))) = [''my.llm'']"
    "promptAttributes
        (getOTelMappings (setOTelMappings second_override
           (setOTelMappings first_override adapterRegistry)))
       = promptAttributes (getOTelMappings (setOTelMappings first_override adapterRegistry))"
    by (simp_all add: second_override_def)
  from 1 2 3 show ?thesis by simp
qed

subsection \<open>Unfolding the model on a concrete input\<close>

lemmas js_defs =
  get_def nullish_def and_then_def or_then_def or_else_def firstTruthy_def Let_def opt_get_def
  indexed_def opt_index_def toLowerCase_def toLowerCase_char_def startsWith_def
  index_of_key_def is_digit_def flatMap_js_def one_or_many_def gt_zero_def SCHEMA_VERSION_def
  join_def plus_js_def set_props_def

lemmas generic_chain_defs =
  normalizeToReviewItem_def isReviewItemFormat_def isOpenAIFormat_def isOpenAIFineTuneFormat_def
  isGenericFormat_def convertGenericFormat_def passthrough_def

lemmas langsmith_defs =
  langsmith_normalize_def export_runs_def normalize_root_def convertRunToReviewItem_def humanFeedback_of_def
  extractPrompt_def extractResponse_def extractContextFromRetriever_def getSpanType_def
  findLLMLeafSpans.simps findRelatedRetrieverSpans.simps isLangSmithRun_def isLangSmithExport_def

lemmas otel_defs =
  convertSpanToReviewItem_def calculateLatency_def nanoToIso_def nanoToMs_def
  extractTokenUsage_def extractModel_def otel_extractResponse_def completion_text_def
  otel_extractPrompt_def prompt_attribute_def find_object_role_def find_role_def
  otel_getSpanType_def isRetrieverSpan_def isLLMSpan_def has_any_attribute_def lower_name_def
  getAttributesObject_def getAttribute_def assign_all_def enumeration_order_def

lemmas registry_defs =
  adapterRegistry_def register_def new_AdapterRegistry_def detectAdapter_def getAll_def
  get_adapter_def getOTelMappings_def

lemma sample_clock [simp]: "Date_now sample_host p = ''2026-01-01T00:00:00.000Z''"
  by (simp add: sample_host_def)

lemma sample_uuid [simp]: "uuidv4 sample_host p = ''00000000-0000-4000-8000-000000000000''"
  by (simp add: sample_host_def)

lemma normalize_canonical_sample:
  "normalizeToReviewItem sample_host q canonical_sample n = Some approved_record"
  by (simp add: generic_chain_defs js_defs canonical_sample_def approved_record_def)


lemma normalize_empty_response_sample:
  "normalizeToReviewItem sample_host q empty_response_sample n = Some (generic_record ''hi'' [])"
  by (simp add: generic_chain_defs js_defs empty_response_sample_def generic_record_def
      sample_host_def)


lemma normalize_run_without_outputs:
  "langsmith_normalize sample_host q run_without_outputs = Some langsmith_record"
  by (simp add: langsmith_defs js_defs run_without_outputs_def langsmith_record_def sample_host_def)

lemma default_llmSpanNames:
  "llmSpanNames DEFAULT_OTEL_MAPPINGS =
     [''llm.chat'', ''llm.completion'', ''llm'', ''ChatOpenAI'', ''ChatAnthropic'', ''OpenAI'',
      ''Anthropic'']"
  by (simp add: DEFAULT_OTEL_MAPPINGS_def)

lemma outer_span_llm: "isLLMSpan sample_host DEFAULT_OTEL_MAPPINGS outer_span = Some True"
  by (simp add: isLLMSpan_def lower_name_def outer_span_def js_defs default_llmSpanNames)

lemma inner_span_llm: "isLLMSpan sample_host DEFAULT_OTEL_MAPPINGS inner_span = Some True"
  by (simp add: isLLMSpan_def lower_name_def inner_span_def js_defs default_llmSpanNames)

lemma child_span_llm: "isLLMSpan sample_host DEFAULT_OTEL_MAPPINGS child_span = Some True"
  by (simp add: isLLMSpan_def lower_name_def child_span_def js_defs default_llmSpanNames)

lemma middle_span_not_llm: "isLLMSpan sample_host DEFAULT_OTEL_MAPPINGS middle_span = Some False"
  by (simp add: isLLMSpan_def lower_name_def middle_span_def js_defs DEFAULT_OTEL_MAPPINGS_def
      has_any_attribute_def getAttribute_def)

lemma convert_outer_span:
  "convertSpanToReviewItem sample_host q outer_span [] DEFAULT_OTEL_MAPPINGS
     ''2026-01-01T00:00:00.000Z'' = Some (span_record ''outer'' Undefined)"
  by (simp add: otel_defs js_defs outer_span_def span_record_def DEFAULT_OTEL_MAPPINGS_def
      sample_host_def)

lemma convert_inner_span:
  "convertSpanToReviewItem sample_host q inner_span [] DEFAULT_OTEL_MAPPINGS
     ''2026-01-01T00:00:00.000Z'' = Some (span_record ''inner'' (Str ''mid''))"
  by (simp add: otel_defs js_defs inner_span_def span_record_def DEFAULT_OTEL_MAPPINGS_def
      sample_host_def)

lemma convert_child_span:
  "convertSpanToReviewItem sample_host q child_span [] DEFAULT_OTEL_MAPPINGS
     ''2026-01-01T00:00:00.000Z'' = Some (span_record ''inner'' (Str ''outer''))"
  by (simp add: otel_defs js_defs child_span_def span_record_def DEFAULT_OTEL_MAPPINGS_def
      sample_host_def)

subsection \<open>What the loops over arrays return\<close>

lemma map_js_member:
  "map_js f xs = Some ys \<Longrightarrow> y \<in> set ys \<Longrightarrow> \<exists>x \<in> set xs. f x = Some y"
  by (induction xs arbitrary: ys) (auto split: Option.bind_splits)

lemma flatMap_js_member:
  assumes "flatMap_js f xs = Some ys" and "y \<in> set ys"
  shows "\<exists>x \<in> set xs. \<exists>zs. f x = Some zs \<and> y \<in> set zs"
proof -
  from assms obtain yss where m: "map_js f xs = Some yss" and y: "y \<in> set (concat yss)"
    by (auto simp: flatMap_js_def split: Option.bind_splits)
  from y obtain zs where zs: "zs \<in> set yss" and "y \<in> set zs" by auto
  with map_js_member [OF m zs] show ?thesis by blast
qed




lemma as_list_one_or_many:
  assumes "\<forall>r \<in> set its. is_Obj r"
  shows "as_list (one_or_many its) = its"
proof (cases "length its = 1")
  case True
  then obtain x where x: "its = [x]" by (cases its) auto
  with assms obtain kvs where "x = Obj kvs" by (auto simp: is_Obj_def split: jsval.splits)
  with x show ?thesis by (simp add: one_or_many_def)
next
  case False
  then show ?thesis by (simp add: one_or_many_def)
qed

subsection \<open>The status of a new record\<close>

lemma convertOpenAIFormat_shape:
  assumes "convertOpenAIFormat rt p d now = Some r"
  shows "is_Obj r \<and> status_of r = Str ''pending'' \<and> is_Str (prompt_of r)"
  using assms
  by (auto simp: convertOpenAIFormat_def prompt_of_def is_Obj_def status_of_def
      split: Option.bind_splits)

lemma convertGenericFormat_shape:
  assumes "convertGenericFormat rt p d now = Some r"
  shows "is_Obj r \<and> status_of r = Str ''pending'' \<and> is_Str (prompt_of r)
         \<and> (\<exists>model tokens latency. outputs_of r =
               Arr [Obj [(''model_id'', model),
                         (''text'', Str (to_String rt
                            (firstTruthy d [''response'', ''answer'', ''output'', ''completion'']
                               (Str [])))),
                         (''token_usage'', tokens), (''latency_ms'', latency)]])"
  using assms
  by (auto simp: convertGenericFormat_def prompt_of_def is_Obj_def status_of_def outputs_of_def
      Let_def split: Option.bind_splits)

lemma convertBestEffort_shape:
  assumes "convertBestEffort rt p d now = Some r"
  shows "is_Obj r \<and> status_of r = Str ''pending''"
  using assms
  by (auto simp: convertBestEffort_def is_Obj_def status_of_def Let_def split: if_splits)

lemma convertOpenAIFineTuneFormat_shape:
  assumes "convertOpenAIFineTuneFormat rt p d now = Some r"
  shows "is_Obj r \<and> status_of r = Str ''pending''"
  using assms
  by (auto simp: convertOpenAIFineTuneFormat_def is_Obj_def status_of_def
      split: Option.bind_splits if_splits)

lemma convertRunToReviewItem_shape:
  assumes "convertRunToReviewItem rt p run now ctx = Some r"
  shows "is_Obj r \<and> status_of r = Str ''pending''
     \<and> (\<exists>sp. extractPrompt rt (or_else (read_prop run ''inputs'') (Obj [])) = Some (prompt_of r, sp))"
  using assms
  by (auto simp: convertRunToReviewItem_def is_Obj_def prompt_of_def status_of_def Let_def
      split: Option.bind_splits if_splits)

lemma convertSpanToReviewItem_shape:
  assumes "convertSpanToReviewItem rt p spn ctx mappings now = Some r"
  shows "is_Obj r \<and> status_of r = Str ''pending''
     \<and> (\<exists>sp. otel_extractPrompt rt mappings spn = Some (prompt_of r, sp))"
  using assms
  by (auto simp: convertSpanToReviewItem_def is_Obj_def prompt_of_def status_of_def Let_def
      split: Option.bind_splits if_splits)

lemma normalizeToReviewItem_status:
  assumes "normalizeToReviewItem rt p d n = Some r"
  shows "status_of r =
     (if isReviewItemFormat d = Some True then or_else (read_prop d ''status'') (Str ''pending'')
      else Str ''pending'')"
proof (cases "isReviewItemFormat d = Some True")
  case True
  then obtain kvs where d: "d = Obj kvs" by (auto simp: isReviewItemFormat_True)
  from assms normalize_canonical [OF True, of rt p n]
  have "r = passthrough rt p d (Date_now rt p)" by simp
  with True d show ?thesis by (simp add: status_of_def read_passthrough del: read_prop.simps)
next
  case False
  with assms have "convertOpenAIFormat rt p d (Date_now rt p) = Some r
      \<or> convertOpenAIFineTuneFormat rt p d (Date_now rt p) = Some r
      \<or> convertGenericFormat rt p d (Date_now rt p) = Some r
      \<or> convertBestEffort rt p d (Date_now rt p) = Some r"
    by (auto simp: normalizeToReviewItem_def Let_def split: Option.bind_splits if_splits)
  with False show ?thesis
    using convertOpenAIFormat_shape convertOpenAIFineTuneFormat_shape convertGenericFormat_shape
      convertBestEffort_shape by auto
qed

lemma normalize_root_items:
  assumes "normalize_root rt p now run = Some its" and "r \<in> set its"
  shows "\<exists>q leaf ctx. convertRunToReviewItem rt q leaf now ctx = Some r"
proof -
  from assms(1) obtain ctx leaves where
    its: "(if 0 < length leaves then
             map_js (\<lambda>(llmSpan, j). convertRunToReviewItem rt (p @ [1, j]) llmSpan now ctx)
               (indexed leaves)
           else convertRunToReviewItem rt (p @ [1, 0]) run now ctx \<bind> (\<lambda>item. Some [item]))
          = Some its"
    by (auto simp: normalize_root_def bind_eq_Some_conv)
  show ?thesis
  proof (cases "0 < length leaves")
    case True
    with its have "map_js (\<lambda>(llmSpan, j). convertRunToReviewItem rt (p @ [1, j]) llmSpan now ctx)
        (indexed leaves) = Some its" by simp
    from map_js_member [OF this assms(2)] obtain leaf j where
      "convertRunToReviewItem rt (p @ [1, j]) leaf now ctx = Some r" by (auto split: prod.splits)
    then show ?thesis by blast
  next
    case False
    with its assms(2) have "convertRunToReviewItem rt (p @ [1, 0]) run now ctx = Some r"
      by (auto simp: bind_eq_Some_conv)
    then show ?thesis by blast
  qed
qed

lemma langsmith_normalize_items:
  assumes "langsmith_normalize rt p d = Some res" and "r \<in> set (as_list res)"
  shows "is_Obj r \<and> status_of r = Str ''pending''"
proof -
  from assms(1) consider "res = Arr []"
    | rs its where
        "flatMap_js (\<lambda>(run, i). normalize_root rt (p @ [i]) (Date_now rt p) run) (indexed rs)
           = Some its"
        and "res = one_or_many its"
    by (auto simp: langsmith_normalize_def Let_def bind_eq_Some_conv split: option.splits)
  then show ?thesis
  proof cases
    case 1
    with assms(2) show ?thesis by simp
  next
    case 2
    have all: "is_Obj x \<and> status_of x = Str ''pending''" if "x \<in> set its" for x
    proof -
      from flatMap_js_member [OF 2(1) that] obtain run i zs where
        "normalize_root rt (p @ [i]) (Date_now rt p) run = Some zs" and "x \<in> set zs"
        by auto
      from normalize_root_items [OF this] convertRunToReviewItem_shape show ?thesis by blast
    qed
    then have "as_list res = its" unfolding 2(2) by (intro as_list_one_or_many) blast
    with assms(2) all show ?thesis by simp
  qed
qed

lemma convert_spans_items:
  assumes "convert_spans rt p ctx mappings now spans = Some res" and "r \<in> set (as_list res)"
  shows "is_Obj r \<and> status_of r = Str ''pending''"
proof -
  from assms(1) obtain its where
    m: "map_js (\<lambda>(spn, j). convertSpanToReviewItem rt (p @ [1, j]) spn ctx mappings now)
          (indexed spans) = Some its"
    and res: "res = one_or_many its"
    by (auto simp: convert_spans_def split: Option.bind_splits)
  have all: "is_Obj x \<and> status_of x = Str ''pending''" if "x \<in> set its" for x
    using map_js_member [OF m that] convertSpanToReviewItem_shape by auto
  then have "as_list res = its" unfolding res by (intro as_list_one_or_many) blast
  with assms(2) all show ?thesis by simp
qed

lemma otel_normalize_items:
  assumes "otel_normalize rt registry p d = Some res" and "r \<in> set (as_list res)"
  shows "is_Obj r \<and> status_of r = Str ''pending''"
proof -
  from assms(1) consider "res = Arr []"
    | ctx spans where
        "convert_spans rt p ctx (getOTelMappings registry) (Date_now rt p) spans = Some res"
    unfolding otel_normalize_def normalize_spans_def Let_def
    by (auto simp: bind_eq_Some_conv split: if_splits)
  then show ?thesis
  proof cases
    case 1
    with assms(2) show ?thesis by simp
  next
    case 2
    from convert_spans_items [OF 2 assms(2)] show ?thesis .
  qed
qed

text \<open>
  C2, as the code has it. Every record the two trace adapters return and every record
  the chat-completion, fine-tune, generic and best-effort stages build has the status
  \<open>pending\<close>. The pass-through stage keeps the status of the source unit when that status
  is truthy, and sets \<open>pending\<close> only otherwise.
\<close>

theorem status_pending:
  "(normalizeToReviewItem rt p d n = Some r \<longrightarrow>
      status_of r =
        (if isReviewItemFormat d = Some True
         then or_else (read_prop d ''status'') (Str ''pending'')
         else Str ''pending''))
   \<and> (langsmith_normalize rt p d = Some res \<longrightarrow>
        (\<forall>x \<in> set (as_list res). status_of x = Str ''pending''))
   \<and> (otel_normalize rt registry p d = Some res' \<longrightarrow>
        (\<forall>x \<in> set (as_list res'). status_of x = Str ''pending''))"
  using normalizeToReviewItem_status langsmith_normalize_items otel_normalize_items by blast

text \<open>
  C2 as stated fails: a canonical record that a reviewer approved comes out of the
  pass-through stage with the status \<open>approved\<close>.
\<close>

theorem status_pending_counterexample:
  "map_option status_of (normalizeToReviewItem sample_host [2, 0] canonical_sample 1)
     = Some (Str ''approved'')"
  by (simp add: normalize_canonical_sample approved_record_def status_of_def)

lemma default_mappings: "getOTelMappings adapterRegistry = DEFAULT_OTEL_MAPPINGS"
  by (simp add: registry_defs)

lemma normalize_outer_span:
  "otel_normalize sample_host adapterRegistry q outer_span = Some (span_record ''outer'' Undefined)"
proof -
  have s: "otel_normalize sample_host adapterRegistry q outer_span =
      normalize_spans sample_host adapterRegistry q [outer_span]"
    by (simp add: otel_normalize_def extractSpans_def outer_span_def js_defs)
  have c: "extractContextFromRetrievers sample_host (q @ [0]) DEFAULT_OTEL_MAPPINGS [outer_span] = Some []"
    by (simp add: extractContextFromRetrievers_def isRetrieverSpan_def lower_name_def
        outer_span_def js_defs DEFAULT_OTEL_MAPPINGS_def)
  have l: "findLeafLLMSpans sample_host DEFAULT_OTEL_MAPPINGS [outer_span] = Some [outer_span]"
    by (simp add: findLeafLLMSpans_def indexed_def outer_span_llm)
      (simp add: outer_span_def get_def nullish_def)
  show ?thesis
    unfolding s normalize_spans_def Let_def default_mappings
    by (simp add: c l convert_spans_def indexed_def convert_outer_span one_or_many_def)
qed

theorem status_pending_witness:
  "status_of approved_record = Str ''approved''
   \<and> status_of (generic_record ''hi'' []) = Str ''pending''
   \<and> status_of langsmith_record = Str ''pending''
   \<and> status_of (span_record ''outer'' Undefined) = Str ''pending''"
proof -
  have c: "isReviewItemFormat canonical_sample = Some True"
    by (simp add: canonical_sample_def isReviewItemFormat_True)
  have g: "isReviewItemFormat empty_response_sample \<noteq> Some True"
    by (simp add: empty_response_sample_def isReviewItemFormat_True)
  from status_pending [where rt = sample_host and p = "[2, 0]" and d = canonical_sample
      and n = 1 and r = approved_record]
    normalize_canonical_sample c
  have 1: "status_of approved_record = Str ''approved''"
    by (simp add: canonical_sample_def or_else_def)
  from status_pending [where rt = sample_host and p = "[2, 0]" and d = empty_response_sample
      and n = 1 and r = "generic_record ''hi'' []"]
    normalize_empty_response_sample g
  have 2: "status_of (generic_record ''hi'' []) = Str ''pending''" by simp
  from status_pending [where rt = sample_host and p = "[0]" and d = run_without_outputs
      and res = langsmith_record]
    normalize_run_without_outputs
  have 3: "status_of langsmith_record = Str ''pending''"
    by (simp add: langsmith_record_def)
  from status_pending [where rt = sample_host and registry = adapterRegistry and p = "[0]"
      and d = outer_span and res' = "span_record ''outer'' Undefined"]
    normalize_outer_span
  have 4: "status_of (span_record ''outer'' Undefined) = Str ''pending''"
    by (simp add: span_record_def)
  from 1 2 3 4 show ?thesis by simp
qed

subsection \<open>The prompt of a record\<close>




















subsection \<open>The outputs of a record\<close>

lemma generic_stage_one_output:
  assumes "convertGenericFormat rt p d now = Some r"
  shows "\<exists>out. outputs_of r = Arr [out]
           \<and> read_prop out ''text'' =
               Str (to_String rt
                 (firstTruthy d [''response'', ''answer'', ''output'', ''completion''] (Str [])))"
  using convertGenericFormat_shape [OF assms] by auto

lemma missing_outputs_stringified:
  "extractResponse rt (or_else Undefined (Obj [])) = Some (Str (JSON_stringify rt (Obj [])))"
  by (simp add: extractResponse_def js_defs)

text \<open>
  C6, on the code. The generic stage always builds one output, also for an empty
  response: the unit \<^verbatim>\<open>{"prompt":"hi","response":""}\<close> gives one output whose text is
  empty. A LangSmith run without \<^verbatim>\<open>outputs\<close> gives one output whose text is the
  stringified empty object.
\<close>

theorem empty_response_output:
  "map_option outputs_of (normalizeToReviewItem sample_host [2, 0] empty_response_sample 1) =
     Some (Arr [Obj [(''model_id'', Str ''default''), (''text'', Str []),
                     (''token_usage'', Num (Fin 0)), (''latency_ms'', Num (Fin 0))]])
   \<and> map_option outputs_of (langsmith_normalize sample_host [0] run_without_outputs) =
       Some (Arr [Obj [(''model_id'', Str ''langsmith''), (''text'', Str ''{}''),
                       (''token_usage'', Num (Fin 0)), (''latency_ms'', Num (Fin 0))]])"
  by (simp add: normalize_empty_response_sample normalize_run_without_outputs generic_record_def
      langsmith_record_def outputs_of_def)

subsection \<open>Line numbers\<close>

lemma detect_generic_line:
  "detectAdapter adapterRegistry (Obj [(''prompt'', Str a), (''response'', Str b)]) = Some None"
  by (simp add: registry_defs isLangSmithExport_def isLangSmithRun_def isOTelExport_def js_defs)

lemma normalize_generic_line:
  "normalizeToReviewItem sample_host q (Obj [(''prompt'', Str a), (''response'', Str b)]) n
     = Some (generic_record a b)"
  by (simp add: generic_chain_defs js_defs generic_record_def sample_host_def)

lemma parse_line_ab:
  "parse_line sample_host adapterRegistry line_ab i = Some [generic_record ''a'' ''b'']"
proof -
  have "JSON_parse sample_host line_ab = Some (Obj [(''prompt'', Str ''a''), (''response'', Str ''b'')])"
    by (simp add: sample_host_def sample_parse_def)
  then show ?thesis
    by (simp add: parse_line_def detect_generic_line push_item_def normalize_generic_line
        generic_record_def)
qed

lemma parse_line_cd:
  "parse_line sample_host adapterRegistry line_cd i = Some [generic_record ''c'' ''d'']"
proof -
  have "JSON_parse sample_host line_cd = Some (Obj [(''prompt'', Str ''c''), (''response'', Str ''d'')])"
    by (simp add: sample_host_def sample_parse_def line_ab_def line_cd_def)
  then show ?thesis
    by (simp add: parse_line_def detect_generic_line push_item_def normalize_generic_line
        generic_record_def)
qed

lemma parse_line_bad: "parse_line sample_host adapterRegistry line_bad i = None"
proof -
  have "JSON_parse sample_host line_bad = None"
    by (simp add: sample_host_def sample_parse_def line_ab_def line_cd_def line_bad_def)
  then show ?thesis by (simp add: parse_line_def)
qed

lemma three_lines:
  "split_lines three_line_text = [line_ab, line_bad, line_cd]"
  "nonblank_lines three_line_text = [line_ab, line_bad, line_cd]"
  by (simp_all add: nonblank_lines_def three_line_text_def line_ab_def line_bad_def line_cd_def
      trim_def is_space_def)

lemma four_lines:
  "split_lines blank_line_text = [line_ab, [], line_bad, line_cd]"
  "nonblank_lines blank_line_text = [line_ab, line_bad, line_cd]"
  by (simp_all add: nonblank_lines_def blank_line_text_def line_ab_def line_bad_def line_cd_def
      trim_def is_space_def)

lemma lines_of_three:
  assumes "nonblank_lines t = [line_ab, line_bad, line_cd]"
  shows "parseJsonlLines sample_host adapterRegistry t =
     \<lparr>success = True, itemsImported = 2,
      items = [generic_record ''a'' ''b'', generic_record ''c'' ''d''],
      errors = [\<lparr>line = 2, message = ''Unexpected end of JSON input''\<rparr>]\<rparr>"
proof -
  have e: "Error_message sample_host = ''Unexpected end of JSON input''"
    by (simp add: sample_host_def)
  show ?thesis
    by (simp add: parseJsonlLines_def assms indexed_def parse_line_ab parse_line_bad parse_line_cd
        finish_def collect_items_def collect_errors_def upt_rec e)
qed

lemma parse_text_lines:
  assumes "t = three_line_text \<or> t = blank_line_text"
  shows "parse_text sample_host adapterRegistry t = parseJsonlLines sample_host adapterRegistry t"
proof -
  from assms have "JSON_parse sample_host (trim t) = None"
    by (auto simp: sample_host_def sample_parse_def three_line_text_def blank_line_text_def
        line_ab_def line_bad_def line_cd_def trim_def is_space_def)
  then show ?thesis by (simp add: parse_text_def Let_def)
qed

text \<open>
  C8, on the code. In the payload of three lines the invalid line is the second one and
  its error carries the number 2. With a blank line put before it the invalid line is
  the third line of the payload, and its error still carries the number 2: the number
  is the position among the lines that are not blank.
\<close>

theorem blank_line_line_number:
  "split_lines three_line_text = [line_ab, line_bad, line_cd]
   \<and> parseJsonlFile sample_host adapterRegistry \<lparr>file_size = 70, file_text = three_line_text\<rparr> =
       \<lparr>success = True, itemsImported = 2,
        items = [generic_record ''a'' ''b'', generic_record ''c'' ''d''],
        errors = [\<lparr>line = 2, message = ''Unexpected end of JSON input''\<rparr>]\<rparr>
   \<and> split_lines blank_line_text = [line_ab, [], line_bad, line_cd]
   \<and> parseJsonlFile sample_host adapterRegistry \<lparr>file_size = 71, file_text = blank_line_text\<rparr> =
       \<lparr>success = True, itemsImported = 2,
        items = [generic_record ''a'' ''b'', generic_record ''c'' ''d''],
        errors = [\<lparr>line = 2, message = ''Unexpected end of JSON input''\<rparr>]\<rparr>"
  by (simp add: three_lines four_lines parseJsonlFile_def MAX_FILE_SIZE_def parse_text_lines
      lines_of_three)

subsection \<open>A trace without LLM units\<close>


lemma filter_js_total:
  "\<forall>x \<in> set xs. f x \<noteq> None \<Longrightarrow> filter_js f xs = Some (filter (\<lambda>x. f x = Some True) xs)"
  by (induction xs) auto

lemma filter_js_result:
  "filter_js f xs = Some ys \<Longrightarrow>
     (\<forall>x \<in> set xs. f x \<noteq> None) \<and> ys = filter (\<lambda>x. f x = Some True) xs"
  by (induction xs arbitrary: ys) (auto split: Option.bind_splits)

lemma filter_js_Some:
  "filter_js f xs = Some ys \<longleftrightarrow>
     (\<forall>x \<in> set xs. f x \<noteq> None) \<and> ys = filter (\<lambda>x. f x = Some True) xs"
  using filter_js_total [of xs f] filter_js_result [of f xs ys] by auto




lemma and_then_Some [simp]: "and_then (Some a) b = (if a then b else Some False)"
  by (simp add: and_then_def)

lemma or_then_Some [simp]: "or_then (Some a) b = (if a then Some True else b)"
  by (simp add: or_then_def)











lemma isLLMSpan_False:
  assumes "isLLMSpan rt mappings s = Some False"
  shows "\<not> nullish s
     \<and> has_any_attribute rt s (promptAttributes mappings) = Some False
     \<and> has_any_attribute rt s (responseAttributes mappings) = Some False"
  using assms
  by (auto simp: isLLMSpan_def lower_name_def get_def bind_eq_Some_conv split: if_splits)

lemma findLeafLLMSpans_none:
  assumes "\<forall>s \<in> set spans. isLLMSpan rt mappings s = Some False"
  shows "findLeafLLMSpans rt mappings spans = Some []"
proof -
  have "isLLMSpan rt mappings (fst s) = Some False" if "s \<in> set (indexed spans)" for s
    using that assms set_zip_leftD [of "fst s" "snd s" spans] by (simp add: indexed_def)
  then have 1: "filter_js (\<lambda>s. isLLMSpan rt mappings (fst s)) (indexed spans) = Some []"
    unfolding filter_js_Some by simp
  have "\<exists>cm. build_childMap xs cm0 = Some cm" if "\<forall>s \<in> set xs. \<not> nullish (fst s)" for xs cm0
    using that by (induction xs arbitrary: cm0) (auto simp: get_def Let_def)
  moreover have "\<forall>s \<in> set (indexed spans). \<not> nullish (fst s)"
  proof
    fix s assume "s \<in> set (indexed spans)"
    with set_zip_leftD [of "fst s" "snd s" spans] have "fst s \<in> set spans"
      by (simp add: indexed_def)
    with assms isLLMSpan_False show "\<not> nullish (fst s)" by blast
  qed
  ultimately obtain cm where "build_childMap (indexed spans) [] = Some cm" by blast
  with 1 show ?thesis by (simp add: findLeafLLMSpans_def)
qed






lemma convert_chain_run:
  "convertRunToReviewItem sample_host q chain_run ''2026-01-01T00:00:00.000Z'' []
     = Some chain_record"
  by (simp add: langsmith_defs js_defs chain_run_def chain_record_def sample_host_def)







text \<open>
  \<^verbatim>\<open>normalize\<close> can raise on a detected file without LLM spans: the conversion of the
  root span below raises, because its \<^verbatim>\<open>input.messages\<close> is not an array.
\<close>

lemma raising_root_span:
  "detectAdapter adapterRegistry raising_span = Some (Some otelAdapter)
   \<and> isLLMSpan sample_host DEFAULT_OTEL_MAPPINGS raising_span = Some False
   \<and> \<not> truthy (read_prop raising_span ''parentSpanId'')
   \<and> otel_extractPrompt sample_host DEFAULT_OTEL_MAPPINGS raising_span = None
   \<and> normalize sample_host adapterRegistry [0] otelAdapter raising_span = None"
proof -
  have d: "detectAdapter adapterRegistry raising_span = Some (Some otelAdapter)"
    by (simp add: registry_defs isLangSmithExport_def isLangSmithRun_def isOTelExport_def js_defs
        raising_span_def)
  have l: "isLLMSpan sample_host DEFAULT_OTEL_MAPPINGS raising_span = Some False"
    by (simp add: isLLMSpan_def lower_name_def raising_span_def js_defs DEFAULT_OTEL_MAPPINGS_def
        has_any_attribute_def getAttribute_def)
  have e: "otel_extractPrompt sample_host DEFAULT_OTEL_MAPPINGS raising_span = None"
    by (simp add: otel_defs first_defined_def js_defs raising_span_def DEFAULT_OTEL_MAPPINGS_def)
  have s: "otel_normalize sample_host adapterRegistry [0] raising_span =
      normalize_spans sample_host adapterRegistry [0] [raising_span]"
    by (simp add: otel_normalize_def extractSpans_def raising_span_def js_defs)
  have c: "extractContextFromRetrievers sample_host [0, 0] DEFAULT_OTEL_MAPPINGS [raising_span]
      = Some []"
    by (simp add: extractContextFromRetrievers_def isRetrieverSpan_def lower_name_def
        raising_span_def js_defs DEFAULT_OTEL_MAPPINGS_def)
  have f: "findLeafLLMSpans sample_host DEFAULT_OTEL_MAPPINGS [raising_span] = Some []"
    using l by (intro findLeafLLMSpans_none) simp
  have a: "has_any_attribute sample_host raising_span (promptAttributes DEFAULT_OTEL_MAPPINGS)
        = Some False"
      "has_any_attribute sample_host raising_span (responseAttributes DEFAULT_OTEL_MAPPINGS)
        = Some False"
    using isLLMSpan_False [OF l] by simp_all
  have r: "get raising_span ''parentSpanId'' = Some Undefined"
    by (simp add: raising_span_def get_def nullish_def)
  have "convertSpanToReviewItem sample_host q raising_span [] DEFAULT_OTEL_MAPPINGS now = None"
    for q now
    by (simp add: convertSpanToReviewItem_def e)
  then have "normalize_spans sample_host adapterRegistry [0] [raising_span] = None"
    unfolding normalize_spans_def Let_def default_mappings
    by (simp add: c f a r convert_spans_def indexed_def)
  with d l e s show ?thesis by (simp add: raising_span_def)
qed


subsection \<open>The leaf LLM runs of a LangSmith run tree\<close>

lemma runs_of_below: "runs_of run = run # below run"
  by (simp add: below_def runs_of.simps [of run])

lemma below_member:
  "x \<in> set (below run) \<longleftrightarrow> (\<exists>c \<in> set (elements (read_prop run ''child_runs'')). x \<in> set (runs_of c))"
  by (auto simp: below_def)

lemma below_smaller: "x \<in> set (below run) \<Longrightarrow> size x < size run"
proof (induction run rule: measure_induct_rule [of size])
  case (less run)
  from less.prems obtain c where c: "c \<in> set (elements (read_prop run ''child_runs''))"
    and x: "x \<in> set (runs_of c)"
    unfolding below_member by blast
  from c have "size c < size run" by (rule size_elements)
  moreover from x less.IH [OF \<open>size c < size run\<close>] have "size x \<le> size c"
    by (auto simp: runs_of_below [of c] less_imp_le)
  ultimately show ?case by simp
qed

lemma below_trans: "y \<in> set (below x) \<Longrightarrow> x \<in> set (below r) \<Longrightarrow> y \<in> set (below r)"
proof (induction r rule: measure_induct_rule [of size])
  case (less r)
  from less.prems(2) obtain c where c: "c \<in> set (elements (read_prop r ''child_runs''))"
    and x: "x \<in> set (runs_of c)"
    unfolding below_member by blast
  from c have s: "size c < size r" by (rule size_elements)
  from x have "x = c \<or> x \<in> set (below c)" by (simp add: runs_of_below [of c])
  then have "y \<in> set (below c)"
    using less.prems(1) less.IH [OF s less.prems(1)] by blast
  then have "y \<in> set (runs_of c)" by (simp add: runs_of_below [of c])
  with c show ?case unfolding below_member by blast
qed

lemma llm_has_leaf: "\<exists>x \<in> set (runs_of r). llm_run x \<Longrightarrow> \<exists>x \<in> set (runs_of r). leaf_llm x"
proof (induction r rule: measure_induct_rule [of size])
  case (less r)
  show ?case
  proof (cases "\<exists>x \<in> set (below r). llm_run x")
    case True
    then obtain c x where c: "c \<in> set (elements (read_prop r ''child_runs''))"
      and x: "x \<in> set (runs_of c)" "llm_run x"
      by (auto simp: below_member)
    from c have "size c < size r" by (rule size_elements)
    from less.IH [OF this] x obtain y where "y \<in> set (runs_of c)" "leaf_llm y" by blast
    with c have "y \<in> set (below r)" "leaf_llm y" unfolding below_member by blast+
    then show ?thesis by (auto simp: runs_of_below [of r])
  next
    case False
    with less.prems have "llm_run r" by (auto simp: runs_of_below [of r])
    with False have "leaf_llm r" by (simp add: leaf_llm_def list_ex_iff)
    then show ?thesis by (auto simp: runs_of_below [of r])
  qed
qed

lemma llm_below_has_leaf:
  assumes "\<exists>x \<in> set (below r). llm_run x"
  shows "\<exists>x \<in> set (below r). leaf_llm x"
proof -
  from assms obtain c x where c: "c \<in> set (elements (read_prop r ''child_runs''))"
    and x: "x \<in> set (runs_of c)" "llm_run x"
    by (auto simp: below_member)
  with llm_has_leaf [of c] obtain y where y: "y \<in> set (runs_of c)" "leaf_llm y" by blast
  from c y(1) have "y \<in> set (below r)" unfolding below_member by blast
  with y(2) show ?thesis by blast
qed

lemma map_js_pointwise:
  "map_js f xs = Some yss \<Longrightarrow> (\<And>x zs. x \<in> set xs \<Longrightarrow> f x = Some zs \<Longrightarrow> zs = g x)
     \<Longrightarrow> yss = map g xs"
  by (induction xs arbitrary: yss) (auto split: Option.bind_splits)

lemma flatMap_js_pointwise:
  "flatMap_js f xs = Some ys \<Longrightarrow> (\<And>x zs. x \<in> set xs \<Longrightarrow> f x = Some zs \<Longrightarrow> zs = g x)
     \<Longrightarrow> ys = concat (map g xs)"
  using map_js_pointwise [of f xs _ g]
  by (auto simp: flatMap_js_def split: Option.bind_splits)

lemma no_elements: "\<not> truthy v \<or> read_prop v ''length'' = Num (Fin 0) \<Longrightarrow> elements v = []"
  by (cases v) auto

lemma no_elements_gt_zero:
  "\<not> (truthy v \<and> gt_zero rt (read_prop v ''length'')) \<Longrightarrow> elements v = []"
  by (cases v) (auto simp: gt_zero_def)

text \<open>
  \<^verbatim>\<open>findLLMLeafSpans\<close> returns the leaf LLM runs of the tree, in document order, whenever
  it returns.
\<close>

lemma findLLMLeafSpans_leaves:
  "findLLMLeafSpans rt run = Some ls \<Longrightarrow> ls = filter leaf_llm (runs_of run)"
proof (induction run arbitrary: ls rule: measure_induct_rule [of size])
  case (less run)
  let ?cr = "read_prop run ''child_runs''"
  from less.prems obtain st where st: "getSpanType (read_prop run ''run_type'') = Some st"
    by (subst (asm) findLLMLeafSpans.simps) (auto simp: bind_eq_Some_conv get_def split: if_splits)
  from less.prems have nn: "get run ''run_type'' = Some (read_prop run ''run_type'')"
    by (subst (asm) findLLMLeafSpans.simps) (auto simp: bind_eq_Some_conv get_def split: if_splits)
  have llm: "llm_run run \<longleftrightarrow> st = ''llm''" by (simp add: llm_run_def st)
  have rec: "L = filter leaf_llm (below run)"
    if "array_receiver ?cr = Some cs" "flatMap_js (findLLMLeafSpans rt) cs = Some L" for cs L
  proof -
    from that(1) have cs: "cs = elements ?cr" by (simp add: array_receiver_Some)
    have "L = concat (map (\<lambda>c. filter leaf_llm (runs_of c)) cs)"
      using that(2)
    proof (rule flatMap_js_pointwise)
      fix x zs assume "x \<in> set cs" "findLLMLeafSpans rt x = Some zs"
      with cs less.IH [of x zs] size_elements [of x run "''child_runs''"]
      show "zs = filter leaf_llm (runs_of x)" by simp
    qed
    then show ?thesis by (simp add: below_def cs filter_concat comp_def)
  qed
  from less.prems have body:
    "(if st = ''llm'' then
        if \<not> truthy ?cr \<or> read_prop ?cr ''length'' = Num (Fin 0) then Some [run]
        else do {
          children \<leftarrow> array_receiver ?cr;
          childLLMSpans \<leftarrow> flatMap_js (findLLMLeafSpans rt) children;
          if length childLLMSpans = 0 then Some [run] else Some childLLMSpans
        }
      else if truthy ?cr \<and> gt_zero rt (read_prop ?cr ''length'') then do {
        children \<leftarrow> array_receiver ?cr;
        flatMap_js (findLLMLeafSpans rt) children
      }
      else Some []) = Some ls"
    by (subst (asm) findLLMLeafSpans.simps) (simp add: nn st Let_def)
  show ?case
  proof (cases "st = ''llm''")
    case True
    show ?thesis
    proof (cases "\<not> truthy ?cr \<or> read_prop ?cr ''length'' = Num (Fin 0)")
      case True
      then have "below run = []" by (simp add: below_def no_elements)
      with \<open>st = ''llm''\<close> llm have "filter leaf_llm (runs_of run) = [run]"
        by (simp add: runs_of_below [of run] leaf_llm_def)
      with body True \<open>st = ''llm''\<close> show ?thesis by simp
    next
      case False
      with body True obtain cs L where cs: "array_receiver ?cr = Some cs"
        and L: "flatMap_js (findLLMLeafSpans rt) cs = Some L"
        and ls: "ls = (if L = [] then [run] else L)"
        by (auto simp: bind_eq_Some_conv split: if_splits)
      from rec [OF cs L] have L': "L = filter leaf_llm (below run)" .
      show ?thesis
      proof (cases "L = []")
        case True
        with L' have "filter leaf_llm (below run) = []" by simp
        then have "\<not> (\<exists>x \<in> set (below run). leaf_llm x)" by (simp add: filter_empty_conv)
        with llm_below_has_leaf [of run] have "\<not> (\<exists>x \<in> set (below run). llm_run x)" by blast
        with llm \<open>st = ''llm''\<close> have "leaf_llm run" by (simp add: leaf_llm_def list_ex_iff)
        with True L' ls show ?thesis by (simp add: runs_of_below [of run])
      next
        case False
        with L' have "filter leaf_llm (below run) \<noteq> []" by simp
        then obtain x where "x \<in> set (below run)" "leaf_llm x"
          by (auto simp: filter_empty_conv)
        then have "\<not> leaf_llm run" by (auto simp: leaf_llm_def list_ex_iff)
        with False L' ls show ?thesis by (simp add: runs_of_below [of run])
      qed
    qed
  next
    case False
    with llm have n: "\<not> leaf_llm run" by (simp add: leaf_llm_def)
    show ?thesis
    proof (cases "truthy ?cr \<and> gt_zero rt (read_prop ?cr ''length'')")
      case True
      with body False obtain cs where cs: "array_receiver ?cr = Some cs"
        and L: "flatMap_js (findLLMLeafSpans rt) cs = Some ls"
        by (auto simp: bind_eq_Some_conv split: if_splits)
      from rec [OF cs L] n show ?thesis by (simp add: runs_of_below [of run])
    next
      case c: False
      then have "below run = []" using no_elements_gt_zero [of ?cr rt] by (simp add: below_def)
      with body c False n show ?thesis by (simp add: runs_of_below [of run])
    qed
  qed
qed

text \<open>One LLM run that wraps one other LLM run: the inner run is the only leaf.\<close>

lemma nested_pair_leaf:
  assumes "filter llm_run (runs_of tree) = [outer, inner]" and "inner \<in> set (below outer)"
  shows "filter leaf_llm (runs_of tree) = [inner]"
proof -
  have sub: "filter leaf_llm (runs_of tree) = filter leaf_llm (filter llm_run (runs_of tree))"
    by (auto simp: leaf_llm_def intro: filter_cong)
  have o: "outer \<in> set (runs_of tree)" "llm_run outer"
    and i: "inner \<in> set (runs_of tree)" "llm_run inner"
    using assms(1) filter_set [of llm_run "runs_of tree"] by (auto simp del: filter_set)
  from i(2) assms(2) have 1: "\<not> leaf_llm outer" by (auto simp: leaf_llm_def list_ex_iff)
  have "\<not> llm_run y" if y: "y \<in> set (below inner)" for y
  proof
    assume l: "llm_run y"
    from y i(1) have "y \<in> set (runs_of tree)"
      using below_trans [of y inner tree] by (auto simp: runs_of_below [of tree])
    with l have "y \<in> set (filter llm_run (runs_of tree))" by simp
    then have "y = outer \<or> y = inner" unfolding assms(1) by simp
    moreover from y have "size y < size inner" by (rule below_smaller)
    moreover from assms(2) have "size inner < size outer" by (rule below_smaller)
    ultimately show False by auto
  qed
  with i(2) have 2: "leaf_llm inner" by (auto simp: leaf_llm_def list_ex_iff)
  from 1 2 show ?thesis unfolding sub assms(1) by simp
qed

lemma normalize_root_nested_pair:
  assumes "filter llm_run (runs_of tree) = [outer, inner]" and "inner \<in> set (below outer)"
    and "normalize_root rt p now tree = Some its"
  shows "\<exists>ctx r. convertRunToReviewItem rt (p @ [1, 0]) inner now ctx = Some r \<and> its = [r]"
proof -
  from assms(3) obtain ctx ls where ls: "findLLMLeafSpans rt tree = Some ls"
    and its: "(if 0 < length ls
         then map_js (\<lambda>(llmSpan, j). convertRunToReviewItem rt (p @ [1, j]) llmSpan now ctx)
                (indexed ls)
         else do { item \<leftarrow> convertRunToReviewItem rt (p @ [1, 0]) tree now ctx; Some [item] })
        = Some its"
    by (auto simp: normalize_root_def bind_eq_Some_conv)
  from findLLMLeafSpans_leaves [OF ls] nested_pair_leaf [OF assms(1,2)] have "ls = [inner]"
    by simp
  with its show ?thesis by (auto simp: indexed_def bind_eq_Some_conv)
qed

subsection \<open>The leaf LLM spans of an OTel span list\<close>

lemma map_get_map_set:
  "map_get (map_set key children childMap) k =
     (if same_value_zero key k then Some children else map_get childMap k)"
  by (induction childMap) (auto simp: same_value_zero_def)

lemma set_add_ids:
  "\<not> is_reference (fst a) \<Longrightarrow> fst ` set (set_add a members) = insert (fst a) (fst ` set members)"
  by (auto simp: set_add_def same_member_def list_ex_iff)

lemma build_childMap_ids:
  assumes "\<forall>s \<in> set xs. \<not> is_reference (read_prop (fst s) ''spanId'')"
    and "build_childMap xs cm0 = Some cm"
  shows "set (child_ids cm k) =
     set (child_ids cm0 k) \<union>
     (\<lambda>s. read_prop (fst s) ''spanId'') `
       {s \<in> set xs. truthy (read_prop (fst s) ''parentSpanId'')
          \<and> same_value_zero (read_prop (fst s) ''parentSpanId'') k}"
  using assms
proof (induction xs arbitrary: cm0)
  case Nil
  then show ?case by simp
next
  case (Cons s rest)
  let ?par = "read_prop (fst s) ''parentSpanId''"
  let ?sid = "read_prop (fst s) ''spanId''"
  from Cons.prems(2) have g: "get (fst s) ''parentSpanId'' = Some ?par"
    by (auto simp: get_def bind_eq_Some_conv split: if_splits)
  from Cons.prems(1) have prim: "\<not> is_reference ?sid"
    and rest: "\<forall>s \<in> set rest. \<not> is_reference (read_prop (fst s) ''spanId'')"
    by simp_all
  show ?case
  proof (cases "truthy ?par")
    case False
    with Cons.prems(2) g have "build_childMap rest cm0 = Some cm" by simp
    note ih = Cons.IH [OF rest this]
    have "{x \<in> set (s # rest). truthy (read_prop (fst x) ''parentSpanId'')
            \<and> same_value_zero (read_prop (fst x) ''parentSpanId'') k}
        = {x \<in> set rest. truthy (read_prop (fst x) ''parentSpanId'')
            \<and> same_value_zero (read_prop (fst x) ''parentSpanId'') k}"
      using False by auto
    with ih show ?thesis by simp
  next
    case True
    let ?children = "case map_get cm0 ?par of Some c \<Rightarrow> c | None \<Rightarrow> []"
    let ?cm1 = "map_set ?par (set_add (?sid, snd s) ?children) cm0"
    from Cons.prems(2) g True have "build_childMap rest ?cm1 = Some cm" by (simp add: Let_def)
    note ih = Cons.IH [OF rest this]
    have "set (child_ids ?cm1 k) =
        set (child_ids cm0 k) \<union> (if same_value_zero ?par k then {?sid} else {})"
    proof (cases "same_value_zero ?par k")
      case False
      then show ?thesis by (simp add: child_ids_def map_get_map_set)
    next
      case s: True
      then have "?par = k" by (simp add: same_value_zero_def)
      then have "set (child_ids cm0 k) = fst ` set ?children"
        by (cases "map_get cm0 k") (simp_all add: child_ids_def)
      with s prim set_add_ids [of "(?sid, snd s)" ?children] show ?thesis
        by (simp add: child_ids_def map_get_map_set)
    qed
    moreover have "{x \<in> set (s # rest). truthy (read_prop (fst x) ''parentSpanId'')
            \<and> same_value_zero (read_prop (fst x) ''parentSpanId'') k}
        = (if same_value_zero ?par k then {s} else {})
          \<union> {x \<in> set rest. truthy (read_prop (fst x) ''parentSpanId'')
            \<and> same_value_zero (read_prop (fst x) ''parentSpanId'') k}"
      using True by auto
    ultimately show ?thesis
      unfolding ih by (cases "same_value_zero ?par k") simp_all
  qed
qed

lemma indexed_spans [simp]: "map fst (indexed spans) = spans"
  by (simp add: indexed_def)

lemma indexed_member: "x \<in> set (indexed spans) \<Longrightarrow> fst x \<in> set spans"
  using set_zip_leftD [of "fst x" "snd x" spans] by (simp add: indexed_def)

lemma indexed_image:
  "(\<lambda>s. f (fst s)) ` {s \<in> set (indexed spans). Q (fst s)} = f ` {c \<in> set spans. Q c}"
proof -
  have e: "fst ` set (indexed spans) = set spans"
    using set_map [of fst "indexed spans"] by simp
  have "{c \<in> set spans. Q c} = fst ` {s \<in> set (indexed spans). Q (fst s)}"
    unfolding e [symmetric] by auto
  then show ?thesis by (simp add: image_image)
qed

text \<open>
  \<^verbatim>\<open>findLeafLLMSpans\<close> returns the leaf LLM spans in the order of the list, whenever it
  returns and the span identifiers are primitive values.
\<close>

lemma findLeafLLMSpans_leaves:
  assumes prim: "\<forall>s \<in> set spans. \<not> is_reference (read_prop s ''spanId'')"
    and ls: "findLeafLLMSpans rt m spans = Some ls"
  shows "ls = filter (leaf_llm_span rt m spans) spans"
proof -
  let ?sid = "\<lambda>s. read_prop (fst s) ''spanId''"
  from ls obtain llm cm where llm: "filter_js (\<lambda>s. isLLMSpan rt m (fst s)) (indexed spans) = Some llm"
    and cm: "build_childMap (indexed spans) [] = Some cm"
    and res: "ls = map fst
       (filter (\<lambda>s. case map_get cm (?sid s) of
                  None \<Rightarrow> True
                | Some children \<Rightarrow>
                    \<not> list_ex (\<lambda>childId. list_ex (same_member childId)
                                 (map (\<lambda>s. (?sid s, snd s)) llm)) children)
          llm)"
    by (auto simp: findLeafLLMSpans_def Let_def bind_eq_Some_conv)
  define llmSpanIds where "llmSpanIds = map (\<lambda>s. (?sid s, snd s)) llm"
  let ?keep = "\<lambda>s. case map_get cm (?sid s) of
                  None \<Rightarrow> True
                | Some children \<Rightarrow>
                    \<not> list_ex (\<lambda>childId. list_ex (same_member childId) llmSpanIds) children"
  have res': "ls = map fst (filter ?keep llm)" unfolding llmSpanIds_def by (rule res)
  from llm have llm': "llm = filter (\<lambda>x. llm_span rt m (fst x)) (indexed spans)"
    by (simp add: filter_js_result llm_span_def)
  have prim': "\<forall>s \<in> set (indexed spans). \<not> is_reference (?sid s)"
    using prim indexed_member by blast
  have ids: "set (child_ids cm k) =
      (\<lambda>c. read_prop c ''spanId'') `
        {c \<in> set spans. truthy (read_prop c ''parentSpanId'')
           \<and> same_value_zero (read_prop c ''parentSpanId'') k}" for k
    using build_childMap_ids [OF prim' cm, of k]
      indexed_image [of "\<lambda>c. read_prop c ''spanId''" spans
        "\<lambda>c. truthy (read_prop c ''parentSpanId'')
           \<and> same_value_zero (read_prop c ''parentSpanId'') k"]
    by (simp add: child_ids_def)
  have llm_ids: "fst ` set llmSpanIds =
      (\<lambda>l. read_prop l ''spanId'') ` {l \<in> set spans. llm_span rt m l}"
    unfolding llmSpanIds_def llm'
    using indexed_image [of "\<lambda>c. read_prop c ''spanId''" spans "llm_span rt m"]
    by (simp add: image_image)
  have keep: "?keep s \<longleftrightarrow> \<not> has_llm_child rt m spans (fst s)"
    if s: "s \<in> set (indexed spans)" for s
  proof -
    let ?k = "?sid s"
    from s prim' have k: "\<not> is_reference ?k" by blast
    have svz: "same_value_zero a ?k \<longleftrightarrow> a = ?k" for a
      using k by (auto simp: same_value_zero_def)
    have "?keep s \<longleftrightarrow> \<not> (\<exists>i \<in> set (child_ids cm ?k). i \<in> fst ` set llmSpanIds)"
    proof (cases "map_get cm ?k")
      case None
      then show ?thesis by (simp add: child_ids_def)
    next
      case (Some children)
      have "\<not> is_reference (fst c)" if "c \<in> set children" for c
      proof -
        from that Some have "fst c \<in> set (child_ids cm ?k)" by (simp add: child_ids_def)
        then show ?thesis unfolding ids using prim by auto
      qed
      then have eq: "(\<exists>x \<in> set xs. same_member c x) \<longleftrightarrow> fst c \<in> fst ` set xs"
        if "c \<in> set children" for c xs
        using that by (auto simp: same_member_def image_iff)
      have "list_ex (\<lambda>childId. list_ex (same_member childId) llmSpanIds) children
          \<longleftrightarrow> (\<exists>c \<in> set children. fst c \<in> fst ` set llmSpanIds)"
        unfolding list_ex_iff using eq by blast
      then show ?thesis using Some by (simp add: child_ids_def)
    qed
    also have "\<dots> \<longleftrightarrow> \<not> has_llm_child rt m spans (fst s)"
    proof -
      have "(\<exists>i \<in> set (child_ids cm ?k). i \<in> fst ` set llmSpanIds)
          \<longleftrightarrow> has_llm_child rt m spans (fst s)"
      proof
        assume "\<exists>i \<in> set (child_ids cm ?k). i \<in> fst ` set llmSpanIds"
        then obtain c l where "c \<in> set spans" "truthy (read_prop c ''parentSpanId'')"
          "read_prop c ''parentSpanId'' = ?k" "l \<in> set spans" "llm_span rt m l"
          "read_prop l ''spanId'' = read_prop c ''spanId''"
          unfolding ids llm_ids svz by auto
        then show "has_llm_child rt m spans (fst s)"
          unfolding has_llm_child_def list_ex_iff by blast
      next
        assume "has_llm_child rt m spans (fst s)"
        then obtain c l where c: "c \<in> set spans" "truthy (read_prop c ''parentSpanId'')"
          "read_prop c ''parentSpanId'' = ?k" and l: "l \<in> set spans" "llm_span rt m l"
          "read_prop l ''spanId'' = read_prop c ''spanId''"
          unfolding has_llm_child_def list_ex_iff by blast
        from c have "read_prop c ''spanId'' \<in> set (child_ids cm ?k)"
          unfolding ids svz by simp
        moreover from l have "read_prop c ''spanId'' \<in> fst ` set llmSpanIds"
          unfolding llm_ids by (auto simp: image_iff)
        ultimately show "\<exists>i \<in> set (child_ids cm ?k). i \<in> fst ` set llmSpanIds"
          by blast
      qed
      then show ?thesis by simp
    qed
    finally show ?thesis .
  qed
  have "filter ?keep llm = filter (\<lambda>x. leaf_llm_span rt m spans (fst x)) (indexed spans)"
    unfolding llm' filter_filter using keep
    by (intro filter_cong) (auto simp: leaf_llm_span_def)
  with res' have "ls = map fst (filter (\<lambda>x. leaf_llm_span rt m spans (fst x)) (indexed spans))"
    by simp
  also have "\<dots> = filter (leaf_llm_span rt m spans) (map fst (indexed spans))"
    by (simp add: filter_map comp_def del: indexed_spans)
  finally show ?thesis by simp
qed

text \<open>One LLM span that is the parent of the one other LLM span: the child is the only leaf.\<close>

lemma single_member:
  assumes "distinct ys" and "set ys = {a}"
  shows "ys = [a]"
proof (cases ys)
  case Nil
  with assms(2) show ?thesis by simp
next
  case (Cons y rest)
  with assms(2) have y: "y = a" and sub: "set rest \<subseteq> {a}" by auto
  from assms(1) Cons y have "a \<notin> set rest" by simp
  have "rest = []"
  proof (cases rest)
    case Nil
    then show ?thesis .
  next
    case (Cons z zs)
    then have z: "z \<in> set rest" by simp
    with sub have "z = a" by blast
    with z \<open>a \<notin> set rest\<close> show ?thesis by simp
  qed
  with Cons y show ?thesis by simp
qed

lemma nested_pair_leaf_span:
  assumes ids: "distinct (map (\<lambda>s. read_prop s ''spanId'') spans)"
    and llm: "set (filter (llm_span rt m) spans) = {outer, inner}"
    and ne: "outer \<noteq> inner"
    and child: "truthy (read_prop inner ''parentSpanId'')"
      "read_prop inner ''parentSpanId'' = read_prop outer ''spanId''"
    and acyclic: "read_prop outer ''parentSpanId'' \<noteq> read_prop inner ''spanId''"
  shows "filter (leaf_llm_span rt m spans) spans = [inner]"
proof -
  from ids have d: "distinct spans" and inj: "inj_on (\<lambda>s. read_prop s ''spanId'') (set spans)"
    by (simp_all add: distinct_map)
  from llm have o: "outer \<in> set spans" "llm_span rt m outer"
    and i: "inner \<in> set spans" "llm_span rt m inner"
    by auto
  from i child have 1: "has_llm_child rt m spans outer"
    unfolding has_llm_child_def list_ex_iff by blast
  have 2: "\<not> has_llm_child rt m spans inner"
  proof
    assume "has_llm_child rt m spans inner"
    then obtain c l where c: "c \<in> set spans" "truthy (read_prop c ''parentSpanId'')"
        "read_prop c ''parentSpanId'' = read_prop inner ''spanId''"
      and l: "l \<in> set spans" "llm_span rt m l" "read_prop l ''spanId'' = read_prop c ''spanId''"
      unfolding has_llm_child_def list_ex_iff by blast
    from l(1,3) c(1) inj have "l = c" by (auto dest: inj_onD)
    moreover from l(1,2) llm have "l = outer \<or> l = inner" by auto
    ultimately have "c = outer \<or> c = inner" by simp
    then show False
    proof
      assume "c = outer"
      with c(3) acyclic show False by simp
    next
      assume "c = inner"
      with c(3) child(2) have "read_prop outer ''spanId'' = read_prop inner ''spanId''" by simp
      with inj o(1) i(1) have "outer = inner" by (auto dest: inj_onD)
      with ne show False by simp
    qed
  qed
  have "set (filter (leaf_llm_span rt m spans) spans) = {inner}"
  proof -
    have "set (filter (leaf_llm_span rt m spans) spans) =
        {s \<in> set (filter (llm_span rt m) spans). \<not> has_llm_child rt m spans s}"
      by (auto simp: leaf_llm_span_def)
    also have "\<dots> = {inner}" unfolding llm using 1 2 by auto
    finally show ?thesis .
  qed
  with d show ?thesis by (intro single_member) simp_all
qed

lemma isLLMSpan_defined: "isLLMSpan rt mappings s = Some b \<Longrightarrow> \<not> nullish s"
  by (auto simp: isLLMSpan_def lower_name_def get_def bind_eq_Some_conv split: if_splits)

lemma normalize_spans_nested_pair:
  assumes "\<forall>s \<in> set spans. \<not> is_reference (read_prop s ''spanId'')"
    and "distinct (map (\<lambda>s. read_prop s ''spanId'') spans)"
    and "set (filter (llm_span rt (getOTelMappings registry)) spans) = {outer, inner}"
    and "outer \<noteq> inner"
    and "truthy (read_prop inner ''parentSpanId'')"
    and "read_prop inner ''parentSpanId'' = read_prop outer ''spanId''"
    and "read_prop outer ''parentSpanId'' \<noteq> read_prop inner ''spanId''"
    and "normalize_spans rt registry p spans = Some res"
  shows "\<exists>ctx. convertSpanToReviewItem rt (p @ [1, 0]) inner ctx (getOTelMappings registry)
            (Date_now rt p) = Some res"
proof -
  let ?m = "getOTelMappings registry"
  from assms(3) have "spans \<noteq> []" by auto
  with assms(8) obtain ctx ls where ls: "findLeafLLMSpans rt ?m spans = Some ls"
    and res: "(if 0 < length ls then convert_spans rt p ctx ?m (Date_now rt p) ls
               else do {
                 llmLikeSpans \<leftarrow> filter_js (\<lambda>s. do {
                     hasPrompt \<leftarrow> has_any_attribute rt s (promptAttributes ?m);
                     hasResponse \<leftarrow> has_any_attribute rt s (responseAttributes ?m);
                     Some (hasPrompt \<or> hasResponse)
                   }) spans;
                 if 0 < length llmLikeSpans
                 then convert_spans rt p ctx ?m (Date_now rt p) llmLikeSpans
                 else do {
                   rootSpans \<leftarrow> filter_js (\<lambda>s. do {
                       parentSpanId \<leftarrow> get s ''parentSpanId'';
                       Some (\<not> truthy parentSpanId)
                     }) spans;
                   convert_spans rt p ctx ?m (Date_now rt p) rootSpans
                 }
               }) = Some res"
    by (auto simp: normalize_spans_def Let_def bind_eq_Some_conv)
  from findLeafLLMSpans_leaves [OF assms(1) ls] nested_pair_leaf_span [OF assms(2-7)]
  have "ls = [inner]" by simp
  with res show ?thesis
    by (auto simp: convert_spans_def indexed_def one_or_many_def bind_eq_Some_conv)
qed

subsection \<open>Leaf-only extraction\<close>

text \<open>
  What the two adapters do on a nested pair. In a LangSmith run tree the runs
  \<^verbatim>\<open>findLLMLeafSpans\<close> returns are the LLM runs with no LLM run anywhere below them, so a
  tree whose only LLM runs are an outer run and an inner run nested in it (at any depth)
  gives exactly one record, the conversion of the inner run. In an OTel span list with
  primitive span identifiers the spans \<^verbatim>\<open>findLeafLLMSpans\<close> returns are the LLM spans of
  which no \<^emph>\<open>direct\<close> child carries the identifier of an LLM span, so a list with distinct
  identifiers whose only LLM spans are a parent and its direct child gives exactly one
  record, the conversion of the child.
\<close>

lemma nested_pair_one_record:
  "(findLLMLeafSpans rt tree = Some ls \<longrightarrow> ls = filter leaf_llm (runs_of tree))
   \<and> (filter llm_run (runs_of tree) = [outer, inner] \<and> inner \<in> set (below outer)
        \<and> normalize_root rt p now tree = Some its \<longrightarrow>
        (\<exists>ctx r. convertRunToReviewItem rt (p @ [1, 0]) inner now ctx = Some r \<and> its = [r]))
   \<and> ((\<forall>s \<in> set spans. \<not> is_reference (read_prop s ''spanId''))
        \<and> findLeafLLMSpans rt m spans = Some ls' \<longrightarrow>
        ls' = filter (leaf_llm_span rt m spans) spans)
   \<and> ((\<forall>s \<in> set spans. \<not> is_reference (read_prop s ''spanId''))
        \<and> distinct (map (\<lambda>s. read_prop s ''spanId'') spans)
        \<and> set (filter (llm_span rt (getOTelMappings registry)) spans) = {parent, child}
        \<and> parent \<noteq> child
        \<and> truthy (read_prop child ''parentSpanId'')
        \<and> read_prop child ''parentSpanId'' = read_prop parent ''spanId''
        \<and> read_prop parent ''parentSpanId'' \<noteq> read_prop child ''spanId''
        \<and> normalize_spans rt registry p spans = Some res \<longrightarrow>
        (\<exists>ctx. convertSpanToReviewItem rt (p @ [1, 0]) child ctx (getOTelMappings registry)
                 (Date_now rt p) = Some res))"
proof (intro conjI impI)
  assume "findLLMLeafSpans rt tree = Some ls"
  then show "ls = filter leaf_llm (runs_of tree)" by (rule findLLMLeafSpans_leaves)
next
  assume "filter llm_run (runs_of tree) = [outer, inner] \<and> inner \<in> set (below outer)
        \<and> normalize_root rt p now tree = Some its"
  then show "\<exists>ctx r. convertRunToReviewItem rt (p @ [1, 0]) inner now ctx = Some r \<and> its = [r]"
    using normalize_root_nested_pair [of tree outer inner rt p now its] by blast
next
  assume "(\<forall>s \<in> set spans. \<not> is_reference (read_prop s ''spanId''))
        \<and> findLeafLLMSpans rt m spans = Some ls'"
  then show "ls' = filter (leaf_llm_span rt m spans) spans"
    using findLeafLLMSpans_leaves [of spans rt m ls'] by blast
next
  assume a: "(\<forall>s \<in> set spans. \<not> is_reference (read_prop s ''spanId''))
        \<and> distinct (map (\<lambda>s. read_prop s ''spanId'') spans)
        \<and> set (filter (llm_span rt (getOTelMappings registry)) spans) = {parent, child}
        \<and> parent \<noteq> child
        \<and> truthy (read_prop child ''parentSpanId'')
        \<and> read_prop child ''parentSpanId'' = read_prop parent ''spanId''
        \<and> read_prop parent ''parentSpanId'' \<noteq> read_prop child ''spanId''
        \<and> normalize_spans rt registry p spans = Some res"
  show "\<exists>ctx. convertSpanToReviewItem rt (p @ [1, 0]) child ctx (getOTelMappings registry)
                 (Date_now rt p) = Some res"
    by (rule normalize_spans_nested_pair [of spans rt registry parent child p res])
      (use a in blast)+
qed

lemma detect_three_span_export:
  "detectAdapter adapterRegistry three_span_export = Some (Some otelAdapter)"
  by (simp add: registry_defs isLangSmithExport_def isLangSmithRun_def isOTelExport_def js_defs
      three_span_export_def outer_span_def)

lemma extract_three_span_export:
  "extractSpans three_span_export = Some [outer_span, middle_span, inner_span]"
  by (simp add: extractSpans_def three_span_export_def js_defs)

lemma leaves_three_spans:
  "findLeafLLMSpans sample_host DEFAULT_OTEL_MAPPINGS [outer_span, middle_span, inner_span]
     = Some [outer_span, inner_span]"
  by (simp add: findLeafLLMSpans_def indexed_def outer_span_llm middle_span_not_llm inner_span_llm)
    (simp add: outer_span_def middle_span_def inner_span_def get_def nullish_def
      same_value_zero_def same_member_def set_add_def)

lemma context_three_spans:
  "extractContextFromRetrievers sample_host q DEFAULT_OTEL_MAPPINGS
     [outer_span, middle_span, inner_span] = Some []"
  by (simp add: extractContextFromRetrievers_def isRetrieverSpan_def lower_name_def
      outer_span_def middle_span_def inner_span_def js_defs DEFAULT_OTEL_MAPPINGS_def)

lemma normalize_three_spans:
  "normalize_spans sample_host adapterRegistry q [outer_span, middle_span, inner_span]
     = Some (Arr [span_record ''outer'' Undefined, span_record ''inner'' (Str ''mid'')])"
  unfolding normalize_spans_def Let_def default_mappings
  by (simp add: context_three_spans leaves_three_spans convert_spans_def indexed_def
      convert_outer_span convert_inner_span one_or_many_def)

lemma runs_of_run_without_outputs: "runs_of run_without_outputs = [run_without_outputs]"
  by (simp add: runs_of.simps [of run_without_outputs]) (simp add: run_without_outputs_def)

lemma runs_of_middle_run: "runs_of middle_run = [middle_run, run_without_outputs]"
  by (simp add: runs_of.simps [of middle_run] runs_of_run_without_outputs)
    (simp add: middle_run_def runs_of_run_without_outputs)

lemma runs_of_nested_run: "runs_of nested_run = [nested_run, middle_run, run_without_outputs]"
  by (simp add: runs_of.simps [of nested_run])
    (simp add: nested_run_def runs_of_middle_run)

lemma below_nested_run: "below nested_run = [middle_run, run_without_outputs]"
  using runs_of_nested_run by (simp add: runs_of_below [of nested_run])

lemma llm_runs_nested_run:
  "filter llm_run (runs_of nested_run) = [nested_run, run_without_outputs]"
  by (simp add: runs_of_nested_run llm_run_def)
    (simp add: nested_run_def middle_run_def run_without_outputs_def getSpanType_def js_defs)

lemma leaves_nested_run: "findLLMLeafSpans sample_host nested_run = Some [run_without_outputs]"
  by (simp add: langsmith_defs js_defs nested_run_def middle_run_def run_without_outputs_def)

lemma normalize_root_nested_run:
  "normalize_root sample_host q ''2026-01-01T00:00:00.000Z'' nested_run = Some [langsmith_record]"
  by (simp add: langsmith_defs js_defs nested_run_def middle_run_def run_without_outputs_def
      langsmith_record_def sample_host_def)

lemma leaves_outer_and_child:
  "findLeafLLMSpans sample_host DEFAULT_OTEL_MAPPINGS [outer_span, child_span] = Some [child_span]"
  by (simp add: findLeafLLMSpans_def indexed_def outer_span_llm child_span_llm)
    (simp add: outer_span_def child_span_def get_def nullish_def
      same_value_zero_def same_member_def set_add_def)

lemma context_outer_and_child:
  "extractContextFromRetrievers sample_host q DEFAULT_OTEL_MAPPINGS [outer_span, child_span]
     = Some []"
  by (simp add: extractContextFromRetrievers_def isRetrieverSpan_def lower_name_def
      outer_span_def child_span_def js_defs DEFAULT_OTEL_MAPPINGS_def)

lemma normalize_outer_and_child:
  "normalize_spans sample_host adapterRegistry q [outer_span, child_span]
     = Some (span_record ''inner'' (Str ''outer''))"
  unfolding normalize_spans_def Let_def default_mappings
  by (simp add: context_outer_and_child leaves_outer_and_child convert_spans_def indexed_def
      convert_child_span one_or_many_def)

lemma nested_pair_one_record_sample:
  "findLLMLeafSpans sample_host nested_run = Some [run_without_outputs]
   \<and> filter leaf_llm (runs_of nested_run) = [run_without_outputs]
   \<and> filter llm_run (runs_of nested_run) = [nested_run, run_without_outputs]
   \<and> run_without_outputs \<in> set (below nested_run)
   \<and> normalize_root sample_host [0] ''2026-01-01T00:00:00.000Z'' nested_run
       = Some [langsmith_record]
   \<and> (\<exists>ctx. convertRunToReviewItem sample_host [0, 1, 0] run_without_outputs
               ''2026-01-01T00:00:00.000Z'' ctx = Some langsmith_record)
   \<and> findLeafLLMSpans sample_host DEFAULT_OTEL_MAPPINGS [outer_span, child_span]
       = Some [child_span]
   \<and> filter (leaf_llm_span sample_host DEFAULT_OTEL_MAPPINGS [outer_span, child_span])
        [outer_span, child_span] = [child_span]
   \<and> normalize_spans sample_host adapterRegistry [0] [outer_span, child_span]
       = Some (span_record ''inner'' (Str ''outer''))
   \<and> (\<exists>ctx. convertSpanToReviewItem sample_host [0, 1, 0] child_span ctx DEFAULT_OTEL_MAPPINGS
               ''2026-01-01T00:00:00.000Z'' = Some (span_record ''inner'' (Str ''outer'')))"
proof -
  note leaf = nested_pair_one_record [where rt = sample_host and tree = nested_run
      and ls = "[run_without_outputs]" and outer = nested_run and inner = run_without_outputs
      and p = "[0]" and now = "''2026-01-01T00:00:00.000Z''" and its = "[langsmith_record]"
      and spans = "[outer_span, child_span]" and m = DEFAULT_OTEL_MAPPINGS
      and ls' = "[child_span]" and registry = adapterRegistry and parent = outer_span
      and child = child_span and res = "span_record ''inner'' (Str ''outer'')"]
  note first = leaf [THEN conjunct1, rule_format]
  note second = leaf [THEN conjunct2, THEN conjunct1, rule_format]
  note third = leaf [THEN conjunct2, THEN conjunct2, THEN conjunct1, rule_format]
  note fourth = leaf [THEN conjunct2, THEN conjunct2, THEN conjunct2, rule_format]
  have m: "run_without_outputs \<in> set (below nested_run)" by (simp add: below_nested_run)
  have ids: "\<forall>s \<in> set [outer_span, child_span]. \<not> is_reference (read_prop s ''spanId'')"
    by (simp add: outer_span_def child_span_def)
  have d: "distinct (map (\<lambda>s. read_prop s ''spanId'') [outer_span, child_span])"
    by (simp add: outer_span_def child_span_def)
  have l: "set (filter (llm_span sample_host (getOTelMappings adapterRegistry))
        [outer_span, child_span]) = {outer_span, child_span}"
    by (simp add: llm_span_def default_mappings outer_span_llm child_span_llm)
  have n: "outer_span \<noteq> child_span"
    "truthy (read_prop child_span ''parentSpanId'')"
    "read_prop child_span ''parentSpanId'' = read_prop outer_span ''spanId''"
    "read_prop outer_span ''parentSpanId'' \<noteq> read_prop child_span ''spanId''"
    by (simp_all add: outer_span_def child_span_def)
  have 1: "filter leaf_llm (runs_of nested_run) = [run_without_outputs]"
    using first [OF leaves_nested_run] by simp
  have 2: "\<exists>ctx. convertRunToReviewItem sample_host [0, 1, 0] run_without_outputs
      ''2026-01-01T00:00:00.000Z'' ctx = Some langsmith_record"
    using second llm_runs_nested_run m normalize_root_nested_run by auto
  have 3: "filter (leaf_llm_span sample_host DEFAULT_OTEL_MAPPINGS [outer_span, child_span])
      [outer_span, child_span] = [child_span]"
    using third ids leaves_outer_and_child by simp
  have 4: "\<exists>ctx. convertSpanToReviewItem sample_host [0, 1, 0] child_span ctx
      DEFAULT_OTEL_MAPPINGS ''2026-01-01T00:00:00.000Z''
        = Some (span_record ''inner'' (Str ''outer''))"
    using fourth ids d l n normalize_outer_and_child by (simp add: default_mappings)
  from 1 2 3 4 m leaves_nested_run llm_runs_nested_run normalize_root_nested_run
    leaves_outer_and_child normalize_outer_and_child
  show ?thesis by simp
qed

lemma normalize_nested_run:
  "langsmith_normalize sample_host q nested_run = Some langsmith_record"
  by (simp add: langsmith_defs js_defs nested_run_def middle_run_def run_without_outputs_def
      langsmith_record_def sample_host_def)

lemma detect_nested_run:
  "detectAdapter adapterRegistry nested_run = Some (Some langSmithAdapter)"
  by (simp add: registry_defs isLangSmithExport_def isLangSmithRun_def js_defs nested_run_def)

text \<open>
  C4, on the code. The flat OTel export of three spans holds an outer LLM span, a chain
  step below it and an inner LLM span below the chain step, and no other LLM span.
  \<^verbatim>\<open>findLeafLLMSpans\<close> returns the outer span as well as the inner one, and \<^verbatim>\<open>normalize\<close>
  gives two records: it looks for LLM spans among the direct children of a span only.
  The LangSmith adapter, on a run tree of the same shape, gives the one record of the
  inner run, and so does the OTel adapter when the inner span is a direct child of the
  outer one.
\<close>

theorem leaf_only:
  "detectAdapter adapterRegistry three_span_export = Some (Some otelAdapter)
   \<and> extractSpans three_span_export = Some [outer_span, middle_span, inner_span]
   \<and> llm_span sample_host DEFAULT_OTEL_MAPPINGS outer_span
   \<and> \<not> llm_span sample_host DEFAULT_OTEL_MAPPINGS middle_span
   \<and> llm_span sample_host DEFAULT_OTEL_MAPPINGS inner_span
   \<and> read_prop outer_span ''parentSpanId'' = Undefined
   \<and> read_prop middle_span ''parentSpanId'' = read_prop outer_span ''spanId''
   \<and> read_prop inner_span ''parentSpanId'' = read_prop middle_span ''spanId''
   \<and> findLeafLLMSpans sample_host DEFAULT_OTEL_MAPPINGS [outer_span, middle_span, inner_span]
       = Some [outer_span, inner_span]
   \<and> normalize sample_host adapterRegistry [0] otelAdapter three_span_export
       = Some (Arr [span_record ''outer'' Undefined, span_record ''inner'' (Str ''mid'')])
   \<and> detectAdapter adapterRegistry nested_run = Some (Some langSmithAdapter)
   \<and> runs_of nested_run = [nested_run, middle_run, run_without_outputs]
   \<and> filter llm_run (runs_of nested_run) = [nested_run, run_without_outputs]
   \<and> findLLMLeafSpans sample_host nested_run = Some [run_without_outputs]
   \<and> normalize sample_host adapterRegistry [0] langSmithAdapter nested_run
       = Some langsmith_record
   \<and> read_prop child_span ''parentSpanId'' = read_prop outer_span ''spanId''
   \<and> findLeafLLMSpans sample_host DEFAULT_OTEL_MAPPINGS [outer_span, child_span]
       = Some [child_span]
   \<and> normalize sample_host adapterRegistry [0] otelAdapter (Arr [outer_span, child_span])
       = Some (span_record ''inner'' (Str ''outer''))"
proof -
  have "normalize sample_host adapterRegistry [0] otelAdapter three_span_export
      = do { spans \<leftarrow> extractSpans three_span_export;
             normalize_spans sample_host adapterRegistry [0] spans }"
    by (simp add: otel_normalize_def three_span_export_def)
  then have three: "normalize sample_host adapterRegistry [0] otelAdapter three_span_export
      = Some (Arr [span_record ''outer'' Undefined, span_record ''inner'' (Str ''mid'')])"
    by (simp add: extract_three_span_export normalize_three_spans)
  have parents: "read_prop outer_span ''parentSpanId'' = Undefined"
    "read_prop middle_span ''parentSpanId'' = read_prop outer_span ''spanId''"
    "read_prop inner_span ''parentSpanId'' = read_prop middle_span ''spanId''"
    "read_prop child_span ''parentSpanId'' = read_prop outer_span ''spanId''"
    by (simp_all add: outer_span_def middle_span_def inner_span_def child_span_def)
  have two: "normalize sample_host adapterRegistry [0] otelAdapter (Arr [outer_span, child_span])
      = Some (span_record ''inner'' (Str ''outer''))"
    by (simp add: otel_normalize_def normalize_outer_and_child)
  have llm: "llm_span sample_host DEFAULT_OTEL_MAPPINGS outer_span"
    "\<not> llm_span sample_host DEFAULT_OTEL_MAPPINGS middle_span"
    "llm_span sample_host DEFAULT_OTEL_MAPPINGS inner_span"
    by (simp_all add: llm_span_def outer_span_llm middle_span_not_llm inner_span_llm)
  have tree: "normalize sample_host adapterRegistry [0] langSmithAdapter nested_run
      = Some langsmith_record"
    by (simp add: normalize_nested_run)
  note facts = detect_three_span_export extract_three_span_export llm parents
    leaves_three_spans three detect_nested_run runs_of_nested_run llm_runs_nested_run
    leaves_nested_run tree leaves_outer_and_child two
  show ?thesis by (intro conjI) (rule facts)+
qed

end
